theory Spec2Isabelle
  imports Complex_Main "HOL-Library.Product_Lexorder"
begin

chapter \<open>Composite objects: expansion into bodies, joints, tendons, constraints and skins\<close>

text \<open>
  A shallow embedding of \<^verbatim>\<open>src/user/user_composite.cc\<close>. The C++ class
  \<^verbatim>\<open>mjCComposite\<close> becomes a record, its methods become functions that take the
  model under construction and return it updated, and every \<^verbatim>\<open>return comperr(...)\<close>
  becomes a result that carries the error message.

  Conventions of the embedding:
  \<^item> \<^verbatim>\<open>int\<close> is \<^typ>\<open>int\<close> and \<^verbatim>\<open>mjtNum\<close> (a C double) is \<^typ>\<open>real\<close>:
    arithmetic is exact, neither overflow nor rounding is represented;
  \<^item> a pointer to a body is the index of the body in the model's list of bodies;
  \<^item> the records keep the fields that the builders write and that the properties
    below speak about (names, types, parents, wraps, the lattice positions of particle and
    grid bodies); solver parameters, colours, sizes and orientations are left out.
\<close>

section \<open>Bicubic subgrid weight solver\<close>

text \<open>A matrix is a row-major array of numbers, as in the source.\<close>

type_synonym mjtNum = real

text \<open>\<^verbatim>\<open>C = W * [f; f_x; f_y; f_xy]\<close>\<close>

definition subW :: "mjtNum list" where
  "subW = [
  1,  0,  0,  0,  0,  0,  0,  0,  0,  0,  0,  0,  0,  0,  0,  0,
  0,  0,  0,  0,  0,  0,  0,  0,  1,  0,  0,  0,  0,  0,  0,  0,
 -3,  0,  0,  3,  0,  0,  0,  0, -2,  0,  0, -1,  0,  0,  0,  0,
  2,  0,  0, -2,  0,  0,  0,  0,  1,  0,  0,  1,  0,  0,  0,  0,
  0,  0,  0,  0,  1,  0,  0,  0,  0,  0,  0,  0,  0,  0,  0,  0,
  0,  0,  0,  0,  0,  0,  0,  0,  0,  0,  0,  0,  1,  0,  0,  0,
  0,  0,  0,  0, -3,  0,  0,  3,  0,  0,  0,  0, -2,  0,  0, -1,
  0,  0,  0,  0,  2,  0,  0, -2,  0,  0,  0,  0,  1,  0,  0,  1,
 -3,  3,  0,  0, -2, -1,  0,  0,  0,  0,  0,  0,  0,  0,  0,  0,
  0,  0,  0,  0,  0,  0,  0,  0, -3,  3,  0,  0, -2, -1,  0,  0,
  9, -9,  9, -9,  6,  3, -3, -6,  6, -6, -3,  3,  4,  2,  1,  2,
 -6,  6, -6,  6, -4, -2,  2,  4, -3,  3,  3, -3, -2, -1, -1, -2,
  2, -2,  0,  0,  1,  1,  0,  0,  0,  0,  0,  0,  0,  0,  0,  0,
  0,  0,  0,  0,  0,  0,  0,  0,  2, -2,  0,  0,  1,  1,  0,  0,
 -6,  6, -6,  6, -3, -3,  3,  3, -4,  4,  2, -2, -2, -2, -1, -1,
  4, -4,  4, -4,  2,  2, -2, -2,  2, -2, -2,  2,  1,  1,  1,  1]"

text \<open>
  The nine sparse tables, one per position of the coarse cell in the lattice
  (left/center/right times bottom/center/top). Each of the 16 rows is a run of
  (column, value) pairs closed by \<open>-1\<close>; the rows give \<open>f\<close>, \<open>f_x\<close>, \<open>f_y\<close> and
  \<open>f_xy\<close> at the four corners of the cell.
\<close>

definition subD00 :: "mjtNum list" where
  "subD00 = [
  5,  1, -1,
  9,  1, -1,
  10, 1, -1,
  6,  1, -1,

  5, -1,   9,  1,   -1,
  5, -0.5, 13, 0.5, -1,
  6, -0.5, 14, 0.5, -1,
  6, -1,   10, 1,   -1,

  5, -1,   6,  1,   -1,
  9, -1,   10, 1,   -1,
  9, -0.5, 11, 0.5, -1,
  5, -0.5, 7,  0.5, -1,

  9,  -1,    6, -1,    5, 1,    10, 1,    -1,
  13, -0.5,  6, -0.5,  5, 0.5,  14, 0.5,  -1,
  13, -0.25, 7, -0.25, 5, 0.25, 15, 0.25, -1,
  9,  -0.5,  7, -0.5,  5, 0.5,  11, 0.5,  -1]"

definition subD10 :: "mjtNum list" where
  "subD10 = [
  5,  1, -1,
  9,  1, -1,
  10, 1, -1,
  6,  1, -1,

  1, -0.5, 9,  0.5, -1,
  5, -0.5, 13, 0.5, -1,
  6, -0.5, 14, 0.5, -1,
  2, -0.5, 10, 0.5, -1,

  5, -1,   6,  1,   -1,
  9, -1,   10, 1,   -1,
  9, -0.5, 11, 0.5, -1,
  5, -0.5, 7,  0.5, -1,

  9,  -0.5,  2, -0.5,  1, 0.5,  10, 0.5,  -1,
  13, -0.5,  6, -0.5,  5, 0.5,  14, 0.5,  -1,
  13, -0.25, 7, -0.25, 5, 0.25, 15, 0.25, -1,
  9,  -0.25, 3, -0.25, 1, 0.25, 11, 0.25, -1]"

definition subD20 :: "mjtNum list" where
  "subD20 = [
  5,  1, -1,
  9,  1, -1,
  10, 1, -1,
  6,  1, -1,

  1, -0.5, 9,  0.5, -1,
  5, -1,   9,  1,   -1,
  6, -1,   10, 1,   -1,
  2, -0.5, 10, 0.5, -1,

  5, -1,   6,  1,   -1,
  9, -1,   10, 1,   -1,
  9, -0.5, 11, 0.5, -1,
  5, -0.5, 7,  0.5, -1,

  9, -0.5,  2, -0.5,  1, 0.5,  10, 0.5,  -1,
  9, -1,    6, -1,    5, 1,    10, 1,    -1,
  9, -0.5,  7, -0.5,  5, 0.5,  11, 0.5,  -1,
  9, -0.25, 3, -0.25, 1, 0.25, 11, 0.25, -1]"

definition subD01 :: "mjtNum list" where
  "subD01 = [
  5,  1, -1,
  9,  1, -1,
  10, 1, -1,
  6,  1, -1,

  5, -1,   9,  1,   -1,
  5, -0.5, 13, 0.5, -1,
  6, -0.5, 14, 0.5, -1,
  6, -1,   10, 1,   -1,

  4, -0.5, 6,  0.5, -1,
  8, -0.5, 10, 0.5, -1,
  9, -0.5, 11, 0.5, -1,
  5, -0.5, 7,  0.5, -1,

  8,  -0.5,  6, -0.5,  4, 0.5,  10, 0.5,  -1,
  12, -0.25, 6, -0.25, 4, 0.25, 14, 0.25, -1,
  13, -0.25, 7, -0.25, 5, 0.25, 15, 0.25, -1,
  9,  -0.5,  7, -0.5,  5, 0.5,  11, 0.5,  -1]"

definition subD11 :: "mjtNum list" where
  "subD11 = [
  5,  1, -1,
  9,  1, -1,
  10, 1, -1,
  6,  1, -1,

  1, -0.5, 9,  0.5, -1,
  5, -0.5, 13, 0.5, -1,
  6, -0.5, 14, 0.5, -1,
  2, -0.5, 10, 0.5, -1,

  4, -0.5, 6,  0.5, -1,
  8, -0.5, 10, 0.5, -1,
  9, -0.5, 11, 0.5, -1,
  5, -0.5, 7,  0.5, -1,

  8,  -0.25, 2, -0.25, 0, 0.25, 10, 0.25, -1,
  12, -0.25, 6, -0.25, 4, 0.25, 14, 0.25, -1,
  13, -0.25, 7, -0.25, 5, 0.25, 15, 0.25, -1,
  9,  -0.25, 3, -0.25, 1, 0.25, 11, 0.25, -1]"

definition subD21 :: "mjtNum list" where
  "subD21 = [
  5,  1, -1,
  9,  1, -1,
  10, 1, -1,
  6,  1, -1,

  1, -0.5, 9,  0.5, -1,
  5, -1,   9,  1,   -1,
  6, -1,   10, 1,   -1,
  2, -0.5, 10, 0.5, -1,

  4, -0.5, 6,  0.5, -1,
  8, -0.5, 10, 0.5, -1,
  9, -0.5, 11, 0.5, -1,
  5, -0.5, 7,  0.5, -1,

  8, -0.25, 2, -0.25, 0, 0.25, 10, 0.25, -1,
  8, -0.5,  6, -0.5,  4, 0.5,  10, 0.5,  -1,
  9, -0.5,  7, -0.5,  5, 0.5,  11, 0.5,  -1,
  9, -0.25, 3, -0.25, 1, 0.25, 11, 0.25, -1]"

definition subD02 :: "mjtNum list" where
  "subD02 = [
  5,  1, -1,
  9,  1, -1,
  10, 1, -1,
  6,  1, -1,

  5, -1,   9,  1,   -1,
  5, -0.5, 13, 0.5, -1,
  6, -0.5, 14, 0.5, -1,
  6, -1,   10, 1,   -1,

  4, -0.5, 6,  0.5, -1,
  8, -0.5, 10, 0.5, -1,
  9, -1,   10, 1,   -1,
  5, -1,   6,  1,   -1,

  8,  -0.5,  6, -0.5,  4, 0.5,  10, 0.5,  -1,
  12, -0.25, 6, -0.25, 4, 0.25, 14, 0.25, -1,
  13, -0.5,  6, -0.5,  5, 0.5,  14, 0.5,  -1,
  9,  -1,    6, -1,    5, 1,    10, 1,    -1]"

definition subD12 :: "mjtNum list" where
  "subD12 = [
  5,  1, -1,
  9,  1, -1,
  10, 1, -1,
  6,  1, -1,

  1, -0.5, 9,  0.5, -1,
  5, -0.5, 13, 0.5, -1,
  6, -0.5, 14, 0.5, -1,
  2, -0.5, 10, 0.5, -1,

  4, -0.5, 6,  0.5, -1,
  8, -0.5, 10, 0.5, -1,
  9, -1,   10, 1,   -1,
  5, -1,   6,  1,   -1,

  8,  -0.25, 2, -0.25, 0, 0.25, 10, 0.25, -1,
  12, -0.25, 6, -0.25, 4, 0.25, 14, 0.25, -1,
  13, -0.5,  6, -0.5,  5, 0.5,  14, 0.5,  -1,
  9,  -0.5,  2, -0.5,  1, 0.5,  10, 0.5,  -1]"

definition subD22 :: "mjtNum list" where
  "subD22 = [
  5,  1, -1,
  9,  1, -1,
  10, 1, -1,
  6,  1, -1,

  1, -0.5, 9,  0.5, -1,
  5, -1,   9,  1,   -1,
  6, -1,   10, 1,   -1,
  2, -0.5, 10, 0.5, -1,

  4, -0.5, 6,  0.5, -1,
  8, -0.5, 10, 0.5, -1,
  9, -1,   10, 1,   -1,
  5, -1,   6,  1,   -1,

  8, -0.25, 2, -0.25, 0, 0.25, 10, 0.25, -1,
  8, -0.5,  6, -0.5,  4, 0.5,  10, 0.5,  -1,
  9, -1,    6, -1,    5, 1,    10, 1,    -1,
  9, -0.5,  2, -0.5,  1, 0.5,  10, 0.5,  -1]"

text \<open>\<^verbatim>\<open>const mjtNum* Dp[3][3]\<close>\<close>

definition Dp :: "nat \<Rightarrow> nat \<Rightarrow> mjtNum list" where
  "Dp dx dy = [[subD00, subD01, subD02],
               [subD10, subD11, subD12],
               [subD20, subD21, subD22]] ! dx ! dy"

text \<open>
  Modelled from the spec: \<^verbatim>\<open>mju_round\<close> and \<^verbatim>\<open>mju_mulMatMat\<close> belong to the
  engine utilities, which are not part of the sources at hand. The first rounds to the
  nearest integer (it is only applied to the integral column entries of the tables); the
  second is the dense product \<open>res = mat1 * mat2\<close> of an \<open>r1 \<times> c1\<close> by a
  \<open>c1 \<times> c2\<close> matrix.
\<close>

definition mju_round :: "mjtNum \<Rightarrow> int" where
  "mju_round x = round x"

definition mju_mulMatMat ::
  "mjtNum list \<Rightarrow> mjtNum list \<Rightarrow> nat \<Rightarrow> nat \<Rightarrow> nat \<Rightarrow> mjtNum list" where
  "mju_mulMatMat mat1 mat2 r1 c1 c2 =
     map (\<lambda>idx. \<Sum>k\<leftarrow>[0..<c1]. mat1 ! ((idx div c2) * c1 + k) * mat2 ! (k * c2 + idx mod c2))
       [0..<r1 * c2]"

text \<open>
  The inner \<^verbatim>\<open>while\<close> of the loop that makes \<open>D\<close> dense: it reads pairs from the
  table until it meets \<open>-1\<close>, writes each value into row \<open>r\<close>, and steps over the
  \<open>-1\<close>. The result is the matrix and the rest of the table. (The tables all have 16
  closed rows, so the two equations for a table that ends early are never used.)
\<close>

fun scan_row :: "mjtNum list \<Rightarrow> nat \<Rightarrow> mjtNum list \<Rightarrow> mjtNum list \<times> mjtNum list" where
  "scan_row D r [] = (D, [])"
| "scan_row D r [c] = (D, [])"
| "scan_row D r (c # v # rest) =
     (if mju_round c = -1 then (D, v # rest)
      else scan_row (D[nat (int r * 16 + mju_round c) := v]) r rest)"

definition dense_D :: "mjtNum list \<Rightarrow> mjtNum list" where
  "dense_D tab =
     fst (fold (\<lambda>r (D, rest). scan_row D r rest) [0..<16] (replicate (16 * 16) 0, tab))"

text \<open>One row of \<open>XY\<close>: the 16 monomials \<open>x\<^sup>i y\<^sup>j\<close>, written as the source writes them.\<close>

definition XY_row :: "mjtNum \<Rightarrow> mjtNum \<Rightarrow> mjtNum list" where
  "XY_row x y =
     [1,       y,       y*y,       y*y*y,
      x*1,     x*y,     x*y*y,     x*y*y*y,
      x*x*1,   x*x*y,   x*x*y*y,   x*x*y*y*y,
      x*x*x*1, x*x*x*y, x*x*x*y*y, x*x*x*y*y*y]"

text \<open>
  The weight computation of \<^verbatim>\<open>MakeSkin2Subgrid\<close>, for \<open>subgrid\<close> subdivisions (the field \<^verbatim>\<open>skinsubgrid\<close>)
  (the function is only called with a positive count, held here as a natural number).
  \<open>subgrid_N\<close> is the number of rows of \<open>XY\<close>, one per vertex of a refined cell.
\<close>

definition subgrid_N :: "nat \<Rightarrow> nat" where
  "subgrid_N subgrid = (2 + subgrid) * (2 + subgrid)"

definition subgrid_step :: "nat \<Rightarrow> mjtNum" where
  "subgrid_step subgrid = 1 / (1 + real subgrid)"

definition XY :: "nat \<Rightarrow> mjtNum list" where
  "XY subgrid =
     concat (map (\<lambda>sx. concat (map (\<lambda>sy.
         XY_row (real sx * subgrid_step subgrid) (real sy * subgrid_step subgrid))
       [0..<2 + subgrid])) [0..<2 + subgrid])"

definition XY_W :: "nat \<Rightarrow> mjtNum list" where
  "XY_W subgrid = mju_mulMatMat (XY subgrid) subW (subgrid_N subgrid) 16 16"

text \<open>\<open>Weight(d) = XY * W * D(d)\<close>, the nine blocks stored one after the other.\<close>

definition Weight :: "nat \<Rightarrow> mjtNum list" where
  "Weight subgrid =
     concat (map (\<lambda>dx. concat (map (\<lambda>dy.
         mju_mulMatMat (XY_W subgrid) (dense_D (Dp dx dy)) (subgrid_N subgrid) 16 16)
       [0..<3])) [0..<3])"

text \<open>
  Auxiliary notions for the proofs: the product of a matrix with a column vector, and
  three vectors of length 16.
\<close>

definition mulMatVec :: "mjtNum list \<Rightarrow> mjtNum list \<Rightarrow> nat \<Rightarrow> nat \<Rightarrow> mjtNum list" where
  "mulMatVec B v c1 c2 = map (\<lambda>k. \<Sum>j\<leftarrow>[0..<c2]. B ! (k * c2 + j) * v ! j) [0..<c1]"

definition ones16 :: "mjtNum list" where "ones16 = replicate 16 1"

definition e4 :: "mjtNum list" where "e4 = [1,1,1,1,0,0,0,0,0,0,0,0,0,0,0,0]"

definition e0 :: "mjtNum list" where "e0 = [1,0,0,0,0,0,0,0,0,0,0,0,0,0,0,0]"

section \<open>Formatted names\<close>

text \<open>
  Modelled from the spec: \<^verbatim>\<open>mju::sprintf_arr\<close>, \<^verbatim>\<open>mju::strcpy_arr\<close> and
  \<^verbatim>\<open>mju::strcat_arr\<close> (from \<^verbatim>\<open>cc/array_safety.h\<close>, which is not among the sources)
  write into a character array of \<open>n\<close> characters and never past its end: at most
  \<open>n - 1\<close> characters of the text are kept, the last place holding the terminator.
  Names are \<open><prefix>B<index-tuple>\<close>, the indices written in decimal and joined by
  underscores, and likewise with \<open>G\<close>, \<open>S\<close>, \<open>J\<close>, \<open>T\<close> for geoms, sites, joints and
  tendons. \<open>fmt1\<close>, \<open>fmt2\<close> and \<open>fmt3\<close> give the formatted text; \<open>name0\<close> to \<open>name3\<close>
  give what is left of it in the arrays \<^verbatim>\<open>char txt[100]\<close> of the builders, that is its
  first 99 characters.
\<close>

definition sprintf_arr :: "nat \<Rightarrow> string \<Rightarrow> string" where
  "sprintf_arr n s = take (n - 1) s"

definition strcpy_arr :: "nat \<Rightarrow> string \<Rightarrow> string" where
  "strcpy_arr n s = take (n - 1) s"

definition strcat_arr :: "nat \<Rightarrow> string \<Rightarrow> string \<Rightarrow> string" where
  "strcat_arr n dst s = take (n - 1) (dst @ s)"

definition digit_char :: "nat \<Rightarrow> char" where
  "digit_char d = ''0123456789'' ! d"

fun digits :: "nat \<Rightarrow> string" where
  "digits n = (if n < 10 then [digit_char n] else digits (n div 10) @ [digit_char (n mod 10)])"

declare digits.simps [simp del]

text \<open>The conversion \<^verbatim>\<open>%d\<close>.\<close>

definition show_int :: "int \<Rightarrow> string" where
  "show_int i = (if i < 0 then CHR ''-'' # digits (nat (- i)) else digits (nat i))"

text \<open>\<^verbatim>\<open>"%s<tag>"\<close>, \<^verbatim>\<open>"%s<tag>%d"\<close>, \<^verbatim>\<open>"%s<tag>%d_%d"\<close> and \<^verbatim>\<open>"%s<tag>%d_%d_%d"\<close>.\<close>

definition fmt1 :: "string \<Rightarrow> string \<Rightarrow> int \<Rightarrow> string" where
  "fmt1 pre tag i = pre @ tag @ show_int i"

definition fmt2 :: "string \<Rightarrow> string \<Rightarrow> int \<Rightarrow> int \<Rightarrow> string" where
  "fmt2 pre tag i j = pre @ tag @ show_int i @ ''_'' @ show_int j"

definition fmt3 :: "string \<Rightarrow> string \<Rightarrow> int \<Rightarrow> int \<Rightarrow> int \<Rightarrow> string" where
  "fmt3 pre tag i j k = pre @ tag @ show_int i @ ''_'' @ show_int j @ ''_'' @ show_int k"

text \<open>A text fits the array \<^verbatim>\<open>char txt[100]\<close> when it is kept whole.\<close>

definition fits :: "string \<Rightarrow> bool" where
  "fits s = (length s < 100)"

definition name0 :: "string \<Rightarrow> string \<Rightarrow> string" where
  "name0 pre tag = sprintf_arr 100 (pre @ tag)"

definition name1 :: "string \<Rightarrow> string \<Rightarrow> int \<Rightarrow> string" where
  "name1 pre tag i = sprintf_arr 100 (fmt1 pre tag i)"

definition name2 :: "string \<Rightarrow> string \<Rightarrow> int \<Rightarrow> int \<Rightarrow> string" where
  "name2 pre tag i j = sprintf_arr 100 (fmt2 pre tag i j)"

definition name3 :: "string \<Rightarrow> string \<Rightarrow> int \<Rightarrow> int \<Rightarrow> int \<Rightarrow> string" where
  "name3 pre tag i j k = sprintf_arr 100 (fmt3 pre tag i j k)"

text \<open>The values \<open>0, 1, \<dots>, n - 1\<close> of a loop \<^verbatim>\<open>for (int i=0; i<n; i++)\<close>.\<close>

definition range :: "int \<Rightarrow> int list" where
  "range n = map int [0..<nat n]"

text \<open>The index pairs and triples visited by two and by three nested loops, in the order
  of the visits.\<close>

definition pairs :: "int \<Rightarrow> int \<Rightarrow> (int \<times> int) list" where
  "pairs a b = [(ix, iy). ix \<leftarrow> range a, iy \<leftarrow> range b]"

definition triples :: "int \<Rightarrow> int \<Rightarrow> int \<Rightarrow> (int \<times> int \<times> int) list" where
  "triples a b c = [(ix, iy, iz). ix \<leftarrow> range a, iy \<leftarrow> range b, iz \<leftarrow> range c]"

text \<open>The value of a C comparison used as an integer, as in \<^verbatim>\<open>count[0]-(i==0)\<close>.\<close>

definition b2i :: "bool \<Rightarrow> int" where
  "b2i b = (if b then 1 else 0)"

section \<open>The composite specification and the model under construction\<close>

datatype mjtCompType =
    mjCOMPTYPE_PARTICLE | mjCOMPTYPE_GRID | mjCOMPTYPE_ROPE | mjCOMPTYPE_LOOP
  | mjCOMPTYPE_CABLE | mjCOMPTYPE_CLOTH | mjCOMPTYPE_BOX | mjCOMPTYPE_CYLINDER
  | mjCOMPTYPE_ELLIPSOID

datatype mjtCompKind =
    mjCOMPKIND_JOINT | mjCOMPKIND_TWIST | mjCOMPKIND_STRETCH | mjCOMPKIND_TENDON
  | mjCOMPKIND_SHEAR | mjCOMPKIND_PARTICLE

datatype mjtCompShape =
    mjCOMPSHAPE_LINE | mjCOMPSHAPE_COS | mjCOMPSHAPE_SIN | mjCOMPSHAPE_ZERO

datatype mjtGeom =
    mjGEOM_PLANE | mjGEOM_HFIELD | mjGEOM_SPHERE | mjGEOM_CAPSULE | mjGEOM_ELLIPSOID
  | mjGEOM_CYLINDER | mjGEOM_BOX | mjGEOM_MESH | mjGEOM_SDF

datatype mjtJoint = mjJNT_FREE | mjJNT_BALL | mjJNT_SLIDE | mjJNT_HINGE

datatype mjtEq = mjEQ_CONNECT | mjEQ_WELD | mjEQ_JOINT | mjEQ_TENDON | mjEQ_DISTANCE

text \<open>
  The enumerations are closed datatypes, so the \<^verbatim>\<open>default:\<close> branches of the source
  (\<open>Uknown shape in composite\<close>, \<open>Invalid composite shape\<close>), which an integer outside the
  enumeration would reach, have no counterpart.
\<close>

type_synonym vec3 = "mjtNum \<times> mjtNum \<times> mjtNum"

record mjmJoint =
  jnt_name :: string
  jnt_type :: mjtJoint
  jnt_pos :: vec3
  jnt_axis :: vec3
  jnt_damping :: mjtNum
  jnt_armature :: mjtNum
  jnt_frictionloss :: mjtNum

record mjmGeom =
  geom_name :: string
  geom_type :: mjtGeom

record mjmSite =
  site_name :: string
  site_type :: mjtGeom

text \<open>
  A body. \<open>body_parent\<close> is the body it was added to. \<open>body_pos\<close> is written by the two
  lattice builders (particle and grid); the positions of cable, rope and shell bodies come
  out of frame and projection routines of the engine and are \<open>None\<close> here.
\<close>

record mjmBody =
  body_name :: string
  body_parent :: nat
  body_pos :: "vec3 option"
  body_joints :: "mjmJoint list"
  body_geoms :: "mjmGeom list"
  body_sites :: "mjmSite list"
  body_plugin :: "nat option"

datatype mjsWrap = WrapSite string | WrapJoint string mjtNum

text \<open>\<open>ten_def\<close> and \<open>eq_def\<close> record which bundle of defaults the entity was created from
  (\<^verbatim>\<open>def + mjCOMPKIND_TENDON\<close>, \<^verbatim>\<open>def + mjCOMPKIND_SHEAR\<close>, \<dots>, or none).\<close>

record mjCTendon =
  ten_name :: string
  ten_def :: mjtCompKind
  ten_group :: "int option"
  ten_wrap :: "mjsWrap list"

record mjmEquality =
  eq_type :: mjtEq
  eq_name1 :: string
  eq_name2 :: string
  eq_def :: "mjtCompKind option"

record mjmExclude =
  bodyname1 :: string
  bodyname2 :: string

record mjCSkin =
  skin_name :: string
  skin_inflate :: mjtNum
  skin_vert :: "mjtNum list"
  skin_texcoord :: "mjtNum list"
  skin_face :: "int list"
  skin_bodyname :: "string list"
  skin_bindpos :: "mjtNum list"
  skin_bindquat :: "mjtNum list"
  skin_vertid :: "int list list"
  skin_vertweight :: "mjtNum list list"

text \<open>A plugin instance: its configuration attributes (\<^verbatim>\<open>config_attribs\<close>).\<close>

type_synonym mjCPlugin = "string \<Rightarrow> string"

record mjCModel =
  bodies :: "mjmBody list"
  tendons :: "mjCTendon list"
  equalities :: "mjmEquality list"
  excludes :: "mjmExclude list"
  skins :: "mjCSkin list"
  texts :: "(string \<times> string) list"
  plugins :: "mjCPlugin list"

text \<open>
  The composite. \<open>count\<close>, \<open>offset\<close>, \<open>size_c\<close> (the field \<^verbatim>\<open>size\<close>) and \<open>curve\<close> are
  the three-element arrays of the source, read at the indices 0, 1, 2. \<open>def_geom_type\<close> and
  \<open>def_geom_size\<close> are \<^verbatim>\<open>def[0].geom.spec.type\<close> and \<^verbatim>\<open>def[0].geom.spec.size\<close>,
  \<open>def_site_type\<close> is \<^verbatim>\<open>def[0].site.spec.type\<close>;
  \<open>defjoint\<close> maps a kind to its list of default joints, of which \<^verbatim>\<open>SetDefault\<close> creates
  the first. \<open>plugin_instance\<close> points into the list of plugin instances of the model.
\<close>

record mjCComposite =
  prefix :: string
  type :: mjtCompType
  count :: "nat \<Rightarrow> int"
  spacing :: mjtNum
  offset :: "nat \<Rightarrow> mjtNum"
  pin :: "int list"
  plugin_instance :: "nat option"
  curve :: "nat \<Rightarrow> mjtCompShape"
  size_c :: "nat \<Rightarrow> mjtNum"
  initial :: string
  uservert :: "mjtNum list"
  userface :: string
  username :: "string list"
  skin :: bool
  skintexcoord :: bool
  skininflate :: mjtNum
  skinsubgrid :: int
  add :: "mjtCompKind \<Rightarrow> bool"
  def_geom_type :: mjtGeom
  def_geom_size :: "nat \<Rightarrow> mjtNum"
  def_site_type :: mjtGeom
  defjoint :: "mjtCompKind \<Rightarrow> mjmJoint list"
  dim :: int

text \<open>
  Functions of the repository and of the C++ library that the builders call and whose
  text is not among the sources; they are parameters of the embedding:
  \<^item> \<open>stod\<close>: \<^verbatim>\<open>std::stod\<close>, \<open>None\<close> when it throws \<^verbatim>\<open>std::invalid_argument\<close>;
  \<^item> \<open>String2Vector\<close>, \<open>Vector2String\<close>: \<^verbatim>\<open>mjXUtil::String2Vector\<close> and
    \<^verbatim>\<open>mjXUtil::Vector2String\<close> on lists of integers;
  \<^item> \<open>skin3\<close>: the skin that \<^verbatim>\<open>MakeSkin3\<close> adds to the model for a composite;
  \<^item> \<open>mjMINVAL\<close>, \<open>mjPI\<close>: the constants of these names of \<^verbatim>\<open>mjmodel.h\<close>;
  \<^item> \<open>c_cos\<close>, \<open>c_sin\<close>: \<^verbatim>\<open>cos\<close> and \<^verbatim>\<open>sin\<close> of the C library.
\<close>

record env =
  stod :: "string \<Rightarrow> mjtNum option"
  String2Vector :: "string \<Rightarrow> int list"
  Vector2String :: "int list \<Rightarrow> string"
  skin3 :: "mjCComposite \<Rightarrow> mjCSkin"
  mjMINVAL :: mjtNum
  mjPI :: mjtNum
  c_cos :: "mjtNum \<Rightarrow> mjtNum"
  c_sin :: "mjtNum \<Rightarrow> mjtNum"

text \<open>
  The outcome of a builder: \<^verbatim>\<open>true\<close>, or \<^verbatim>\<open>false\<close> with the message that
  \<^verbatim>\<open>comperr\<close> copies into the error buffer. The model is returned in both cases: a
  builder that fails does not undo what it has added.
\<close>

datatype status = Success | Failure string

section \<open>Skins of one- and two-dimensional composites\<close>

text \<open>
  \<^verbatim>\<open>model->AddSkin()\<close> followed by the assignments of name and inflate (material, colour
  and group are not represented): an empty skin named \<open><prefix>Skin\<close>.
\<close>

definition new_skin :: "mjCComposite \<Rightarrow> mjtNum \<Rightarrow> mjCSkin" where
  "new_skin c inflate =
     \<lparr>skin_name = name0 (prefix c) ''Skin'', skin_inflate = inflate, skin_vert = [],
      skin_texcoord = [], skin_face = [], skin_bodyname = [], skin_bindpos = [],
      skin_bindquat = [], skin_vertid = [], skin_vertweight = []\<rparr>"

text \<open>
  The mesh of a two-sided \<open>C0 \<times> C1\<close> grid, shared by \<^verbatim>\<open>MakeSkin2\<close> and
  \<^verbatim>\<open>MakeSkin2Subgrid\<close>: the faces pushed inside the vertex loop (two triangles per
  quad, with the winding mirrored on the second side), and the thin triangles that close
  the four open edges. \<open>NN\<close> is the number of vertices of one side.
\<close>

definition quad_faces :: "int \<Rightarrow> int \<Rightarrow> int list" where
  "quad_faces C0 C1 =
     (let NN = C0 * C1 in
      concat [if ix < C0 - 1 \<and> iy < C1 - 1
              then [i*NN + ix*C1 + iy,
                    i*NN + (ix+1)*C1 + iy + b2i (i = 1),
                    i*NN + (ix+1)*C1 + iy + b2i (i = 0),
                    i*NN + ix*C1 + iy,
                    i*NN + (ix + b2i (i = 0))*C1 + iy + 1,
                    i*NN + (ix + b2i (i = 1))*C1 + iy + 1]
              else [].
              i \<leftarrow> range 2, ix \<leftarrow> range C0, iy \<leftarrow> range C1])"

definition thin_faces :: "int \<Rightarrow> int \<Rightarrow> int list" where
  "thin_faces C0 C1 =
     (let NN = C0 * C1 in
      concat [[ix*C1, NN + (ix+1)*C1, (ix+1)*C1,
               ix*C1, NN + ix*C1, NN + (ix+1)*C1]. ix \<leftarrow> range (C0 - 1)] @
      concat [[ix*C1 + C1 - 1, (ix+1)*C1 + C1 - 1, NN + (ix+1)*C1 + C1 - 1,
               ix*C1 + C1 - 1, NN + (ix+1)*C1 + C1 - 1, NN + ix*C1 + C1 - 1].
              ix \<leftarrow> range (C0 - 1)] @
      concat [[iy, iy + 1, NN + iy + 1,
               iy, NN + iy + 1, NN + iy]. iy \<leftarrow> range (C1 - 1)] @
      concat [[iy + (C0-1)*C1, NN + iy + 1 + (C0-1)*C1, iy + 1 + (C0-1)*C1,
               iy + (C0-1)*C1, NN + iy + (C0-1)*C1, NN + iy + 1 + (C0-1)*C1].
              iy \<leftarrow> range (C1 - 1)])"

text \<open>
  Texture coordinates \<^verbatim>\<open>ix/(float)(C0-1)\<close>, \<^verbatim>\<open>iy/(float)(C1-1)\<close> of every vertex,
  pushed when \<open>skintexcoord\<close> is set. (With \<open>C0 = 1\<close> the source divides by zero in
  floating point; the quotient written here is the one of \<^typ>\<open>real\<close>.)
\<close>

definition grid_texcoord :: "mjCComposite \<Rightarrow> int \<Rightarrow> int \<Rightarrow> mjtNum list" where
  "grid_texcoord c C0 C1 =
     (if skintexcoord c
      then concat [[real_of_int ix / real_of_int (C0 - 1), real_of_int iy / real_of_int (C1 - 1)].
                   i \<leftarrow> range 2, ix \<leftarrow> range C0, iy \<leftarrow> range C1]
      else [])"

text \<open>\<^verbatim>\<open>MakeClothBones\<close>: one bone per lattice point, bound to the two copies of its
  vertex with weight 1.\<close>

definition cloth_body_name :: "mjCComposite \<Rightarrow> int \<Rightarrow> int \<Rightarrow> string" where
  "cloth_body_name c ix iy =
     (if type c = mjCOMPTYPE_GRID then name2 (prefix c) ''B'' ix iy
      else name3 (prefix c) ''B'' ix iy 0)"

definition MakeClothBones :: "mjCComposite \<Rightarrow> mjCSkin \<Rightarrow> mjCSkin" where
  "MakeClothBones c sk =
     (let N = count c 0 * count c 1;
          cells = pairs (count c 0) (count c 1) in
      sk\<lparr>skin_bodyname := skin_bodyname sk @ map (\<lambda>(ix, iy). cloth_body_name c ix iy) cells,
         skin_bindpos := skin_bindpos sk @ concat (map (\<lambda>(ix, iy). [0, 0, 0]) cells),
         skin_bindquat := skin_bindquat sk @ concat (map (\<lambda>(ix, iy). [1, 0, 0, 0]) cells),
         skin_vertid := skin_vertid sk @
            map (\<lambda>(ix, iy). [ix * count c 1 + iy, N + ix * count c 1 + iy]) cells,
         skin_vertweight := skin_vertweight sk @ map (\<lambda>(ix, iy). [1, 1]) cells\<rparr>)"

text \<open>\<^verbatim>\<open>MakeClothBonesSubgrid\<close>: the same bones, with a bind position on the lattice and
  nothing bound yet.\<close>

definition MakeClothBonesSubgrid :: "mjCComposite \<Rightarrow> mjCSkin \<Rightarrow> mjCSkin" where
  "MakeClothBonesSubgrid c sk =
     (let cells = pairs (count c 0) (count c 1) in
      sk\<lparr>skin_bodyname := skin_bodyname sk @ map (\<lambda>(ix, iy). cloth_body_name c ix iy) cells,
         skin_bindpos := skin_bindpos sk @
            concat (map (\<lambda>(ix, iy). [real_of_int ix * spacing c, real_of_int iy * spacing c, 0]) cells),
         skin_bindquat := skin_bindquat sk @ concat (map (\<lambda>(ix, iy). [1, 0, 0, 0]) cells),
         skin_vertid := skin_vertid sk @ map (\<lambda>(ix, iy). []) cells,
         skin_vertweight := skin_vertweight sk @ map (\<lambda>(ix, iy). []) cells\<rparr>)"

text \<open>\<^verbatim>\<open>MakeCableBones\<close> and \<^verbatim>\<open>MakeCableBonesSubgrid\<close>.\<close>

definition cable_bone_name :: "mjCComposite \<Rightarrow> int \<Rightarrow> string" where
  "cable_bone_name c ix =
     (if ix = 0 then name0 (prefix c) ''B_first''
      else if ix \<ge> count c 0 - 2 then name0 (prefix c) ''B_last''
      else name1 (prefix c) ''B_'' ix)"

definition MakeCableBones :: "mjCComposite \<Rightarrow> mjCSkin \<Rightarrow> mjCSkin" where
  "MakeCableBones c sk =
     (let N = count c 0 * count c 1;
          cells = pairs (count c 0) (count c 1) in
      sk\<lparr>skin_bodyname := skin_bodyname sk @ map (\<lambda>(ix, iy). cable_bone_name c ix) cells,
         skin_bindpos := skin_bindpos sk @
            concat (map (\<lambda>(ix, iy).
              [if ix = count c 0 - 1 then - 2 * def_geom_size c 0 else 0,
               if iy = 0 then - def_geom_size c 1 else def_geom_size c 1,
               0]) cells),
         skin_bindquat := skin_bindquat sk @ concat (map (\<lambda>(ix, iy). [1, 0, 0, 0]) cells),
         skin_vertid := skin_vertid sk @
            map (\<lambda>(ix, iy). [ix * count c 1 + iy, N + ix * count c 1 + iy]) cells,
         skin_vertweight := skin_vertweight sk @ map (\<lambda>(ix, iy). [1, 1]) cells\<rparr>)"

definition MakeCableBonesSubgrid :: "mjCComposite \<Rightarrow> mjCSkin \<Rightarrow> mjCSkin" where
  "MakeCableBonesSubgrid c sk =
     (let cells = pairs (count c 0) (count c 1) in
      sk\<lparr>skin_bodyname := skin_bodyname sk @ map (\<lambda>(ix, iy). cable_bone_name c ix) cells,
         skin_bindpos := skin_bindpos sk @
            concat (map (\<lambda>(ix, iy).
              [if ix = count c 0 - 1 then - 2 * def_geom_size c 0 else 0,
               if iy = 0 then - def_geom_size c 1
               else if iy = 2 then def_geom_size c 1 else 0,
               0]) cells),
         skin_bindquat := skin_bindquat sk @ concat (map (\<lambda>(ix, iy). [1, 0, 0, 0]) cells),
         skin_vertid := skin_vertid sk @ map (\<lambda>(ix, iy). []) cells,
         skin_vertweight := skin_vertweight sk @ map (\<lambda>(ix, iy). []) cells\<rparr>)"

text \<open>
  \<^verbatim>\<open>MakeSkin2\<close>. For a particle composite without generated names the existing mesh
  is copied: the vertices and one bone per vertex for each of the two sides, then the faces
  of that side, with the winding reversed on the second. Otherwise the vertex grid is
  duplicated into two layers, meshed, closed, and coupled with the bones.
\<close>

definition copy_mesh_side :: "mjCComposite \<Rightarrow> int list \<Rightarrow> int \<Rightarrow> mjCSkin \<Rightarrow> mjCSkin" where
  "copy_mesh_side c face j sk =
     (let nvert = int (length (uservert c) div 3);
          vs = range nvert in
      sk\<lparr>skin_vert := skin_vert sk @ concat (map (\<lambda>i. [0, 0, 0]) vs),
         skin_bodyname := skin_bodyname sk @ map (\<lambda>i. name1 (prefix c) ''B'' i) vs,
         skin_bindpos := skin_bindpos sk @ concat (map (\<lambda>i. [0, 0, 0]) vs),
         skin_bindquat := skin_bindquat sk @ concat (map (\<lambda>i. [1, 0, 0, 0]) vs),
         skin_vertid := skin_vertid sk @ map (\<lambda>i. [j * nvert + i]) vs,
         skin_vertweight := skin_vertweight sk @ map (\<lambda>i. [1]) vs,
         skin_face := skin_face sk @
            concat (map (\<lambda>i. [j * nvert + face ! (3*i),
                                j * nvert + face ! (3*i + (if j = 0 then 1 else 2)),
                                j * nvert + face ! (3*i + (if j = 0 then 2 else 1))])
                     [0..<length face div 3])\<rparr>)"

definition MakeSkin2 :: "env \<Rightarrow> mjCComposite \<Rightarrow> mjCModel \<Rightarrow> mjtNum \<Rightarrow> mjCModel" where
  "MakeSkin2 e c m inflate =
     (let sk = new_skin c inflate in
      if type c = mjCOMPTYPE_PARTICLE \<and> username c = []
      then m\<lparr>skins := skins m @
               [fold (copy_mesh_side c (String2Vector e (userface c))) (range 2) sk]\<rparr>
      else
        let sk1 = sk\<lparr>skin_vert :=
                       concat [[0, 0, 0]. i \<leftarrow> range 2, ix \<leftarrow> range (count c 0),
                                          iy \<leftarrow> range (count c 1)],
                     skin_texcoord := grid_texcoord c (count c 0) (count c 1),
                     skin_face := quad_faces (count c 0) (count c 1) @
                                  thin_faces (count c 0) (count c 1)\<rparr>;
            sk2 = (if type c = mjCOMPTYPE_PARTICLE \<or> type c = mjCOMPTYPE_GRID
                   then MakeClothBones c sk1
                   else if type c = mjCOMPTYPE_CABLE then MakeCableBones c sk1
                   else sk1)
        in m\<lparr>skins := skins m @ [sk2]\<rparr>)"

text \<open>
  \<^verbatim>\<open>MakeSkin2Subgrid\<close>. After the weights (section above) and the refined mesh, every
  coarse cell binds the vertices it owns to its 16 neighbouring bones: \<open>subgrid_bindings\<close>
  lists, in the order of the loops, the bone, the vertex and the weight of every visit,
  and \<open>bind_vertex\<close> is the body of the innermost loop, which skips a zero weight. (A
  nonzero weight is only met at a bone of the lattice; the entries of \<open>boneid\<close> that fall
  outside the lattice at its border carry the weight zero.)
\<close>

definition subgrid_bindings :: "mjCComposite \<Rightarrow> (int \<times> int \<times> mjtNum) list" where
  "subgrid_bindings c =
     (let sub = skinsubgrid c;
          N = int (subgrid_N (nat sub));
          W = Weight (nat sub);
          C1 = count c 1 + (count c 1 - 1) * sub in
      [((ix + (bi div 4 - 1)) * count c 1 + (iy + (bi mod 4 - 1)),
        (ix * (1 + sub) + dx) * C1 + iy * (1 + sub) + dy,
        W ! nat ((3 * (if ix = 0 then 0 else if ix = count c 0 - 2 then 2 else 1) +
                  (if iy = 0 then 0 else if iy = count c 1 - 2 then 2 else 1)) * N * 16
                 + (dx * (2 + sub) + dy) * 16 + bi)).
       ix \<leftarrow> range (count c 0 - 1), iy \<leftarrow> range (count c 1 - 1),
       dx \<leftarrow> range (1 + sub + b2i (ix = count c 0 - 2)),
       dy \<leftarrow> range (1 + sub + b2i (iy = count c 1 - 2)),
       bi \<leftarrow> range 16])"

definition bind_vertex :: "int \<Rightarrow> (int \<times> int \<times> mjtNum) \<Rightarrow> mjCSkin \<Rightarrow> mjCSkin" where
  "bind_vertex NN b sk =
     (case b of (bone, vid, w) \<Rightarrow>
        if w \<noteq> 0
        then sk\<lparr>skin_vertid := (skin_vertid sk)
                    [nat bone := skin_vertid sk ! nat bone @ [vid, vid + NN]],
                skin_vertweight := (skin_vertweight sk)
                    [nat bone := skin_vertweight sk ! nat bone @ [w, w]]\<rparr>
        else sk)"

definition MakeSkin2Subgrid :: "mjCComposite \<Rightarrow> mjCModel \<Rightarrow> mjtNum \<Rightarrow> mjCModel" where
  "MakeSkin2Subgrid c m inflate =
     (let sub = skinsubgrid c;
          S = spacing c / (1 + real_of_int sub);
          C0 = count c 0 + (count c 0 - 1) * sub;
          C1 = count c 1 + (count c 1 - 1) * sub;
          NN = C0 * C1;
          sk1 = (new_skin c inflate)
                  \<lparr>skin_vert := concat [[real_of_int ix * S, real_of_int iy * S, 0].
                                        i \<leftarrow> range 2, ix \<leftarrow> range C0, iy \<leftarrow> range C1],
                   skin_texcoord := grid_texcoord c C0 C1,
                   skin_face := quad_faces C0 C1 @ thin_faces C0 C1\<rparr>;
          sk2 = (if type c = mjCOMPTYPE_PARTICLE \<or> type c = mjCOMPTYPE_GRID
                 then MakeClothBonesSubgrid c sk1
                 else if type c = mjCOMPTYPE_CABLE then MakeCableBonesSubgrid c sk1
                 else sk1)
      in m\<lparr>skins := skins m @ [fold (bind_vertex NN) (subgrid_bindings c) sk2]\<rparr>)"


section \<open>The grid builder\<close>

text \<open>
  The scan of the pin list in \<^verbatim>\<open>MakeGrid\<close>: the coordinates are read in pairs
  \<^verbatim>\<open>pin[ip]\<close>, \<^verbatim>\<open>pin[ip+1]\<close>. (\<^verbatim>\<open>Make\<close> rejects a pin list of odd length before
  any builder runs; on such a list the source would read past the end at the last entry.)
\<close>

fun pinned :: "int list \<Rightarrow> int \<Rightarrow> int \<Rightarrow> bool" where
  "pinned (a # b # rest) ix iy = (if a = ix \<and> b = iy then True else pinned rest ix iy)"
| "pinned [a] ix iy = False"
| "pinned [] ix iy = False"

definition unit_axis :: "int \<Rightarrow> vec3" where
  "unit_axis i = (if i = 0 then 1 else 0, if i = 1 then 1 else 0, if i = 2 then 1 else 0)"

text \<open>The three sliding joints of a grid body, created from \<^verbatim>\<open>defjoint[mjCOMPKIND_JOINT][0]\<close>.\<close>

definition grid_joint :: "mjCComposite \<Rightarrow> int \<Rightarrow> int \<Rightarrow> int \<Rightarrow> mjmJoint" where
  "grid_joint c ix iy i =
     (defjoint c mjCOMPKIND_JOINT ! 0)
       \<lparr>jnt_name := name3 (prefix c) ''J'' i ix iy,
        jnt_type := mjJNT_SLIDE,
        jnt_pos := (0, 0, 0),
        jnt_axis := unit_axis i\<rparr>"

text \<open>One pass of the body loop: body, position, geom, site and, unless the cell is
  pinned, the joints.\<close>

definition grid_body :: "mjCComposite \<Rightarrow> nat \<Rightarrow> int \<Rightarrow> int \<Rightarrow> mjmBody" where
  "grid_body c body ix iy =
     \<lparr>body_name = name2 (prefix c) ''B'' ix iy,
      body_parent = body,
      body_pos = Some (offset c 0 + spacing c * (real_of_int ix - 0.5 * real_of_int (count c 0)),
                       offset c 1 + spacing c * (real_of_int iy - 0.5 * real_of_int (count c 1)),
                       offset c 2),
      body_joints = (if pinned (pin c) ix iy then [] else map (grid_joint c ix iy) (range 3)),
      body_geoms = [\<lparr>geom_name = name2 (prefix c) ''G'' ix iy, geom_type = mjGEOM_SPHERE\<rparr>],
      body_sites = [\<lparr>site_name = name2 (prefix c) ''S'' ix iy, site_type = mjGEOM_SPHERE\<rparr>],
      body_plugin = None\<rparr>"

definition grid_bodies :: "mjCComposite \<Rightarrow> nat \<Rightarrow> mjmBody list" where
  "grid_bodies c body =
     map (\<lambda>(ix, iy). grid_body c body ix iy) (pairs (count c 0) (count c 1))"

text \<open>The tendon loop: for each axis \<open>i\<close> and each cell that has a neighbour along it, a
  tendon through the two sites and an equality constraint on that tendon.\<close>

definition grid_tendon :: "mjCComposite \<Rightarrow> int \<Rightarrow> int \<Rightarrow> int \<Rightarrow> mjCTendon" where
  "grid_tendon c i ix iy =
     \<lparr>ten_name = name3 (prefix c) ''T'' i ix iy,
      ten_def = mjCOMPKIND_TENDON,
      ten_group = None,
      ten_wrap = [WrapSite (name2 (prefix c) ''S'' ix iy),
                  WrapSite (name2 (prefix c) ''S'' (ix + b2i (i = 0)) (iy + b2i (i = 1)))]\<rparr>"

definition grid_cells :: "mjCComposite \<Rightarrow> (int \<times> int \<times> int) list" where
  "grid_cells c =
     [(i, ix, iy). i \<leftarrow> range 2,
                   ix \<leftarrow> range (count c 0 - b2i (i = 0)),
                   iy \<leftarrow> range (count c 1 - b2i (i = 1))]"

definition grid_tendons :: "mjCComposite \<Rightarrow> mjCTendon list" where
  "grid_tendons c = map (\<lambda>(i, ix, iy). grid_tendon c i ix iy) (grid_cells c)"

definition grid_equalities :: "mjCComposite \<Rightarrow> mjmEquality list" where
  "grid_equalities c =
     map (\<lambda>(i, ix, iy).
            \<lparr>eq_type = mjEQ_TENDON, eq_name1 = ten_name (grid_tendon c i ix iy),
             eq_name2 = [], eq_def = Some mjCOMPKIND_TENDON\<rparr>) (grid_cells c)"

text \<open>\<^verbatim>\<open>MakeShear\<close>: a tendon between diagonal neighbours, with its equality constraint.\<close>

definition shear_cells :: "mjCComposite \<Rightarrow> (int \<times> int) list" where
  "shear_cells c = pairs (count c 0 - 1) (count c 1 - 1)"

definition MakeShear :: "mjCComposite \<Rightarrow> mjCModel \<Rightarrow> mjCModel" where
  "MakeShear c m =
     m\<lparr>tendons := tendons m @
          map (\<lambda>(ix, iy).
                 \<lparr>ten_name = name2 (prefix c) ''TS'' ix iy,
                  ten_def = mjCOMPKIND_SHEAR,
                  ten_group = None,
                  ten_wrap = [WrapSite (name2 (prefix c) ''S'' ix iy),
                              WrapSite (name2 (prefix c) ''S'' (ix + 1) (iy + 1))]\<rparr>)
              (shear_cells c),
       equalities := equalities m @
          map (\<lambda>(ix, iy).
                 \<lparr>eq_type = mjEQ_TENDON, eq_name1 = name2 (prefix c) ''TS'' ix iy,
                  eq_name2 = [], eq_def = Some mjCOMPKIND_SHEAR\<rparr>)
              (shear_cells c)\<rparr>"

definition MakeGrid :: "env \<Rightarrow> mjCComposite \<Rightarrow> mjCModel \<Rightarrow> nat \<Rightarrow> status \<times> mjCModel" where
  "MakeGrid e c m body =
     (if dim c > 2 then (Failure ''Grid can only be 1D or 2D'', m)
      else if add c mjCOMPKIND_SHEAR \<and> dim c \<noteq> 2 then (Failure ''Shear requires 2D grid'', m)
      else if skin c \<and> dim c \<noteq> 2 then (Failure ''Skin requires 2D grid'', m)
      else
        let m1 = m\<lparr>bodies := bodies m @ grid_bodies c body\<rparr>;
            m2 = m1\<lparr>tendons := tendons m1 @ grid_tendons c,
                    equalities := equalities m1 @ grid_equalities c\<rparr>;
            m3 = (if add c mjCOMPKIND_SHEAR then MakeShear c m2 else m2);
            m4 = (if skin c
                  then (if skinsubgrid c > 0 then MakeSkin2Subgrid c m3 (skininflate c)
                        else MakeSkin2 e c m3 (skininflate c))
                  else m3)
        in (Success, m4))"

section \<open>The cable builder\<close>

text \<open>
  \<^verbatim>\<open>AddCableBody\<close>: one segment of the cable, a child of the previous one. It returns
  the model and the new body. The flags \<open>first\<close> and \<open>last\<close> and the names it formats
  (\<open>this_body\<close>, \<open>next_body\<close>, \<open>this_joint\<close>) are written as functions of the index. The first body is placed at the first vertex; the others at
  \<open>(length, 0, 0)\<close>, where \<open>length\<close> is returned by the engine's \<^verbatim>\<open>mju_updateFrame\<close>
  (position \<open>None\<close>, see the body record).
\<close>

definition cable_joint :: "mjCComposite \<Rightarrow> bool \<Rightarrow> string \<Rightarrow> mjmJoint" where
  "cable_joint c first this_joint =
     (let jnt = defjoint c mjCOMPKIND_JOINT ! 0;
          ty = (if first \<and> initial c = ''free'' then mjJNT_FREE else mjJNT_BALL) in
      jnt\<lparr>jnt_type := ty,
          jnt_damping := (if ty = mjJNT_FREE then 0 else jnt_damping jnt),
          jnt_armature := (if ty = mjJNT_FREE then 0 else jnt_armature jnt),
          jnt_frictionloss := (if ty = mjJNT_FREE then 0 else jnt_frictionloss jnt),
          jnt_name := this_joint\<rparr>)"

definition cable_first :: "int \<Rightarrow> bool" where
  "cable_first ix = (ix = 0)"

definition cable_last :: "mjCComposite \<Rightarrow> int \<Rightarrow> bool" where
  "cable_last c ix = (ix = count c 0 - 2)"

definition cable_this_body :: "mjCComposite \<Rightarrow> int \<Rightarrow> string" where
  "cable_this_body c ix =
     (if cable_first ix then name0 (prefix c) ''B_first''
      else if cable_last c ix then name0 (prefix c) ''B_last''
      else name1 (prefix c) ''B_'' ix)"

definition cable_next_body :: "mjCComposite \<Rightarrow> int \<Rightarrow> string" where
  "cable_next_body c ix =
     (if cable_first ix then name1 (prefix c) ''B_'' (ix + 1)
      else if cable_last c ix then name0 (prefix c) ''B_first''
      else if ix = count c 0 - 2 - 1 then name0 (prefix c) ''B_last''
      else name1 (prefix c) ''B_'' (ix + 1))"

definition cable_this_joint :: "mjCComposite \<Rightarrow> int \<Rightarrow> string" where
  "cable_this_joint c ix =
     (if cable_first ix then name0 (prefix c) ''J_first''
      else if cable_last c ix then name0 (prefix c) ''J_last''
      else name1 (prefix c) ''J_'' ix)"

definition cable_body :: "mjCComposite \<Rightarrow> nat \<Rightarrow> int \<Rightarrow> mjmBody" where
  "cable_body c body ix =
     (let first = cable_first ix; last = cable_last c ix in
      \<lparr>body_name = cable_this_body c ix,
       body_parent = body,
       body_pos = (if first
                   then Some (offset c 0 + uservert c ! nat (3 * ix),
                              offset c 1 + uservert c ! nat (3 * ix + 1),
                              offset c 2 + uservert c ! nat (3 * ix + 2))
                   else None),
       body_joints = (if \<not> first \<or> initial c \<noteq> ''none''
                      then [cable_joint c first (cable_this_joint c ix)] else []),
       body_geoms = [\<lparr>geom_name = name1 (prefix c) ''G'' ix, geom_type = def_geom_type c\<rparr>],
       body_sites = (if last \<or> first
                     then [\<lparr>site_name = (if first then name0 (prefix c) ''S_first''
                                          else name0 (prefix c) ''S_last''),
                            site_type = def_site_type c\<rparr>]
                     else []),
       body_plugin = plugin_instance c\<rparr>)"

definition AddCableBody :: "mjCComposite \<Rightarrow> mjCModel \<Rightarrow> nat \<Rightarrow> int \<Rightarrow> mjCModel \<times> nat" where
  "AddCableBody c m body ix =
     (m\<lparr>bodies := bodies m @ [cable_body c body ix],
        excludes := excludes m @
           (if \<not> cable_last c ix
            then [\<lparr>bodyname1 = cable_this_body c ix, bodyname2 = cable_next_body c ix\<rparr>]
            else [])\<rparr>,
      length (bodies m))"

text \<open>The curve that gives the vertices of a cable without prescribed vertices.\<close>

definition curve_point :: "env \<Rightarrow> mjCComposite \<Rightarrow> int \<Rightarrow> nat \<Rightarrow> mjtNum" where
  "curve_point e c ix k =
     (case curve c k of
        mjCOMPSHAPE_LINE \<Rightarrow> real_of_int ix * size_c c 0 / real_of_int (count c 0 - 1)
      | mjCOMPSHAPE_COS \<Rightarrow>
          size_c c 1 * c_cos e (mjPI e * real_of_int ix * size_c c 2 / real_of_int (count c 0 - 1))
      | mjCOMPSHAPE_SIN \<Rightarrow>
          size_c c 1 * c_sin e (mjPI e * real_of_int ix * size_c c 2 / real_of_int (count c 0 - 1))
      | mjCOMPSHAPE_ZERO \<Rightarrow> 0)"

text \<open>The first step of \<^verbatim>\<open>MakeCable\<close> after its checks: \<open>uservert\<close> is populated from
  the curve if no vertices are prescribed.\<close>

definition cable_uservert :: "env \<Rightarrow> mjCComposite \<Rightarrow> mjCComposite" where
  "cable_uservert e c =
     (if uservert c = []
      then c\<lparr>uservert := concat [[curve_point e c ix k]. ix \<leftarrow> range (count c 0),
                                                      k \<leftarrow> [0, 1, 2]]\<rparr>
      else c)"

definition MakeCable :: "env \<Rightarrow> mjCComposite \<Rightarrow> mjCModel \<Rightarrow> nat \<Rightarrow> status \<times> mjCModel" where
  "MakeCable e c m body =
     (if dim c \<noteq> 1 then (Failure ''Cable must be one-dimensional'', m)
      else if def_geom_type c \<noteq> mjGEOM_CYLINDER \<and> def_geom_type c \<noteq> mjGEOM_CAPSULE \<and>
              def_geom_type c \<noteq> mjGEOM_BOX
           then (Failure ''Cable geom type must be sphere, capsule or box'', m)
      else
        let m1 = m\<lparr>texts := texts m @ [(''composite_'' @ prefix c, ''rope_'' @ prefix c)]\<rparr>;
            c1 = cable_uservert e c;
            m2 = fst (fold (\<lambda>ix (m', body'). AddCableBody c1 m' body' ix)
                        (range (count c1 0 - 1)) (m1, body));
            m3 = (if def_geom_type c1 = mjGEOM_BOX
                  then (if skinsubgrid c1 > 0
                        then MakeSkin2Subgrid (c1\<lparr>count := (count c1)(1 := count c1 1 + 2)\<rparr>) m2
                               (2 * def_geom_size c1 2)
                        else MakeSkin2 e (c1\<lparr>count := (count c1)(1 := count c1 1 + 1)\<rparr>) m2
                               (2 * def_geom_size c1 2))
                  else m2)
        in (Success, m3))"

section \<open>The rope builder\<close>

text \<open>
  The conversion \<^verbatim>\<open>sscanf(txt, "%d", &ox)\<close> of the C library: white space is skipped,
  an optional sign and a nonempty run of decimal digits are read, and what follows is
  ignored. \<open>None\<close> stands for a return value other than 1. The digits are converted as
  by \<^verbatim>\<open>strtol\<close>, to a 64-bit \<^verbatim>\<open>long\<close> that stops at its two ends (\<open>strtol_clamp\<close>), and
  the result is stored in the 32-bit \<^verbatim>\<open>int ox\<close>, which keeps its low 32 bits in two's
  complement (\<open>int32\<close>): the text \<open>4294967297\<close> gives 1.
\<close>

definition isspace :: "char \<Rightarrow> bool" where
  "isspace ch = (ch \<in> set [CHR '' '', CHR 0x09, CHR 0x0A, CHR 0x0B, CHR 0x0C, CHR 0x0D])"

definition isdigit :: "char \<Rightarrow> bool" where
  "isdigit ch = (ch \<in> set ''0123456789'')"

definition digit_val :: "char \<Rightarrow> nat" where
  "digit_val ch = of_char ch - 48"

definition strtol_clamp :: "int \<Rightarrow> int" where
  "strtol_clamp v = max (- (2 ^ 63)) (min (2 ^ 63 - 1) v)"

definition int32 :: "int \<Rightarrow> int" where
  "int32 v = (v + 2 ^ 31) mod 2 ^ 32 - 2 ^ 31"

definition sscanf_d :: "string \<Rightarrow> int option" where
  "sscanf_d s =
     (let s1 = dropWhile isspace s;
          neg = (s1 \<noteq> [] \<and> hd s1 = CHR ''-'');
          s2 = (if s1 \<noteq> [] \<and> (hd s1 = CHR ''-'' \<or> hd s1 = CHR ''+'') then tl s1 else s1);
          ds = takeWhile isdigit s2;
          v = int (foldl (\<lambda>acc ch. 10 * acc + digit_val ch) 0 ds)
      in if ds = [] then None else Some (int32 (strtol_clamp (if neg then - v else v))))"

text \<open>
  \<^verbatim>\<open>AddRopeBody\<close>: for the root (\<open>ix = ix1\<close>) only a geom is added to the body given;
  otherwise a child body with the geom, two hinge joints and, if requested, a twist and a
  stretch joint, each fixed by an equality constraint.
\<close>

definition rope_geom :: "mjCComposite \<Rightarrow> int \<Rightarrow> mjmGeom" where
  "rope_geom c ix1 = \<lparr>geom_name = name1 (prefix c) ''G'' ix1, geom_type = def_geom_type c\<rparr>"

definition rope_joints :: "mjCComposite \<Rightarrow> int \<Rightarrow> int \<Rightarrow> mjmJoint list" where
  "rope_joints c ix ix1 =
     (let dx = spacing c * real_of_int (ix1 - ix) in
      map (\<lambda>i. (defjoint c mjCOMPKIND_JOINT ! 0)
                  \<lparr>jnt_name := name2 (prefix c) ''J'' i ix1, jnt_type := mjJNT_HINGE,
                   jnt_pos := (- 0.5 * dx, 0, 0), jnt_axis := unit_axis (i + 1)\<rparr>) (range 2) @
      (if add c mjCOMPKIND_TWIST
       then [(defjoint c mjCOMPKIND_TWIST ! 0)
               \<lparr>jnt_name := name1 (prefix c) ''JT'' ix1, jnt_type := mjJNT_HINGE,
                jnt_pos := (- 0.5 * dx, 0, 0), jnt_axis := (1, 0, 0)\<rparr>]
       else []) @
      (if add c mjCOMPKIND_STRETCH
       then [(defjoint c mjCOMPKIND_STRETCH ! 0)
               \<lparr>jnt_name := name1 (prefix c) ''JS'' ix1, jnt_type := mjJNT_SLIDE,
                jnt_pos := (- 0.5 * dx, 0, 0), jnt_axis := (1, 0, 0)\<rparr>]
       else []))"

definition rope_equalities :: "mjCComposite \<Rightarrow> int \<Rightarrow> mjmEquality list" where
  "rope_equalities c ix1 =
     (if add c mjCOMPKIND_TWIST
      then [\<lparr>eq_type = mjEQ_JOINT, eq_name1 = name1 (prefix c) ''JT'' ix1, eq_name2 = [],
             eq_def = Some mjCOMPKIND_TWIST\<rparr>]
      else []) @
     (if add c mjCOMPKIND_STRETCH
      then [\<lparr>eq_type = mjEQ_JOINT, eq_name1 = name1 (prefix c) ''JS'' ix1, eq_name2 = [],
             eq_def = Some mjCOMPKIND_STRETCH\<rparr>]
      else [])"

definition AddRopeBody :: "mjCComposite \<Rightarrow> mjCModel \<Rightarrow> nat \<Rightarrow> int \<Rightarrow> int \<Rightarrow> mjCModel \<times> nat" where
  "AddRopeBody c m body ix ix1 =
     (if ix = ix1
      then (m\<lparr>bodies := (bodies m)
                [body := (bodies m ! body)
                   \<lparr>body_geoms := body_geoms (bodies m ! body) @ [rope_geom c ix1]\<rparr>]\<rparr>,
            body)
      else (m\<lparr>bodies := bodies m @
                [\<lparr>body_name = name1 (prefix c) ''B'' ix1, body_parent = body, body_pos = None,
                  body_joints = rope_joints c ix ix1, body_geoms = [rope_geom c ix1],
                  body_sites = [], body_plugin = None\<rparr>],
              equalities := equalities m @ rope_equalities c ix1\<rparr>,
            length (bodies m)))"

text \<open>
  \<^verbatim>\<open>MakeRope\<close>. The name of the body given must be \<open><prefix>B\<close> followed by the
  coordinate of the origin; the rope is then built from the origin to the right and to the
  left, and closed for a loop. The arrays \<^verbatim>\<open>txt\<close> and \<^verbatim>\<open>txt2\<close> of this function have
  200 characters: \<open>root_txt\<close> is the content of \<^verbatim>\<open>txt\<close> at the comparison with the name of
  the body, \<open>root_rest\<close> its content at the conversion. The message of a failure is the text
  handed to \<^verbatim>\<open>comperr\<close>.
\<close>

definition root_txt :: "mjCComposite \<Rightarrow> string" where
  "root_txt c = sprintf_arr 200 (prefix c @ ''B'')"

definition root_rest :: "mjCComposite \<Rightarrow> string \<Rightarrow> string" where
  "root_rest c nm = strcpy_arr 200 (drop (length (root_txt c)) nm)"

definition MakeRope :: "mjCComposite \<Rightarrow> mjCModel \<Rightarrow> nat \<Rightarrow> status \<times> mjCModel" where
  "MakeRope c m body =
     (if dim c \<noteq> 1 then (Failure ''Rope must be one-dimensional'', m)
      else
        let txt = root_txt c;
            body_name' = body_name (bodies m ! body) in
        if take (length txt) body_name' \<noteq> txt
        then (Failure (strcat_arr 200 txt '' must be the beginning of root body name''), m)
        else
          case sscanf_d (root_rest c body_name') of
            None \<Rightarrow> (Failure ''Root body name must contain X coordinate'', m)
          | Some ox \<Rightarrow>
              if ox < 0 \<or> ox \<ge> count c 0
              then (Failure ''Root body coordinate out of range'', m)
              else
                let m1 = fst (AddRopeBody c m body ox ox);
                    m2 = fst (fold (\<lambda>ix (m', pbody). AddRopeBody c m' pbody ix (ix + 1))
                                (map (\<lambda>k. ox + k) (range (count c 0 - 1 - ox))) (m1, body));
                    m3 = fst (fold (\<lambda>ix (m', pbody). AddRopeBody c m' pbody ix (ix - 1))
                                (map (\<lambda>k. ox - k) (range ox)) (m2, body));
                    m4 = (if type c = mjCOMPTYPE_LOOP
                          then m3\<lparr>equalities := equalities m3 @
                                    [\<lparr>eq_type = mjEQ_CONNECT,
                                      eq_name1 = sprintf_arr 200 (prefix c @ ''B0''),
                                      eq_name2 = sprintf_arr 200 (fmt1 (prefix c) ''B'' (count c 0 - 1)),
                                      eq_def = None\<rparr>],
                                  excludes := excludes m3 @
                                    [\<lparr>bodyname1 = sprintf_arr 200 (prefix c @ ''B0''),
                                      bodyname2 = sprintf_arr 200 (fmt1 (prefix c) ''B'' (count c 0 - 1))\<rparr>]\<rparr>
                          else m3)
                in (Success, m4))"
section \<open>The shell builder (box, cylinder, ellipsoid)\<close>

text \<open>The test \<^verbatim>\<open>ix==0 || ix==count[0]-1 || iy==0 || \<dots>\<close>: the lattice point lies on
  the boundary of the lattice.\<close>

definition on_shell :: "mjCComposite \<Rightarrow> int \<Rightarrow> int \<Rightarrow> int \<Rightarrow> bool" where
  "on_shell c ix iy iz =
     (ix = 0 \<or> ix = count c 0 - 1 \<or>
      iy = 0 \<or> iy = count c 1 - 1 \<or>
      iz = 0 \<or> iz = count c 2 - 1)"

text \<open>The lattice points for which the triple loop of \<^verbatim>\<open>MakeBox\<close> enters its body.\<close>

definition shell_points :: "mjCComposite \<Rightarrow> (int \<times> int \<times> int) list" where
  "shell_points c =
     filter (\<lambda>(ix, iy, iz). on_shell c ix iy iz)
       (triples (count c 0) (count c 1) (count c 2))"

definition box_joint :: "mjCComposite \<Rightarrow> int \<Rightarrow> int \<Rightarrow> int \<Rightarrow> mjmJoint" where
  "box_joint c ix iy iz =
     (defjoint c mjCOMPKIND_JOINT ! 0)
       \<lparr>jnt_name := name3 (prefix c) ''J'' ix iy iz,
        jnt_type := mjJNT_SLIDE,
        jnt_pos := (0, 0, 0),
        jnt_axis := (0, 0, 1)\<rparr>"

definition box_body :: "mjCComposite \<Rightarrow> nat \<Rightarrow> int \<Rightarrow> int \<Rightarrow> int \<Rightarrow> mjmBody" where
  "box_body c body ix iy iz =
     \<lparr>body_name = name3 (prefix c) ''B'' ix iy iz,
      body_parent = body,
      body_pos = None,
      body_joints = [box_joint c ix iy iz],
      body_geoms = [\<lparr>geom_name = name3 (prefix c) ''G'' ix iy iz,
                      geom_type = (if def_geom_type c = mjGEOM_CAPSULE then mjGEOM_CAPSULE
                                   else mjGEOM_SPHERE)\<rparr>],
      body_sites = [],
      body_plugin = None\<rparr>"

text \<open>
  The equality constraints added for one shell point: the constraint that fixes its
  joint, then one constraint with each of the up to three neighbours in the positive
  directions that lie on the shell. The first name of a neighbour constraint is the
  content of \<^verbatim>\<open>txt\<close>, which holds the name of the joint of the point; the second is
  formatted into \<^verbatim>\<open>char txt2[200]\<close>.
\<close>

definition box_neighbor_eqs :: "mjCComposite \<Rightarrow> int \<Rightarrow> int \<Rightarrow> int \<Rightarrow> mjmEquality list" where
  "box_neighbor_eqs c ix iy iz =
     concat (map (\<lambda>i.
        let ix1 = min (ix + b2i (i = 0)) (count c 0 - 1);
            iy1 = min (iy + b2i (i = 1)) (count c 1 - 1);
            iz1 = min (iz + b2i (i = 2)) (count c 2 - 1) in
        if on_shell c ix1 iy1 iz1 \<and> (ix \<noteq> ix1 \<or> iy \<noteq> iy1 \<or> iz \<noteq> iz1)
        then [\<lparr>eq_type = mjEQ_JOINT,
               eq_name1 = name3 (prefix c) ''J'' ix iy iz,
               eq_name2 = sprintf_arr 200 (fmt3 (prefix c) ''J'' ix1 iy1 iz1),
               eq_def = None\<rparr>]
        else []) (range 3))"

definition box_equalities :: "mjCComposite \<Rightarrow> int \<Rightarrow> int \<Rightarrow> int \<Rightarrow> mjmEquality list" where
  "box_equalities c ix iy iz =
     \<lparr>eq_type = mjEQ_JOINT, eq_name1 = jnt_name (box_joint c ix iy iz), eq_name2 = [],
      eq_def = Some mjCOMPKIND_JOINT\<rparr> # box_neighbor_eqs c ix iy iz"

text \<open>
  \<^verbatim>\<open>MakeBox\<close>: the center geom on the body given, the fixed tendon that wraps every
  joint of the shell, the bodies of the shell with their constraints, the constraint on the
  tendon, and the skin.
\<close>

definition MakeBox :: "env \<Rightarrow> mjCComposite \<Rightarrow> mjCModel \<Rightarrow> nat \<Rightarrow> status \<times> mjCModel" where
  "MakeBox e c m body =
     (if dim c \<noteq> 3 then (Failure ''Box and ellipsoid must be three-dimensional'', m)
      else
        let pts = shell_points c;
            ten = \<lparr>ten_name = name0 (prefix c) ''T'',
                   ten_def = mjCOMPKIND_TENDON,
                   ten_group = None,
                   ten_wrap = map (\<lambda>(ix, iy, iz). WrapJoint (jnt_name (box_joint c ix iy iz)) 1) pts\<rparr>;
            m1 = m\<lparr>bodies := (bodies m)
                      [body := (bodies m ! body)
                         \<lparr>body_geoms := body_geoms (bodies m ! body) @
                            [\<lparr>geom_name = name0 (prefix c) ''Gcenter'', geom_type = mjGEOM_SPHERE\<rparr>]\<rparr>]\<rparr>;
            m2 = m1\<lparr>tendons := tendons m1 @ [ten],
                    bodies := bodies m1 @ map (\<lambda>(ix, iy, iz). box_body c body ix iy iz) pts,
                    equalities := equalities m1 @
                       concat (map (\<lambda>(ix, iy, iz). box_equalities c ix iy iz) pts) @
                       [\<lparr>eq_type = mjEQ_TENDON, eq_name1 = ten_name ten, eq_name2 = [],
                         eq_def = Some mjCOMPKIND_TENDON\<rparr>]\<rparr>;
            m3 = (if skin c then m2\<lparr>skins := skins m2 @ [skin3 e c]\<rparr> else m2)
        in (Success, m3))"

section \<open>The particle builder\<close>

text \<open>The vertices and names that \<^verbatim>\<open>MakeParticle\<close> generates when no vertices are
  prescribed: one lattice point per pass of the triple loop.\<close>

definition lattice :: "mjCComposite \<Rightarrow> (int \<times> int \<times> int) list" where
  "lattice c = triples (count c 0) (count c 1) (count c 2)"

definition lattice_vert :: "mjCComposite \<Rightarrow> int \<times> int \<times> int \<Rightarrow> mjtNum list" where
  "lattice_vert c p =
     (case p of (ix, iy, iz) \<Rightarrow>
        [spacing c * (real_of_int ix - 0.5 * real_of_int (count c 0)),
         spacing c * (real_of_int iy - 0.5 * real_of_int (count c 1)),
         spacing c * (real_of_int iz - 0.5 * real_of_int (count c 2))])"

definition lattice_name :: "mjCComposite \<Rightarrow> int \<times> int \<times> int \<Rightarrow> string" where
  "lattice_name c p = (case p of (ix, iy, iz) \<Rightarrow> name3 (prefix c) ''B'' ix iy iz)"

text \<open>The faces generated when none are prescribed: six tetrahedra per cube of a
  three-dimensional lattice, two triangles per square of a two-dimensional one.\<close>

definition cube2tets :: "nat list list" where
  "cube2tets = [[0, 3, 1, 7], [0, 1, 4, 7], [1, 3, 2, 7], [1, 2, 6, 7], [1, 5, 4, 7], [1, 6, 5, 7]]"

definition quad2tri :: "nat list list" where
  "quad2tri = [[0, 1, 2], [0, 2, 3]]"

definition lattice_faces :: "mjCComposite \<Rightarrow> int list" where
  "lattice_faces c =
     (let c0 = count c 0; c1 = count c 1; c2 = count c 2 in
      if dim c = 3
      then concat [let vert = [c2*c1*(ix+0) + c2*(iy+0) + iz+0,
                               c2*c1*(ix+1) + c2*(iy+0) + iz+0,
                               c2*c1*(ix+1) + c2*(iy+1) + iz+0,
                               c2*c1*(ix+0) + c2*(iy+1) + iz+0,
                               c2*c1*(ix+0) + c2*(iy+0) + iz+1,
                               c2*c1*(ix+1) + c2*(iy+0) + iz+1,
                               c2*c1*(ix+1) + c2*(iy+1) + iz+1,
                               c2*c1*(ix+0) + c2*(iy+1) + iz+1]
                   in concat (map (map (\<lambda>v. vert ! v)) cube2tets).
                   ix \<leftarrow> range (c0 - 1), iy \<leftarrow> range (c1 - 1), iz \<leftarrow> range (c2 - 1)]
      else if dim c = 2
      then concat [let vert = [c2*c1*(ix+0) + c2*(iy+0),
                               c2*c1*(ix+1) + c2*(iy+0),
                               c2*c1*(ix+1) + c2*(iy+1),
                               c2*c1*(ix+0) + c2*(iy+1)]
                   in concat (map (map (\<lambda>v. vert ! v)) quad2tri).
                   ix \<leftarrow> range (c0 - 1), iy \<leftarrow> range (c1 - 1)]
      else [])"

text \<open>One pass of the body loop: the body with its position, its joints (three sliders,
  or the joints the user defined for the particle kind), its geom, its site and the
  reference to the plugin instance.\<close>

definition particle_joints :: "mjCComposite \<Rightarrow> mjmJoint list" where
  "particle_joints c =
     (if \<not> add c mjCOMPKIND_PARTICLE
      then map (\<lambda>i. (defjoint c mjCOMPKIND_JOINT ! 0)
                       \<lparr>jnt_type := mjJNT_SLIDE, jnt_pos := (0, 0, 0), jnt_axis := unit_axis i\<rparr>)
             (range 3)
      else defjoint c mjCOMPKIND_PARTICLE)"

definition particle_body :: "mjCComposite \<Rightarrow> nat \<Rightarrow> nat \<Rightarrow> mjmBody" where
  "particle_body c body i =
     \<lparr>body_name = (if username c \<noteq> [] then username c ! i else name1 (prefix c) ''B'' (int i)),
      body_parent = body,
      body_pos = Some (offset c 0 + uservert c ! (3*i),
                       offset c 1 + uservert c ! (3*i + 1),
                       offset c 2 + uservert c ! (3*i + 2)),
      body_joints = particle_joints c,
      body_geoms = [\<lparr>geom_name = [], geom_type = def_geom_type c\<rparr>],
      body_sites = [\<lparr>site_name = name1 (prefix c) ''S'' (int i), site_type = mjGEOM_SPHERE\<rparr>],
      body_plugin = plugin_instance c\<rparr>"

text \<open>The edges of the triangles of \<open>face\<close>, each with its smaller end first, sorted and
  without repetition (\<^verbatim>\<open>std::sort\<close>, \<^verbatim>\<open>std::unique\<close>).\<close>

definition face_edges :: "int list \<Rightarrow> (int \<times> int) list" where
  "face_edges face =
     remdups_adj (sort
       [let v0 = face ! (3*i + (j + 0) mod 3); v1 = face ! (3*i + (j + 1) mod 3)
        in if v0 < v1 then (v0, v1) else (v1, v0).
        i \<leftarrow> [0..<length face div 3], j \<leftarrow> [0, 1, 2]])"

definition isometry_tendon :: "mjCComposite \<Rightarrow> int \<times> int \<Rightarrow> mjCTendon" where
  "isometry_tendon c ed =
     (case ed of (v0, v1) \<Rightarrow>
        \<lparr>ten_name = name2 (prefix c) ''T'' v0 v1,
         ten_def = mjCOMPKIND_TENDON,
         ten_group = Some 4,
         ten_wrap = [WrapSite (name1 (prefix c) ''S'' v0), WrapSite (name1 (prefix c) ''S'' v1)]\<rparr>)"

text \<open>
  The first two steps of \<^verbatim>\<open>MakeParticle\<close>. \<open>particle_populate\<close>: the vertices and the
  names are generated if no vertices are prescribed. \<open>particle_face\<close> and
  \<open>particle_userface\<close>: the faces are generated if none are prescribed, and otherwise read
  and made to count from 0, which also sets \<open>dim\<close> to 2; \<open>userface\<close> is rewritten from them.
\<close>

definition particle_populate :: "mjCComposite \<Rightarrow> mjCComposite" where
  "particle_populate c =
     (if uservert c = []
      then c\<lparr>uservert := concat (map (lattice_vert c) (lattice c)),
             username := username c @ map (lattice_name c) (lattice c)\<rparr>
      else c)"

definition particle_face :: "env \<Rightarrow> mjCComposite \<Rightarrow> int list" where
  "particle_face e c =
     (if userface c = [] then lattice_faces c
      else map (\<lambda>x. x - 1) (String2Vector e (userface c)))"

definition particle_userface :: "env \<Rightarrow> mjCComposite \<Rightarrow> mjCComposite" where
  "particle_userface e c =
     (if userface c = [] then c\<lparr>userface := Vector2String e (particle_face e c)\<rparr>
      else c\<lparr>dim := 2, userface := Vector2String e (particle_face e c)\<rparr>)"

text \<open>
  \<^verbatim>\<open>MakeParticle\<close>. The volume of each vertex and the density of its geom are not
  represented. The two failures after the spacing test are the thickness of the plugin
  that does not convert, and, in the first pass of the body loop, a plugin that already has
  a face attribute: the body of that pass stays in the model.
\<close>

definition MakeParticle :: "env \<Rightarrow> mjCComposite \<Rightarrow> mjCModel \<Rightarrow> nat \<Rightarrow> status \<times> mjCModel" where
  "MakeParticle e c m body =
     (if uservert c = [] \<and>
         spacing c < max (def_geom_size c 0) (max (def_geom_size c 1) (def_geom_size c 2))
      then (Failure ''Spacing must be larger than geometry size'', m)
      else
        let c1 = particle_populate c;
            face = particle_face e c1;
            c2 = particle_userface e c1
        in
        if dim c2 = 2 \<and> plugin_instance c2 \<noteq> None \<and>
           stod e ((plugins m ! the (plugin_instance c2)) ''thickness'') = None
        then (Failure ''Invalid thickness attribute'', m)
        else
          let face2 = (if userface c2 \<noteq> [] then String2Vector e (userface c2) else face);
              n = length (uservert c2) div 3
          in
          if plugin_instance c2 \<noteq> None \<and> 0 < n \<and>
             (plugins m ! the (plugin_instance c2)) ''face'' \<noteq> []
          then (Failure ''Face attribute already exists in plugin'',
                m\<lparr>bodies := bodies m @ [particle_body c2 body 0]\<rparr>)
          else
            let m1 = m\<lparr>bodies := bodies m @ map (particle_body c2 body) [0..<n],
                       plugins := (if plugin_instance c2 \<noteq> None \<and> 0 < n
                                   then (plugins m)
                                          [the (plugin_instance c2) :=
                                             (plugins m ! the (plugin_instance c2))
                                               (''face'' := userface c2, ''edge'' := [])]
                                   else plugins m)\<rparr>;
                m2 = (if dim c2 = 2
                      then m1\<lparr>tendons := tendons m1 @ map (isometry_tendon c2) (face_edges face2),
                              equalities := equalities m1 @
                                map (\<lambda>ed. \<lparr>eq_type = mjEQ_TENDON,
                                           eq_name1 = ten_name (isometry_tendon c2 ed),
                                           eq_name2 = [], eq_def = Some mjCOMPKIND_TENDON\<rparr>)
                                    (face_edges face2)\<rparr>
                      else m1);
                m3 = (if skin c2 \<and> dim c2 = 3 then m2\<lparr>skins := skins m2 @ [skin3 e c2]\<rparr> else m2);
                m4 = (if skin c2 \<and> dim c2 = 2
                      then (if skinsubgrid c2 > 0 then MakeSkin2Subgrid c2 m3 (skininflate c2)
                            else MakeSkin2 e c2 m3 (skininflate c2))
                      else m3)
            in (Success, m4))"

section \<open>Validation and dispatch\<close>

text \<open>
  The loop of \<^verbatim>\<open>Make\<close> that determines the dimensionality and checks the order of the
  singleton counts. It starts from the value that \<open>dim\<close> has (0 after construction) and
  returns \<open>None\<close> where the source returns the error.
\<close>

fun singleton_loop :: "(nat \<Rightarrow> int) \<Rightarrow> nat list \<Rightarrow> bool \<Rightarrow> int \<Rightarrow> int option" where
  "singleton_loop cnt [] first d = Some d"
| "singleton_loop cnt (i # is) first d =
     (if cnt i = 1 then singleton_loop cnt is True d
      else if first then None
      else singleton_loop cnt is first (d + 1))"

text \<open>The three deprecation messages.\<close>

definition rope_deprecated :: string where
  \<open>rope_deprecated = ''The "rope" composite type is deprecated. Please use "cable" instead.''\<close>

definition loop_deprecated :: string where
  \<open>loop_deprecated = ''The "loop" composite type is deprecated. Please use "cable" instead.''\<close>

definition cloth_deprecated :: string where
  \<open>cloth_deprecated = ''The "cloth" composite type is deprecated. Please use "shell" instead.''\<close>

text \<open>
  \<^verbatim>\<open>Make\<close>, in two parts. \<open>validate\<close> is the sequence of checks, in the order of the
  source: it returns the message of the first check that fails, or the composite as the
  checks leave it (\<open>count\<close> overwritten when vertices are prescribed, \<open>dim\<close> computed).
  \<open>Make\<close> then dispatches on the type. Its result is the outcome, the warnings given to
  \<^verbatim>\<open>mju_warning\<close>, and the model.
\<close>

definition validate :: "env \<Rightarrow> mjCComposite \<Rightarrow> string + mjCComposite" where
  "validate e c =
     (if (def_geom_type c \<noteq> mjGEOM_SPHERE \<and> def_geom_type c \<noteq> mjGEOM_CAPSULE \<and>
          def_geom_type c \<noteq> mjGEOM_ELLIPSOID) \<and>
         type c \<noteq> mjCOMPTYPE_PARTICLE \<and> type c \<noteq> mjCOMPTYPE_CABLE
      then Inl ''Composite geom type must be sphere, capsule or ellipsoid''
      else if length (pin c) mod 2 \<noteq> 0
      then Inl ''Pin coordinate number of must be multiple of 2''
      else if count c 0 < 1 \<or> count c 1 < 1 \<or> count c 2 < 1
      then Inl ''Positive counts expected in composite''
      else if (type c = mjCOMPTYPE_GRID \<or> (type c = mjCOMPTYPE_PARTICLE \<and> uservert c = [])) \<and>
              spacing c < max (def_geom_size c 0) (max (def_geom_size c 1) (def_geom_size c 2))
      then Inl ''Spacing must be larger than geometry size''
      else if size_c c 0 * size_c c 0 + size_c c 1 * size_c c 1 + size_c c 2 * size_c c 2
                < mjMINVAL e \<and> uservert c = []
      then Inl ''Positive spacing or length expected in composite''
      else if spacing c \<noteq> 0 \<and> type c = mjCOMPTYPE_CABLE
      then Inl ''Spacing is not supported by cable composite''
      else if uservert c \<noteq> [] \<and> count c 0 > 1
      then Inl ''Either vertex or count can be specified, not both''
      else
        let c1 = (if uservert c \<noteq> []
                  then c\<lparr>count := (count c)(0 := int (length (uservert c) div 3), 1 := 1)\<rparr>
                  else c)
        in
        case singleton_loop (count c1) [0, 1, 2] False (dim c1) of
          None \<Rightarrow> Inl ''Singleton counts must come last''
        | Some d \<Rightarrow>
            let c2 = c1\<lparr>dim := d\<rparr> in
            if skin c2 \<and> skinsubgrid c2 > 0 \<and> type c2 \<noteq> mjCOMPTYPE_CABLE \<and>
               (count c2 0 < 3 \<or> count c2 1 < 3)
            then Inl ''At least 3x3 required for skin subgrid''
            else Inr c2)"

definition Make ::
  "env \<Rightarrow> mjCComposite \<Rightarrow> mjCModel \<Rightarrow> nat \<Rightarrow> status \<times> string list \<times> mjCModel" where
  "Make e c m body =
     (case validate e c of
        Inl msg \<Rightarrow> (Failure msg, [], m)
      | Inr c2 \<Rightarrow>
          (case type c2 of
             mjCOMPTYPE_PARTICLE \<Rightarrow>
               (case MakeParticle e c2 m body of (st, m') \<Rightarrow> (st, [], m'))
           | mjCOMPTYPE_GRID \<Rightarrow>
               (case MakeGrid e c2 m body of (st, m') \<Rightarrow> (st, [], m'))
           | mjCOMPTYPE_ROPE \<Rightarrow> (Failure rope_deprecated, [], m)
           | mjCOMPTYPE_LOOP \<Rightarrow>
               (case MakeRope c2 m body of (st, m') \<Rightarrow> (st, [loop_deprecated], m'))
           | mjCOMPTYPE_CABLE \<Rightarrow>
               (case MakeCable e c2 m body of (st, m') \<Rightarrow> (st, [], m'))
           | mjCOMPTYPE_CLOTH \<Rightarrow> (Failure cloth_deprecated, [], m)
           | mjCOMPTYPE_BOX \<Rightarrow>
               (case MakeBox e c2 m body of (st, m') \<Rightarrow> (st, [], m'))
           | mjCOMPTYPE_CYLINDER \<Rightarrow>
               (case MakeBox e c2 m body of (st, m') \<Rightarrow> (st, [], m'))
           | mjCOMPTYPE_ELLIPSOID \<Rightarrow>
               (case MakeBox e c2 m body of (st, m') \<Rightarrow> (st, [], m'))))"

text \<open>
  The composite as its constructor leaves it, with the default geom a sphere of radius
  \<open>0.005\<close> and one default joint per kind (which \<^verbatim>\<open>SetDefault\<close> adds); an
  environment; and a model that holds one body, on which a composite can be built. They
  serve as concrete inputs.
\<close>

definition default_joint :: mjmJoint where
  "default_joint = \<lparr>jnt_name = [], jnt_type = mjJNT_HINGE, jnt_pos = (0, 0, 0),
                     jnt_axis = (0, 0, 1), jnt_damping = 0, jnt_armature = 0,
                     jnt_frictionloss = 0\<rparr>"

definition default_composite :: mjCComposite where
  "default_composite =
     \<lparr>prefix = [], type = mjCOMPTYPE_PARTICLE, count = (\<lambda>i. 1), spacing = 0,
      offset = (\<lambda>i. 0), pin = [], plugin_instance = None,
      curve = (\<lambda>i. mjCOMPSHAPE_ZERO), size_c = (\<lambda>i. if i = 0 then 1 else 0),
      initial = ''ball'', uservert = [], userface = [], username = [],
      skin = False, skintexcoord = False, skininflate = 0, skinsubgrid = 0,
      add = (\<lambda>k. False), def_geom_type = mjGEOM_SPHERE,
      def_geom_size = (\<lambda>i. if i = 0 then 0.005 else 0), def_site_type = mjGEOM_SPHERE,
      defjoint = (\<lambda>k. [default_joint]), dim = 0\<rparr>"

definition empty_body :: "string \<Rightarrow> mjmBody" where
  "empty_body nm = \<lparr>body_name = nm, body_parent = 0, body_pos = None, body_joints = [],
                     body_geoms = [], body_sites = [], body_plugin = None\<rparr>"

definition one_body_model :: "string \<Rightarrow> mjCModel" where
  "one_body_model nm = \<lparr>bodies = [empty_body nm], tendons = [], equalities = [], excludes = [],
                         skins = [], texts = [], plugins = []\<rparr>"

definition test_env :: env where
  "test_env = \<lparr>stod = (\<lambda>s. None), String2Vector = (\<lambda>s. []), Vector2String = (\<lambda>xs. []),
              skin3 = (\<lambda>c. new_skin c 0), mjMINVAL = 1 / 10 ^ 15, mjPI = 3.14159265358979323846,
              c_cos = (\<lambda>x. 1), c_sin = (\<lambda>x. 0)\<rparr>"

text \<open>A cable of three segments whose first body is free.\<close>

definition cable_example :: mjCComposite where
  "cable_example = default_composite\<lparr>type := mjCOMPTYPE_CABLE, prefix := ''c'', dim := 1,
      count := (\<lambda>i. if i = 0 then 4 else 1), def_geom_type := mjGEOM_CAPSULE,
      initial := ''free''\<rparr>"

text \<open>A grid of three by two cells with shear tendons, whose cell \<open>(0, 1)\<close> is pinned.\<close>

definition grid_example :: mjCComposite where
  "grid_example = default_composite\<lparr>type := mjCOMPTYPE_GRID, prefix := ''g'', dim := 2,
      count := (\<lambda>i. if i = 0 then 3 else if i = 1 then 2 else 1), spacing := 1,
      pin := [0, 1], add := (\<lambda>k. k = mjCOMPKIND_SHEAR)\<rparr>"


text \<open>A box of three by three by three lattice points.\<close>

definition box_example :: mjCComposite where
  "box_example = default_composite\<lparr>type := mjCOMPTYPE_BOX, prefix := ''b'', dim := 3,
      count := (\<lambda>i. 3), spacing := 1\<rparr>"

text \<open>A prefix of 95 characters, and a grid of two by two cells and a box of two by two by
  two lattice points with this prefix.\<close>

definition long_prefix :: string where
  "long_prefix = replicate 95 (CHR ''a'')"

definition grid_long :: mjCComposite where
  "grid_long = default_composite\<lparr>type := mjCOMPTYPE_GRID, prefix := long_prefix,
      count := (\<lambda>i. if i = 2 then 1 else 2), spacing := 1\<rparr>"

definition box_long :: mjCComposite where
  "box_long = default_composite\<lparr>type := mjCOMPTYPE_BOX, prefix := long_prefix,
      count := (\<lambda>i. 2), spacing := 1\<rparr>"

text \<open>One particle with spacing 1 at the origin, as the constructor and the reader leave
  it: \<open>dim\<close> is 0 until \<^verbatim>\<open>Make\<close> computes it.\<close>

definition particle_one :: mjCComposite where
  "particle_one = default_composite\<lparr>prefix := ''p'', spacing := 1\<rparr>"

section \<open>Helper lemmas and the properties\<close>

subsection \<open>Lists\<close>

lemma nth_concat_uniform:
  "\<lbrakk>\<forall>xs\<in>set xss. length xs = m; i < length xss; j < m\<rbrakk>
   \<Longrightarrow> concat xss ! (i * m + j) = xss ! i ! j"
proof (induction xss arbitrary: i)
  case Nil
  then show ?case by simp
next
  case (Cons xs xss)
  show ?case
  proof (cases i)
    case 0
    with Cons.prems show ?thesis by (simp add: nth_append)
  next
    case (Suc i')
    with Cons.prems have "concat xss ! (i' * m + j) = xss ! i' ! j"
      by (intro Cons.IH) auto
    with Suc Cons.prems show ?thesis by (simp add: nth_append)
  qed
qed

lemma length_concat_uniform:
  "\<forall>xs\<in>set xss. length xs = m \<Longrightarrow> length (concat xss) = length xss * m"
  by (induction xss) auto

lemma index_less: "(i::nat) < m \<Longrightarrow> k < c \<Longrightarrow> i * c + k < m * c"
proof -
  assume "i < m" "k < c"
  then have "i * c + k < Suc i * c" by simp
  also have "\<dots> \<le> m * c" using \<open>i < m\<close> by (intro mult_le_mono1) simp
  finally show ?thesis .
qed

lemma nth_map_upt0: "i < n \<Longrightarrow> map f [0..<n] ! i = f i"
  by simp

lemma split_index: "(n::nat) * c + k = (n div m) * (m * c) + ((n mod m) * c + k)"
proof -
  have "n * c = ((n div m) * m + n mod m) * c" by simp
  also have "\<dots> = (n div m) * (m * c) + (n mod m) * c"
    by (simp only: add_mult_distrib mult.assoc)
  finally show ?thesis by simp
qed

lemma length_concat_map_uniform:
  "(\<And>x. x \<in> set xs \<Longrightarrow> length (f x) = m) \<Longrightarrow> length (concat (map f xs)) = length xs * m"
  by (induction xs) auto

subsection \<open>Subgrid weights\<close>


lemma length_mulMatMat [simp]: "length (mju_mulMatMat A B r1 c1 c2) = r1 * c2"
  by (simp add: mju_mulMatMat_def)

lemma nth_mulMatMat:
  assumes "i < r1" "j < c2"
  shows "mju_mulMatMat A B r1 c1 c2 ! (i * c2 + j) =
         (\<Sum>k\<leftarrow>[0..<c1]. A ! (i * c1 + k) * B ! (k * c2 + j))"
proof -
  have "i * c2 + j < r1 * c2"
    using assms by (rule index_less)
  then show ?thesis using assms by (simp add: mju_mulMatMat_def)
qed

lemma row_mulMatMat_vec:
  assumes "i < r1"
  shows "(\<Sum>j\<leftarrow>[0..<c2]. mju_mulMatMat A B r1 c1 c2 ! (i * c2 + j) * v ! j) =
         (\<Sum>k\<leftarrow>[0..<c1]. A ! (i * c1 + k) * mulMatVec B v c1 c2 ! k)"
proof -
  have "(\<Sum>j\<leftarrow>[0..<c2]. mju_mulMatMat A B r1 c1 c2 ! (i * c2 + j) * v ! j) =
        (\<Sum>j = 0..<c2. mju_mulMatMat A B r1 c1 c2 ! (i * c2 + j) * v ! j)"
    by (simp add: interv_sum_list_conv_sum_set_nat)
  also have "\<dots> = (\<Sum>j = 0..<c2. (\<Sum>k = 0..<c1. A ! (i * c1 + k) * B ! (k * c2 + j)) * v ! j)"
    using assms by (intro sum.cong refl) (simp add: nth_mulMatMat interv_sum_list_conv_sum_set_nat)
  also have "\<dots> = (\<Sum>j = 0..<c2. \<Sum>k = 0..<c1. A ! (i * c1 + k) * (B ! (k * c2 + j) * v ! j))"
    by (simp add: sum_distrib_right mult.assoc)
  also have "\<dots> = (\<Sum>k = 0..<c1. \<Sum>j = 0..<c2. A ! (i * c1 + k) * (B ! (k * c2 + j) * v ! j))"
    by (rule sum.swap)
  also have "\<dots> = (\<Sum>k = 0..<c1. A ! (i * c1 + k) * mulMatVec B v c1 c2 ! k)"
    by (intro sum.cong refl)
       (simp add: mulMatVec_def sum_distrib_left interv_sum_list_conv_sum_set_nat)
  finally show ?thesis by (simp add: interv_sum_list_conv_sum_set_nat)
qed

lemma D_ones:
  "mulMatVec (dense_D subD00) ones16 16 16 = e4"
  "mulMatVec (dense_D subD01) ones16 16 16 = e4"
  "mulMatVec (dense_D subD02) ones16 16 16 = e4"
  "mulMatVec (dense_D subD10) ones16 16 16 = e4"
  "mulMatVec (dense_D subD11) ones16 16 16 = e4"
  "mulMatVec (dense_D subD12) ones16 16 16 = e4"
  "mulMatVec (dense_D subD20) ones16 16 16 = e4"
  "mulMatVec (dense_D subD21) ones16 16 16 = e4"
  "mulMatVec (dense_D subD22) ones16 16 16 = e4"
  by code_simp+

lemma W_e4: "mulMatVec subW e4 16 16 = e0"
  by code_simp

lemma Dp_ones: "dx < 3 \<Longrightarrow> dy < 3 \<Longrightarrow> mulMatVec (dense_D (Dp dx dy)) ones16 16 16 = e4"
proof -
  assume "dx < 3" "dy < 3"
  then have "dx \<in> {0, 1, 2}" "dy \<in> {0, 1, 2}" by auto
  then show ?thesis by (auto simp: Dp_def D_ones)
qed

lemma length_XY_row [simp]: "length (XY_row x y) = 16"
  by (simp add: XY_row_def)

lemma nth_XY:
  assumes "n < subgrid_N s" "k < 16"
  shows "XY s ! (n * 16 + k) =
         XY_row (real (n div (2 + s)) * subgrid_step s) (real (n mod (2 + s)) * subgrid_step s) ! k"
proof -
  let ?m = "2 + s"
  let ?blk = "\<lambda>sx. concat (map (\<lambda>sy. XY_row (real sx * subgrid_step s) (real sy * subgrid_step s)) [0..<?m])"
  have sx: "n div ?m < ?m" using assms(1)
    by (simp add: subgrid_N_def less_mult_imp_div_less)
  have sy: "n mod ?m < ?m" by simp
  have "length (?blk sx) = ?m * 16" for sx
    by (subst length_concat_map_uniform [where m = 16]) simp_all
  then have len_blk: "\<forall>xs\<in>set (map ?blk [0..<?m]). length xs = ?m * 16"
    by (simp only: set_map ball_simps refl) simp
  have idx: "n * 16 + k = (n div ?m) * (?m * 16) + ((n mod ?m) * 16 + k)"
    by (rule split_index)
  have inner: "(n mod ?m) * 16 + k < ?m * 16"
    using sy assms(2) by (rule index_less)
  have "XY s ! (n * 16 + k) = concat (map ?blk [0..<?m]) ! ((n div ?m) * (?m * 16) + ((n mod ?m) * 16 + k))"
    by (simp only: XY_def idx [symmetric])
  also have "\<dots> = map ?blk [0..<?m] ! (n div ?m) ! ((n mod ?m) * 16 + k)"
    using len_blk sx inner by (intro nth_concat_uniform) simp_all
  also have "\<dots> = ?blk (n div ?m) ! ((n mod ?m) * 16 + k)"
    using sx by (simp only: nth_map_upt0)
  also have "\<dots> = map (\<lambda>sy. XY_row (real (n div ?m) * subgrid_step s) (real sy * subgrid_step s)) [0..<?m]
                      ! (n mod ?m) ! k"
    using sy assms(2) by (intro nth_concat_uniform) simp_all
  also have "\<dots> = XY_row (real (n div ?m) * subgrid_step s) (real (n mod ?m) * subgrid_step s) ! k"
    using sy by (simp only: nth_map_upt0)
  finally show ?thesis .
qed

lemma XY_first: "n < subgrid_N s \<Longrightarrow> XY s ! (n * 16) = 1"
  using nth_XY [of n s 0] by (simp add: XY_row_def)

lemma sum16_e0: "(\<Sum>k\<leftarrow>[0..<16]. f k * e0 ! k) = f 0"
  by (simp add: e0_def upt_rec numeral_eq_Suc)

lemma sum16_ones: "(\<Sum>k\<leftarrow>[0..<16]. f k * ones16 ! k) = (\<Sum>k\<leftarrow>[0..<16]. f k)"
  by (rule arg_cong [where f = sum_list], rule map_cong) (simp_all add: ones16_def)

lemma block_row_sum:
  assumes "dx < 3" "dy < 3" "n < subgrid_N s"
  shows "(\<Sum>bi\<leftarrow>[0..<16].
            mju_mulMatMat (XY_W s) (dense_D (Dp dx dy)) (subgrid_N s) 16 16 ! (n * 16 + bi)) = 1"
proof -
  let ?P = "mju_mulMatMat (XY_W s) (dense_D (Dp dx dy)) (subgrid_N s) 16 16"
  have "(\<Sum>bi\<leftarrow>[0..<16]. ?P ! (n * 16 + bi)) = (\<Sum>bi\<leftarrow>[0..<16]. ?P ! (n * 16 + bi) * ones16 ! bi)"
    by (simp only: sum16_ones)
  also have "\<dots> = (\<Sum>k\<leftarrow>[0..<16]. XY_W s ! (n * 16 + k) * e4 ! k)"
    using assms by (simp only: row_mulMatMat_vec Dp_ones)
  also have "\<dots> = (\<Sum>k\<leftarrow>[0..<16]. XY s ! (n * 16 + k) * e0 ! k)"
    using assms(3) by (simp only: XY_W_def row_mulMatMat_vec W_e4)
  also have "\<dots> = XY s ! (n * 16)"
    by (simp only: sum16_e0 add_0_right)
  also have "\<dots> = 1"
    using assms(3) by (rule XY_first)
  finally show ?thesis .
qed

lemma nth_Weight:
  assumes "d < 9" "n < subgrid_N s" "bi < 16"
  shows "Weight s ! (d * subgrid_N s * 16 + n * 16 + bi) =
         mju_mulMatMat (XY_W s) (dense_D (Dp (d div 3) (d mod 3))) (subgrid_N s) 16 16 ! (n * 16 + bi)"
proof -
  let ?N = "subgrid_N s"
  let ?P = "\<lambda>dx dy. mju_mulMatMat (XY_W s) (dense_D (Dp dx dy)) ?N 16 16"
  let ?blk = "\<lambda>dx. concat (map (\<lambda>dy. ?P dx dy) [0..<3])"
  have dx: "d div 3 < 3" using assms(1) by simp
  have dy: "d mod 3 < 3" by simp
  have "length (?blk dx) = 3 * (?N * 16)" for dx
    by (subst length_concat_map_uniform [where m = "?N * 16"]) simp_all
  then have len_blk: "\<forall>xs\<in>set (map ?blk [0..<3]). length xs = 3 * (?N * 16)"
    by (simp only: set_map ball_simps refl) simp
  have row: "n * 16 + bi < ?N * 16" using assms(2,3) by (rule index_less)
  have inner: "(d mod 3) * (?N * 16) + (n * 16 + bi) < 3 * (?N * 16)"
    using dy row by (rule index_less)
  have idx: "d * ?N * 16 + n * 16 + bi =
             (d div 3) * (3 * (?N * 16)) + ((d mod 3) * (?N * 16) + (n * 16 + bi))"
    using split_index [of d "?N * 16" "n * 16 + bi" 3] by (simp only: mult.assoc add.assoc)
  have "Weight s ! (d * ?N * 16 + n * 16 + bi) =
        concat (map ?blk [0..<3]) ! ((d div 3) * (3 * (?N * 16)) + ((d mod 3) * (?N * 16) + (n * 16 + bi)))"
    by (simp only: Weight_def idx [symmetric])
  also have "\<dots> = map ?blk [0..<3] ! (d div 3) ! ((d mod 3) * (?N * 16) + (n * 16 + bi))"
    using len_blk dx inner by (intro nth_concat_uniform) simp_all
  also have "\<dots> = ?blk (d div 3) ! ((d mod 3) * (?N * 16) + (n * 16 + bi))"
    using dx by (simp only: nth_map_upt0)
  also have "\<dots> = map (\<lambda>dy. ?P (d div 3) dy) [0..<3] ! (d mod 3) ! (n * 16 + bi)"
    using dy row by (intro nth_concat_uniform) simp_all
  also have "\<dots> = ?P (d div 3) (d mod 3) ! (n * 16 + bi)"
    using dy by (simp only: nth_map_upt0)
  finally show ?thesis .
qed

text \<open>
  Claim C1 (partition of unity). For every subdivision count \<open>subgrid\<close>, every
  boundary-position class \<open>d\<close> in \<open>0..8\<close> and every row \<open>n\<close> of the weight matrix
  (one row per vertex of a refined cell), the 16 bone weights
  \<open>Weight[d*N*16 + n*16 + bi]\<close>, \<open>bi = 0..15\<close>, which are row \<open>n\<close> of
  \<open>XY * W * D(d)\<close>, add up to exactly 1: a constant field is interpolated to the same
  constant.
\<close>

theorem subgrid_weights_sum_to_one:
  assumes "d < 9" "n < subgrid_N subgrid"
  shows "(\<Sum>bi\<leftarrow>[0..<16].
            Weight subgrid ! (d * subgrid_N subgrid * 16 + n * 16 + bi)) = 1"
proof -
  have "(\<Sum>bi\<leftarrow>[0..<16]. Weight subgrid ! (d * subgrid_N subgrid * 16 + n * 16 + bi)) =
        (\<Sum>bi\<leftarrow>[0..<16]. mju_mulMatMat (XY_W subgrid) (dense_D (Dp (d div 3) (d mod 3)))
                             (subgrid_N subgrid) 16 16 ! (n * 16 + bi))"
    using assms by (intro arg_cong [where f = sum_list] map_cong refl) (simp add: nth_Weight)
  also have "\<dots> = 1"
    using assms by (intro block_row_sum) simp_all
  finally show ?thesis .
qed

theorem subgrid_weights_sum_to_one_witness:
  "(7::nat) < 9 \<and> 5 < subgrid_N 1 \<and> (\<Sum>bi\<leftarrow>[0..<16]. Weight 1 ! (7 * subgrid_N 1 * 16 + 5 * 16 + bi)) = 1"
proof -
  have h1: "(7::nat) < 9" by simp
  have h2: "5 < subgrid_N 1" by (simp add: subgrid_N_def)
  show ?thesis using h1 h2 subgrid_weights_sum_to_one [OF h1 h2] by simp
qed

subsection \<open>Formatted names are injective\<close>

lemma digit_char_inj: "d < 10 \<Longrightarrow> d' < 10 \<Longrightarrow> digit_char d = digit_char d' \<Longrightarrow> d = d'"
proof -
  assume "d < 10" "d' < 10"
  then have "d \<in> {0,1,2,3,4,5,6,7,8,9}" "d' \<in> {0,1,2,3,4,5,6,7,8,9}" by auto
  moreover assume "digit_char d = digit_char d'"
  ultimately show ?thesis by (auto simp: digit_char_def)
qed

lemma digit_char_isdigit: "d < 10 \<Longrightarrow> digit_char d \<in> set ''0123456789''"
proof -
  assume "d < 10"
  then have "d \<in> {0,1,2,3,4,5,6,7,8,9}" by auto
  then show ?thesis by (auto simp: digit_char_def)
qed

lemma digits_set: "set (digits n) \<subseteq> set ''0123456789''"
proof (induction n rule: digits.induct)
  case (1 n)
  show ?case
  proof (cases "n < 10")
    case True
    then show ?thesis using digit_char_isdigit [of n] by (subst digits.simps) simp
  next
    case False
    then have "set (digits (n div 10)) \<subseteq> set ''0123456789''" by (rule 1)
    moreover have "digit_char (n mod 10) \<in> set ''0123456789''"
      by (rule digit_char_isdigit) simp
    ultimately show ?thesis using False by (subst digits.simps) simp
  qed
qed

lemma digits_nonempty: "digits n \<noteq> []"
  by (subst digits.simps) simp

lemma digits_length1: "length (digits n) = Suc 0 \<longleftrightarrow> n < 10"
  using digits_nonempty [of "n div 10"] by (subst digits.simps) simp

lemma digits_inj: "digits n = digits m \<Longrightarrow> n = m"
proof (induction n arbitrary: m rule: digits.induct)
  case (1 n)
  show ?case
  proof (cases "n < 10")
    case True
    then have "length (digits m) = Suc 0" using "1.prems" digits_length1 [of n] by simp
    with digits_length1 [of m] have m: "m < 10" by blast
    from True m "1.prems" have "digit_char n = digit_char m"
      by (simp add: digits.simps [of n] digits.simps [of m])
    with True m show ?thesis by (rule digit_char_inj)
  next
    case False
    then have "length (digits m) \<noteq> Suc 0" using "1.prems" digits_length1 [of n] by simp
    with digits_length1 [of m] have m: "\<not> m < 10" by blast
    from False m "1.prems"
    have "digits (n div 10) @ [digit_char (n mod 10)] = digits (m div 10) @ [digit_char (m mod 10)]"
      by (simp add: digits.simps [of n] digits.simps [of m])
    then have a: "digits (n div 10) = digits (m div 10)"
      and b: "digit_char (n mod 10) = digit_char (m mod 10)" by simp_all
    from a False have "n div 10 = m div 10" by (intro 1) simp_all
    moreover from b have "n mod 10 = m mod 10" by (intro digit_char_inj) simp_all
    ultimately have "n div 10 * 10 + n mod 10 = m div 10 * 10 + m mod 10" by simp
    then show ?thesis by (simp only: div_mult_mod_eq)
  qed
qed

lemma underscore_notin_digits: "CHR ''_'' \<notin> set (digits n)"
proof
  assume "CHR ''_'' \<in> set (digits n)"
  then have "CHR ''_'' \<in> set ''0123456789''" using digits_set by blast
  then show False by simp
qed

lemma underscore_notin_show_int [simp]: "CHR ''_'' \<notin> set (show_int i)"
  by (simp add: show_int_def underscore_notin_digits)

lemma hd_digits: "hd (digits n) \<noteq> CHR ''-''"
proof -
  have "hd (digits n) \<in> set (digits n)" using digits_nonempty by (rule hd_in_set)
  then have "hd (digits n) \<in> set ''0123456789''" using digits_set by blast
  then show ?thesis by auto
qed

lemma hd_show_int: "hd (show_int j) = CHR ''-'' \<longleftrightarrow> j < 0"
  using hd_digits [of "nat j"] by (simp add: show_int_def)

lemma show_int_inj: "show_int i = show_int j \<Longrightarrow> i = j"
proof -
  assume eq: "show_int i = show_int j"
  then have "hd (show_int i) = CHR ''-'' \<longleftrightarrow> hd (show_int j) = CHR ''-''" by simp
  then have sign: "i < 0 \<longleftrightarrow> j < 0" by (simp only: hd_show_int)
  show ?thesis
  proof (cases "i < 0")
    case True
    with sign have j: "j < 0" by simp
    from eq True j have "digits (nat (- i)) = digits (nat (- j))" by (simp add: show_int_def)
    then have "nat (- i) = nat (- j)" by (rule digits_inj)
    with True j show ?thesis by simp
  next
    case False
    with sign have j: "\<not> j < 0" by simp
    from eq False j have "digits (nat i) = digits (nat j)" by (simp add: show_int_def)
    then have "nat i = nat j" by (rule digits_inj)
    with False j show ?thesis by simp
  qed
qed

lemma sep_unique:
  "x \<notin> set a \<Longrightarrow> x \<notin> set a' \<Longrightarrow> a @ x # b = a' @ x # b' \<Longrightarrow> a = a' \<and> b = b'"
proof (induction a arbitrary: a')
  case Nil
  then show ?case by (cases a') auto
next
  case (Cons y a)
  then show ?case by (cases a') auto
qed

lemma fmt1_inj [simp]: "fmt1 p t i = fmt1 p t i' \<longleftrightarrow> i = i'"
proof
  assume "fmt1 p t i = fmt1 p t i'"
  then have "show_int i = show_int i'" by (simp add: fmt1_def)
  then show "i = i'" by (rule show_int_inj)
qed simp

lemma fmt2_inj [simp]: "fmt2 p t i j = fmt2 p t i' j' \<longleftrightarrow> i = i' \<and> j = j'"
proof
  assume "fmt2 p t i j = fmt2 p t i' j'"
  then have "show_int i @ CHR ''_'' # show_int j = show_int i' @ CHR ''_'' # show_int j'"
    by (simp add: fmt2_def)
  then have "show_int i = show_int i' \<and> show_int j = show_int j'"
    by (intro sep_unique [where x = "CHR ''_''"]) simp_all
  then show "i = i' \<and> j = j'" using show_int_inj by blast
qed simp

lemma fmt3_inj [simp]:
  "fmt3 p t i j k = fmt3 p t i' j' k' \<longleftrightarrow> i = i' \<and> j = j' \<and> k = k'"
proof
  assume "fmt3 p t i j k = fmt3 p t i' j' k'"
  then have "show_int i @ CHR ''_'' # (show_int j @ CHR ''_'' # show_int k) =
             show_int i' @ CHR ''_'' # (show_int j' @ CHR ''_'' # show_int k')"
    by (simp add: fmt3_def)
  then have 1: "show_int i = show_int i'"
    and 2: "show_int j @ CHR ''_'' # show_int k = show_int j' @ CHR ''_'' # show_int k'"
    using sep_unique [where x = "CHR ''_''" and a = "show_int i" and a' = "show_int i'"]
    by simp_all
  from 2 have "show_int j = show_int j' \<and> show_int k = show_int k'"
    by (intro sep_unique [where x = "CHR ''_''"]) simp_all
  with 1 show "i = i' \<and> j = j' \<and> k = k'" using show_int_inj by blast
qed simp

subsection \<open>Names that fit the array are the formatted text\<close>

lemma name0_fits: "fits (p @ t) \<Longrightarrow> name0 p t = p @ t"
  by (simp add: name0_def sprintf_arr_def fits_def)

lemma name1_fits: "fits (fmt1 p t i) \<Longrightarrow> name1 p t i = fmt1 p t i"
  by (simp add: name1_def sprintf_arr_def fits_def)

lemma name2_fits: "fits (fmt2 p t i j) \<Longrightarrow> name2 p t i j = fmt2 p t i j"
  by (simp add: name2_def sprintf_arr_def fits_def)

lemma name3_fits: "fits (fmt3 p t i j k) \<Longrightarrow> name3 p t i j k = fmt3 p t i j k"
  by (simp add: name3_def sprintf_arr_def fits_def)

lemma fits_tag1: "length t = length t' \<Longrightarrow> fits (fmt1 p t i) = fits (fmt1 p t' i)"
  by (simp add: fits_def fmt1_def)

lemma fits_tag2: "length t = length t' \<Longrightarrow> fits (fmt2 p t i j) = fits (fmt2 p t' i j)"
  by (simp add: fits_def fmt2_def)

lemma fits_tag3: "length t = length t' \<Longrightarrow> fits (fmt3 p t i j k) = fits (fmt3 p t' i j k)"
  by (simp add: fits_def fmt3_def)

subsection \<open>Loop ranges\<close>

lemma length_range [simp]: "length (range n) = nat n"
  by (simp add: range_def)

lemma set_range [simp]: "set (range n) = {0..<n}"
proof -
  have "int ` {0..<nat n} = {0..<n}"
  proof (intro set_eqI iffI)
    fix x assume "x \<in> int ` {0..<nat n}"
    then show "x \<in> {0..<n}" by auto
  next
    fix x assume "x \<in> {0..<n}"
    then have "x = int (nat x)" "nat x \<in> {0..<nat n}" by auto
    then show "x \<in> int ` {0..<nat n}" by (rule image_eqI)
  qed
  then show ?thesis by (simp add: range_def)
qed

lemma distinct_range [simp]: "distinct (range n)"
  by (simp add: range_def distinct_map inj_on_def)

lemma nth_range [simp]: "i < nat n \<Longrightarrow> range n ! i = int i"
  by (simp add: range_def)

lemma range_0 [simp]: "n \<le> 0 \<Longrightarrow> range n = []"
  by (simp add: range_def)

subsection \<open>What the skin builders leave alone\<close>

lemma MakeSkin2_frame [simp]:
  "bodies (MakeSkin2 e c m x) = bodies m"
  "tendons (MakeSkin2 e c m x) = tendons m"
  "equalities (MakeSkin2 e c m x) = equalities m"
  by (simp_all add: MakeSkin2_def Let_def)

lemma MakeSkin2Subgrid_frame [simp]:
  "bodies (MakeSkin2Subgrid c m x) = bodies m"
  "tendons (MakeSkin2Subgrid c m x) = tendons m"
  "equalities (MakeSkin2Subgrid c m x) = equalities m"
  by (simp_all add: MakeSkin2Subgrid_def Let_def)

lemma MakeShear_bodies [simp]: "bodies (MakeShear c m) = bodies m"
  by (simp add: MakeShear_def)

subsection \<open>Validation and dispatch\<close>

lemma validate_type: "validate e c = Inr c2 \<Longrightarrow> type c2 = type c"
  by (auto simp: validate_def Let_def split: if_splits option.splits)

text \<open>
  Claim C7, as stated, fails: a rope composite with an odd pin list is rejected with the
  message of the pin check, not with the deprecation message.
\<close>

theorem Make_rope_other_message:
  "Make test_env (default_composite\<lparr>type := mjCOMPTYPE_ROPE, pin := [0]\<rparr>) (one_body_model ''world'') 0
     = (Failure ''Pin coordinate number of must be multiple of 2'', [], one_body_model ''world'')
   \<and> ''Pin coordinate number of must be multiple of 2'' \<noteq> rope_deprecated"
  by (simp add: Make_def validate_def default_composite_def rope_deprecated_def)

text \<open>
  Claim C7, amended. \<^verbatim>\<open>Make\<close> on a composite of type rope or cloth always fails, adds
  nothing to the model and gives no warning; the message is the deprecation message
  whenever the checks that precede the dispatch pass (otherwise it is the message of the
  first check that fails). On a composite of type loop that passes the checks, \<^verbatim>\<open>Make\<close>
  gives the deprecation warning and returns what \<^verbatim>\<open>MakeRope\<close> returns.
\<close>

theorem Make_deprecated:
  "(type c = mjCOMPTYPE_ROPE \<or> type c = mjCOMPTYPE_CLOTH \<longrightarrow>
      (\<exists>msg. Make e c m body = (Failure msg, [], m)) \<and>
      (\<forall>c2. validate e c = Inr c2 \<longrightarrow>
         Make e c m body =
           (Failure (if type c = mjCOMPTYPE_ROPE then rope_deprecated else cloth_deprecated), [], m))) \<and>
   (type c = mjCOMPTYPE_LOOP \<longrightarrow>
      (\<forall>c2. validate e c = Inr c2 \<longrightarrow>
         Make e c m body = (fst (MakeRope c2 m body), [loop_deprecated], snd (MakeRope c2 m body))))"
proof (cases "validate e c")
  case (Inl msg)
  then show ?thesis by (simp add: Make_def)
next
  case (Inr c2)
  then show ?thesis using validate_type [OF Inr] by (auto simp: Make_def split: prod.splits)
qed

theorem Make_deprecated_witness:
  "type (default_composite\<lparr>type := mjCOMPTYPE_CLOTH\<rparr>) = mjCOMPTYPE_CLOTH \<and>
   validate test_env (default_composite\<lparr>type := mjCOMPTYPE_CLOTH\<rparr>)
     = Inr (default_composite\<lparr>type := mjCOMPTYPE_CLOTH\<rparr>) \<and>
   Make test_env (default_composite\<lparr>type := mjCOMPTYPE_CLOTH\<rparr>) (one_body_model ''world'') 0
     = (Failure cloth_deprecated, [], one_body_model ''world'') \<and>
   type (default_composite\<lparr>type := mjCOMPTYPE_LOOP\<rparr>) = mjCOMPTYPE_LOOP \<and>
   validate test_env (default_composite\<lparr>type := mjCOMPTYPE_LOOP\<rparr>)
     = Inr (default_composite\<lparr>type := mjCOMPTYPE_LOOP\<rparr>) \<and>
   Make test_env (default_composite\<lparr>type := mjCOMPTYPE_LOOP\<rparr>) (one_body_model ''world'') 0
     = (Failure ''Rope must be one-dimensional'', [loop_deprecated], one_body_model ''world'')"
proof -
  let ?cl = "default_composite\<lparr>type := mjCOMPTYPE_CLOTH\<rparr>"
  let ?lp = "default_composite\<lparr>type := mjCOMPTYPE_LOOP\<rparr>"
  have v1: "validate test_env ?cl = Inr ?cl"
    by (simp add: validate_def default_composite_def test_env_def)
  have v2: "validate test_env ?lp = Inr ?lp"
    by (simp add: validate_def default_composite_def test_env_def)
  have r: "MakeRope ?lp (one_body_model ''world'') 0
             = (Failure ''Rope must be one-dimensional'', one_body_model ''world'')"
    by (simp add: MakeRope_def default_composite_def)
  show ?thesis
    using Make_deprecated [of ?cl test_env "one_body_model ''world''" 0]
          Make_deprecated [of ?lp test_env "one_body_model ''world''" 0] v1 v2 r
    by simp
qed

subsection \<open>The rope builder\<close>

text \<open>
  Claim C8, as stated, fails: a loop composite with all counts 1 passes the checks of
  \<^verbatim>\<open>Make\<close> with \<open>dim = 0\<close> and reaches \<^verbatim>\<open>MakeRope\<close>, which rejects it for its
  dimension before it looks at the name of the body, here \<open>x\<close>, which does not begin
  with \<open>rB\<close>.
\<close>

theorem MakeRope_dim_first:
  "Make test_env (default_composite\<lparr>type := mjCOMPTYPE_LOOP, prefix := ''r''\<rparr>) (one_body_model ''x'') 0
     = (Failure ''Rope must be one-dimensional'', [loop_deprecated], one_body_model ''x'')
   \<and> take (length ''rB'') (body_name (bodies (one_body_model ''x'') ! 0)) \<noteq> ''rB''
   \<and> ''Rope must be one-dimensional'' \<noteq> ''rB must be the beginning of root body name''"
  by (simp add: Make_def validate_def default_composite_def test_env_def MakeRope_def
        one_body_model_def empty_body_def)

lemma root_txt_short: "length (prefix c) < 199 \<Longrightarrow> root_txt c = prefix c @ ''B''"
  by (simp add: root_txt_def sprintf_arr_def)

text \<open>
  Claim C8, amended. For a composite that reaches \<^verbatim>\<open>MakeRope\<close> with \<open>dim = 1\<close>:
  if the name of the body given does not begin with \<open><prefix>B\<close>, or what follows does not
  convert to an integer, or the integer is outside \<open>[0, count[0])\<close>, then \<^verbatim>\<open>MakeRope\<close>
  fails with the message of that check and the model is as it was; otherwise the three
  checks pass and \<^verbatim>\<open>MakeRope\<close> succeeds. Here \<open><prefix>B\<close> and what follows it are the
  contents of the array of 200 characters (\<open>root_txt\<close>, \<open>root_rest\<close>), which is
  \<open><prefix>B\<close> itself for a prefix of less than 199 characters, and the integer is the
  one that \<^verbatim>\<open>sscanf\<close> stores in the 32-bit \<^verbatim>\<open>int\<close>.
\<close>

theorem MakeRope_checks:
  assumes "dim c = 1"
  shows "(length (prefix c) < 199 \<longrightarrow> root_txt c = prefix c @ ''B'') \<and>
         (take (length (root_txt c)) (body_name (bodies m ! body)) \<noteq> root_txt c \<longrightarrow>
            MakeRope c m body =
              (Failure (strcat_arr 200 (root_txt c) '' must be the beginning of root body name''), m)) \<and>
         (take (length (root_txt c)) (body_name (bodies m ! body)) = root_txt c \<longrightarrow>
            (sscanf_d (root_rest c (body_name (bodies m ! body))) = None \<longrightarrow>
               MakeRope c m body = (Failure ''Root body name must contain X coordinate'', m)) \<and>
            (\<forall>ox. sscanf_d (root_rest c (body_name (bodies m ! body))) = Some ox \<longrightarrow>
               (ox < 0 \<or> count c 0 \<le> ox \<longrightarrow>
                  MakeRope c m body = (Failure ''Root body coordinate out of range'', m)) \<and>
               (0 \<le> ox \<and> ox < count c 0 \<longrightarrow> fst (MakeRope c m body) = Success)))"
  using assms by (auto simp: MakeRope_def Let_def root_txt_short)

theorem MakeRope_checks_witness:
  "dim (default_composite\<lparr>type := mjCOMPTYPE_LOOP, prefix := ''r'', dim := 1, count := (\<lambda>i. if i = 0 then 4 else 1)\<rparr>) = 1 \<and>
   MakeRope (default_composite\<lparr>type := mjCOMPTYPE_LOOP, prefix := ''r'', dim := 1, count := (\<lambda>i. if i = 0 then 4 else 1)\<rparr>)
      (one_body_model ''sB1'') 0 = (Failure ''rB must be the beginning of root body name'', one_body_model ''sB1'') \<and>
   MakeRope (default_composite\<lparr>type := mjCOMPTYPE_LOOP, prefix := ''r'', dim := 1, count := (\<lambda>i. if i = 0 then 4 else 1)\<rparr>)
      (one_body_model ''rBx'') 0 = (Failure ''Root body name must contain X coordinate'', one_body_model ''rBx'') \<and>
   MakeRope (default_composite\<lparr>type := mjCOMPTYPE_LOOP, prefix := ''r'', dim := 1, count := (\<lambda>i. if i = 0 then 4 else 1)\<rparr>)
      (one_body_model ''rB7'') 0 = (Failure ''Root body coordinate out of range'', one_body_model ''rB7'') \<and>
   fst (MakeRope (default_composite\<lparr>type := mjCOMPTYPE_LOOP, prefix := ''r'', dim := 1, count := (\<lambda>i. if i = 0 then 4 else 1)\<rparr>)
      (one_body_model ''rB1'') 0) = Success \<and>
   sscanf_d ''4294967297'' = Some 1 \<and>
   fst (MakeRope (default_composite\<lparr>type := mjCOMPTYPE_LOOP, prefix := ''r'', dim := 1, count := (\<lambda>i. if i = 0 then 4 else 1)\<rparr>)
      (one_body_model ''rB4294967297'') 0) = Success"
proof -
  let ?c = "default_composite\<lparr>type := mjCOMPTYPE_LOOP, prefix := ''r'', dim := 1, count := (\<lambda>i. if i = 0 then 4 else 1)\<rparr>"
  have d: "dim ?c = 1" by simp
  have p: "prefix ?c = ''r''" "count ?c 0 = 4" by simp_all
  have t: "root_txt ?c = ''rB''" by (simp add: root_txt_def sprintf_arr_def)
  have r: "root_rest ?c ''sB1'' = ''1''" "root_rest ?c ''rBx'' = ''x''" "root_rest ?c ''rB7'' = ''7''"
    "root_rest ?c ''rB1'' = ''1''" "root_rest ?c ''rB4294967297'' = ''4294967297''"
    by (simp_all add: root_rest_def t strcpy_arr_def)
  have s: "sscanf_d ''x'' = None" "sscanf_d ''7'' = Some 7" "sscanf_d ''1'' = Some 1"
    "sscanf_d ''4294967297'' = Some 1"
    by (simp_all add: sscanf_d_def isspace_def isdigit_def digit_val_def strtol_clamp_def int32_def)
  have m: "strcat_arr 200 ''rB'' '' must be the beginning of root body name''
             = ''rB must be the beginning of root body name''"
    by (simp add: strcat_arr_def)
  show ?thesis
    using MakeRope_checks [OF d, of "one_body_model ''sB1''" 0]
          MakeRope_checks [OF d, of "one_body_model ''rBx''" 0]
          MakeRope_checks [OF d, of "one_body_model ''rB7''" 0]
          MakeRope_checks [OF d, of "one_body_model ''rB1''" 0]
          MakeRope_checks [OF d, of "one_body_model ''rB4294967297''" 0] s
    by (simp add: p t r m one_body_model_def empty_body_def)
qed
subsection \<open>The cable builder\<close>

lemma cable_fold:
  "fold (\<lambda>ix (m', body'). AddCableBody c m' body' ix) ixs (m, b) = (m2, b2) \<Longrightarrow>
   \<exists>ps. length ps = length ixs \<and>
        bodies m2 = bodies m @ map (\<lambda>(p, ix). cable_body c p ix) (zip ps ixs)"
proof (induction ixs arbitrary: m b)
  case Nil
  then show ?case by simp
next
  case (Cons ix ixs)
  let ?m1 = "fst (AddCableBody c m b ix)"
  let ?b1 = "snd (AddCableBody c m b ix)"
  from Cons.prems have "fold (\<lambda>ix (m', body'). AddCableBody c m' body' ix) ixs (?m1, ?b1) = (m2, b2)"
    by simp
  from Cons.IH [OF this] obtain ps where ps: "length ps = length ixs"
    "bodies m2 = bodies ?m1 @ map (\<lambda>(p, ix). cable_body c p ix) (zip ps ixs)" by blast
  have "bodies ?m1 = bodies m @ [cable_body c b ix]" by (simp add: AddCableBody_def)
  with ps have "length (b # ps) = length (ix # ixs) \<and>
     bodies m2 = bodies m @ map (\<lambda>(p, ix). cable_body c p ix) (zip (b # ps) (ix # ixs))"
    by simp
  then show ?case by blast
qed

lemma cable_body_joints:
  "body_joints (cable_body c p ix) =
     (if ix \<noteq> 0 \<or> initial c \<noteq> ''none'' then [cable_joint c (ix = 0) (cable_this_joint c ix)] else [])"
  by (simp add: cable_body_def cable_first_def Let_def)

lemma cable_uservert_fields [simp]:
  "initial (cable_uservert e c) = initial c"
  "count (cable_uservert e c) = count c"
  by (simp_all add: cable_uservert_def)

lemma MakeCable_bodies:
  "\<exists>ps c1. initial c1 = initial c \<and>
      length ps = (if fst (MakeCable e c m body) = Success then nat (count c 0 - 1) else 0) \<and>
      bodies (snd (MakeCable e c m body)) =
        bodies m @ map (\<lambda>(p, ix). cable_body c1 p ix) (zip ps (range (int (length ps))))"
proof (cases "dim c \<noteq> 1 \<or> (def_geom_type c \<noteq> mjGEOM_CYLINDER \<and> def_geom_type c \<noteq> mjGEOM_CAPSULE \<and>
              def_geom_type c \<noteq> mjGEOM_BOX)")
  case True
  then have "MakeCable e c m body = (Failure ''Cable must be one-dimensional'', m) \<or>
             MakeCable e c m body = (Failure ''Cable geom type must be sphere, capsule or box'', m)"
    by (auto simp: MakeCable_def)
  then show ?thesis by (intro exI [of _ "[]"] exI [of _ c]) auto
next
  case False
  define c1 where "c1 = cable_uservert e c"
  define m1 where "m1 = m\<lparr>texts := texts m @ [(''composite_'' @ prefix c, ''rope_'' @ prefix c)]\<rparr>"
  define r where "r = fold (\<lambda>ix (m', body'). AddCableBody c1 m' body' ix) (range (count c1 0 - 1)) (m1, body)"
  from False have ok: "fst (MakeCable e c m body) = Success"
    by (auto simp: MakeCable_def Let_def)
  from False have b: "bodies (snd (MakeCable e c m body)) = bodies (fst r)"
    by (auto simp: MakeCable_def Let_def r_def c1_def m1_def)
  have "fold (\<lambda>ix (m', body'). AddCableBody c1 m' body' ix) (range (count c1 0 - 1)) (m1, body)
          = (fst r, snd r)" by (simp add: r_def)
  from cable_fold [OF this]
  obtain ps where ps: "length ps = length (range (count c1 0 - 1))"
     "bodies (fst r) = bodies m1 @ map (\<lambda>(p, ix). cable_body c1 p ix) (zip ps (range (count c1 0 - 1)))"
    by blast
  have len: "length ps = nat (count c 0 - 1)" using ps(1) by (simp add: c1_def)
  then have "range (count c1 0 - 1) = range (int (length ps))" by (simp add: range_def c1_def)
  with ps b ok len show ?thesis
    by (intro exI [of _ ps] exI [of _ c1]) (simp add: m1_def c1_def)
qed

text \<open>
  Claim C5. Of the bodies that \<^verbatim>\<open>MakeCable\<close> adds (one per segment, \<open>count[0] - 1\<close> of them
  when it succeeds), every body but the first carries exactly one joint, a ball joint. The
  first carries no joint when \<open>initial\<close> is \<open>none\<close>; exactly one, a free joint with damping,
  armature and frictionloss 0, when \<open>initial\<close> is \<open>free\<close>; and exactly one, a ball joint,
  otherwise.
\<close>

theorem MakeCable_joints:
  "\<exists>bs. bodies (snd (MakeCable e c m body)) = bodies m @ bs \<and>
     (fst (MakeCable e c m body) = Success \<longrightarrow> length bs = nat (count c 0 - 1)) \<and>
     (\<forall>k<length bs.
        (0 < k \<longrightarrow> (\<exists>j. body_joints (bs ! k) = [j] \<and> jnt_type j = mjJNT_BALL)) \<and>
        (k = 0 \<longrightarrow>
           (initial c = ''none'' \<longrightarrow> body_joints (bs ! k) = []) \<and>
           (initial c = ''free'' \<longrightarrow>
              (\<exists>j. body_joints (bs ! k) = [j] \<and> jnt_type j = mjJNT_FREE \<and>
                   jnt_damping j = 0 \<and> jnt_armature j = 0 \<and> jnt_frictionloss j = 0)) \<and>
           (initial c \<noteq> ''none'' \<and> initial c \<noteq> ''free'' \<longrightarrow>
              (\<exists>j. body_joints (bs ! k) = [j] \<and> jnt_type j = mjJNT_BALL))))"
proof -
  from MakeCable_bodies [of c e m body] obtain ps c1 where
    c1: "initial c1 = initial c" and
    len: "length ps = (if fst (MakeCable e c m body) = Success then nat (count c 0 - 1) else 0)" and
    bs: "bodies (snd (MakeCable e c m body)) =
           bodies m @ map (\<lambda>(p, ix). cable_body c1 p ix) (zip ps (range (int (length ps))))"
    by blast
  let ?bs = "map (\<lambda>(p, ix). cable_body c1 p ix) (zip ps (range (int (length ps))))"
  have nth: "?bs ! k = cable_body c1 (ps ! k) (int k)" if "k < length ps" for k
    using that by simp
  have "length ?bs = length ps" by simp
  moreover have "fst (MakeCable e c m body) = Success \<longrightarrow> length ?bs = nat (count c 0 - 1)"
    using len by simp
  moreover have "(0 < k \<longrightarrow> (\<exists>j. body_joints (?bs ! k) = [j] \<and> jnt_type j = mjJNT_BALL)) \<and>
        (k = 0 \<longrightarrow>
           (initial c = ''none'' \<longrightarrow> body_joints (?bs ! k) = []) \<and>
           (initial c = ''free'' \<longrightarrow>
              (\<exists>j. body_joints (?bs ! k) = [j] \<and> jnt_type j = mjJNT_FREE \<and>
                   jnt_damping j = 0 \<and> jnt_armature j = 0 \<and> jnt_frictionloss j = 0)) \<and>
           (initial c \<noteq> ''none'' \<and> initial c \<noteq> ''free'' \<longrightarrow>
              (\<exists>j. body_joints (?bs ! k) = [j] \<and> jnt_type j = mjJNT_BALL)))"
    if "k < length ps" for k
    unfolding nth [OF that] cable_body_joints
    by (simp add: c1 cable_joint_def Let_def)
  ultimately show ?thesis using bs by (intro exI [of _ ?bs]) simp
qed

theorem MakeCable_joints_witness:
  "fst (MakeCable test_env cable_example (one_body_model ''world'') 0) = Success \<and>
   initial cable_example = ''free'' \<and>
   (\<exists>bs. bodies (snd (MakeCable test_env cable_example (one_body_model ''world'') 0))
            = bodies (one_body_model ''world'') @ bs \<and>
         length bs = 3 \<and>
         (\<exists>j. body_joints (bs ! 0) = [j] \<and> jnt_type j = mjJNT_FREE \<and>
              jnt_damping j = 0 \<and> jnt_armature j = 0 \<and> jnt_frictionloss j = 0) \<and>
         (\<exists>j. body_joints (bs ! 2) = [j] \<and> jnt_type j = mjJNT_BALL))"
proof -
  have ok: "fst (MakeCable test_env cable_example (one_body_model ''world'') 0) = Success"
    by (simp add: MakeCable_def cable_example_def default_composite_def Let_def)
  have ini: "initial cable_example = ''free''"
    and cnt: "nat (count cable_example 0 - 1) = 3"
    by (simp_all add: cable_example_def)
  from MakeCable_joints [of test_env cable_example "one_body_model ''world''" 0] ok ini cnt
  obtain bs where bs:
    "bodies (snd (MakeCable test_env cable_example (one_body_model ''world'') 0))
       = bodies (one_body_model ''world'') @ bs"
    "length bs = 3"
    "\<forall>k<length bs.
        (0 < k \<longrightarrow> (\<exists>j. body_joints (bs ! k) = [j] \<and> jnt_type j = mjJNT_BALL)) \<and>
        (k = 0 \<longrightarrow>
              (\<exists>j. body_joints (bs ! k) = [j] \<and> jnt_type j = mjJNT_FREE \<and>
                   jnt_damping j = 0 \<and> jnt_armature j = 0 \<and> jnt_frictionloss j = 0))"
    by auto
  from bs(2) bs(3) [rule_format, of 0] have "\<exists>j. body_joints (bs ! 0) = [j] \<and> jnt_type j = mjJNT_FREE \<and>
              jnt_damping j = 0 \<and> jnt_armature j = 0 \<and> jnt_frictionloss j = 0"
    by simp
  moreover from bs(2) bs(3) [rule_format, of 2] have "\<exists>j. body_joints (bs ! 2) = [j] \<and> jnt_type j = mjJNT_BALL"
    by simp
  ultimately show ?thesis using ok ini bs(1,2) by blast
qed

subsection \<open>Index pairs and triples\<close>

lemma distinct_concat_map:
  "\<lbrakk>distinct xs; \<And>x. x \<in> set xs \<Longrightarrow> distinct (f x);
    \<And>x y. \<lbrakk>x \<in> set xs; y \<in> set xs; x \<noteq> y\<rbrakk> \<Longrightarrow> set (f x) \<inter> set (f y) = {}\<rbrakk>
   \<Longrightarrow> distinct (concat (map f xs))"
proof (induction xs)
  case Nil
  then show ?case by simp
next
  case (Cons x xs)
  have "distinct (concat (map f xs))" using Cons.prems by (intro Cons.IH) auto
  moreover have "distinct (f x)" using Cons.prems by simp
  moreover have "set (f x) \<inter> set (f y) = {}" if "y \<in> set xs" for y
    using Cons.prems(1) that by (intro Cons.prems(3)) auto
  ultimately show ?case by auto
qed

lemma length_filter_eq:
  "distinct xs \<Longrightarrow> x \<in> set xs \<Longrightarrow> length (filter (\<lambda>y. y = x) xs) = 1"
  by (induction xs) (auto simp: filter_empty_conv)

lemma length_filter_inj:
  assumes "distinct xs" "inj_on f (set xs)" "x \<in> set xs"
  shows "length (filter (\<lambda>y. f y = f x) xs) = 1"
proof -
  have "filter (\<lambda>y. f y = f x) xs = filter (\<lambda>y. y = x) xs"
    using assms(2,3) by (intro filter_cong refl) (auto dest: inj_onD)
  then show ?thesis using assms(1,3) by (simp add: length_filter_eq)
qed

lemma set_pairs [simp]: "set (pairs a b) = {0..<a} \<times> {0..<b}"
  by (auto simp: pairs_def)

lemma distinct_pairs [simp]: "distinct (pairs a b)"
  unfolding pairs_def by (intro distinct_concat_map) (auto simp: distinct_map inj_on_def)

lemma length_pairs [simp]: "length (pairs a b) = nat a * nat b"
  unfolding pairs_def by (subst length_concat_map_uniform [where m = "nat b"]) simp_all

lemma nth_pairs:
  assumes "i < nat a" "j < nat b"
  shows "pairs a b ! (i * nat b + j) = (int i, int j)"
proof -
  have "pairs a b ! (i * nat b + j) = map (\<lambda>ix. map (\<lambda>iy. (ix, iy)) (range b)) (range a) ! i ! j"
    unfolding pairs_def using assms by (intro nth_concat_uniform) auto
  then show ?thesis using assms by simp
qed

lemma set_triples [simp]: "set (triples a b c) = {0..<a} \<times> {0..<b} \<times> {0..<c}"
  by (auto simp: triples_def)

lemma triples_pairs: "triples a b c = concat (map (\<lambda>ix. map (\<lambda>(iy, iz). (ix, iy, iz)) (pairs b c)) (range a))"
  by (simp add: triples_def pairs_def map_concat comp_def)

lemma distinct_triples [simp]: "distinct (triples a b c)"
  unfolding triples_pairs by (intro distinct_concat_map) (auto simp: distinct_map inj_on_def)

lemma length_triples [simp]: "length (triples a b c) = nat a * nat b * nat c"
  unfolding triples_pairs
  by (subst length_concat_map_uniform [where m = "nat b * nat c"]) simp_all

lemma range_2 [simp]: "range 2 = [0, 1]"
  by (simp add: range_def upt_rec numeral_eq_Suc)

lemma range_3 [simp]: "range 3 = [0, 1, 2]"
  by (simp add: range_def upt_rec numeral_eq_Suc)

subsection \<open>The grid builder\<close>


lemma grid_cells_eq:
  "grid_cells c = map (\<lambda>(ix, iy). (0, ix, iy)) (pairs (count c 0 - 1) (count c 1)) @
                  map (\<lambda>(ix, iy). (1, ix, iy)) (pairs (count c 0) (count c 1 - 1))"
  by (simp add: grid_cells_def pairs_def b2i_def map_concat comp_def)

lemma distinct_grid_cells: "distinct (grid_cells c)"
  by (auto simp: grid_cells_eq distinct_map inj_on_def)

lemma set_grid_cells:
  "set (grid_cells c) =
     {(i, ix, iy). (i = 0 \<and> 0 \<le> ix \<and> ix < count c 0 - 1 \<and> 0 \<le> iy \<and> iy < count c 1) \<or>
                   (i = 1 \<and> 0 \<le> ix \<and> ix < count c 0 \<and> 0 \<le> iy \<and> iy < count c 1 - 1)}"
  by (auto simp: grid_cells_eq)

lemma length_grid_cells:
  "length (grid_cells c) = nat (count c 0 - 1) * nat (count c 1) + nat (count c 0) * nat (count c 1 - 1)"
  by (simp add: grid_cells_eq)

lemma MakeGrid_result:
  assumes "fst (MakeGrid e c m body) = Success"
  shows "bodies (snd (MakeGrid e c m body)) = bodies m @ grid_bodies c body"
    and "tendons (snd (MakeGrid e c m body)) =
           tendons m @ grid_tendons c @
           (if add c mjCOMPKIND_SHEAR
            then map (\<lambda>(ix, iy).
                 \<lparr>ten_name = name2 (prefix c) ''TS'' ix iy,
                  ten_def = mjCOMPKIND_SHEAR,
                  ten_group = None,
                  ten_wrap = [WrapSite (name2 (prefix c) ''S'' ix iy),
                              WrapSite (name2 (prefix c) ''S'' (ix + 1) (iy + 1))]\<rparr>)
              (shear_cells c) else [])"
    and "equalities (snd (MakeGrid e c m body)) =
           equalities m @ grid_equalities c @
           (if add c mjCOMPKIND_SHEAR
            then map (\<lambda>(ix, iy).
                 \<lparr>eq_type = mjEQ_TENDON, eq_name1 = name2 (prefix c) ''TS'' ix iy,
                  eq_name2 = [], eq_def = Some mjCOMPKIND_SHEAR\<rparr>)
              (shear_cells c) else [])"
  using assms by (auto simp: MakeGrid_def Let_def MakeShear_def split: if_splits)


lemma length_grid_bodies [simp]:
  "length (grid_bodies c body) = nat (count c 0) * nat (count c 1)"
  by (simp add: grid_bodies_def)

lemma nth_grid_bodies:
  assumes "0 \<le> ix" "ix < count c 0" "0 \<le> iy" "iy < count c 1"
  shows "grid_bodies c body ! (nat ix * nat (count c 1) + nat iy) = grid_body c body ix iy"
proof -
  have i: "nat ix < nat (count c 0)" and j: "nat iy < nat (count c 1)" using assms by simp_all
  then have "nat ix * nat (count c 1) + nat iy < length (pairs (count c 0) (count c 1))"
    by (simp add: index_less)
  then have "grid_bodies c body ! (nat ix * nat (count c 1) + nat iy) =
             (\<lambda>(ix, iy). grid_body c body ix iy)
               (pairs (count c 0) (count c 1) ! (nat ix * nat (count c 1) + nat iy))"
    unfolding grid_bodies_def by (rule nth_map)
  also have "\<dots> = grid_body c body ix iy"
    unfolding nth_pairs [OF i j] using assms by simp
  finally show ?thesis .
qed



subsection \<open>Tendons and equality constraints of a grid\<close>

lemma S_notin_show_int: "CHR ''S'' \<notin> set (show_int i)"
proof -
  have "CHR ''S'' \<notin> set (digits n)" for n
  proof
    assume "CHR ''S'' \<in> set (digits n)"
    then have "CHR ''S'' \<in> set ''0123456789''" using digits_set by blast
    then show False by simp
  qed
  then show ?thesis by (simp add: show_int_def)
qed

lemma show_int_nonempty: "show_int i \<noteq> []"
  by (simp add: show_int_def digits_nonempty)

lemma show_int_0: "show_int 0 = ''0''"
  by (simp add: show_int_def digits.simps digit_char_def)

lemma fmt3_T_neq_fmt2_TS: "fmt3 p ''T'' i ix iy \<noteq> fmt2 p ''TS'' a b"
proof
  assume "fmt3 p ''T'' i ix iy = fmt2 p ''TS'' a b"
  then have eq: "show_int i @ ''_'' @ show_int ix @ ''_'' @ show_int iy =
             CHR ''S'' # show_int a @ ''_'' @ show_int b"
    by (simp add: fmt3_def fmt2_def)
  obtain ch rest where cr: "show_int i = ch # rest"
    using show_int_nonempty [of i] by (cases "show_int i") auto
  with eq have "ch = CHR ''S''" by simp
  with cr have "CHR ''S'' \<in> set (show_int i)" by simp
  then show False using S_notin_show_int by blast
qed

lemma fits_shear: "fits (fmt3 p ''T'' 0 ix iy) \<Longrightarrow> fits (fmt2 p ''TS'' ix iy)"
  by (simp add: fits_def fmt3_def fmt2_def show_int_0)

text \<open>The names of the main tendons, and those of the shear tendons, are pairwise
  distinct when the names of the main tendons fit the array.\<close>

lemma main_names_inj:
  assumes "\<forall>(i, ix, iy)\<in>set (grid_cells c). fits (fmt3 (prefix c) ''T'' i ix iy)"
  shows "inj_on (\<lambda>(i, ix, iy). name3 (prefix c) ''T'' i ix iy) (set (grid_cells c))"
proof (rule inj_onI)
  fix x y assume x: "x \<in> set (grid_cells c)" and y: "y \<in> set (grid_cells c)"
    and eq: "(case x of (i, ix, iy) \<Rightarrow> name3 (prefix c) ''T'' i ix iy) =
             (case y of (i, ix, iy) \<Rightarrow> name3 (prefix c) ''T'' i ix iy)"
  obtain i ix iy where xx: "x = (i, ix, iy)" by (cases x) auto
  obtain j jx jy where yy: "y = (j, jx, jy)" by (cases y) auto
  from assms x xx have fx: "fits (fmt3 (prefix c) ''T'' i ix iy)" by auto
  from assms y yy have fy: "fits (fmt3 (prefix c) ''T'' j jx jy)" by auto
  from eq have "fmt3 (prefix c) ''T'' i ix iy = fmt3 (prefix c) ''T'' j jx jy"
    by (simp add: xx yy name3_fits [OF fx] name3_fits [OF fy])
  then show "x = y" by (simp add: xx yy)
qed

lemma shear_cells_main:
  "(ix, iy) \<in> set (shear_cells c) \<Longrightarrow> (0, ix, iy) \<in> set (grid_cells c)"
  by (auto simp: shear_cells_def set_grid_cells)

lemma shear_names_inj:
  assumes "\<forall>(i, ix, iy)\<in>set (grid_cells c). fits (fmt3 (prefix c) ''T'' i ix iy)"
  shows "inj_on (\<lambda>(ix, iy). name2 (prefix c) ''TS'' ix iy) (set (shear_cells c))"
proof (rule inj_onI)
  fix x y assume x: "x \<in> set (shear_cells c)" and y: "y \<in> set (shear_cells c)"
    and eq: "(case x of (ix, iy) \<Rightarrow> name2 (prefix c) ''TS'' ix iy) =
             (case y of (ix, iy) \<Rightarrow> name2 (prefix c) ''TS'' ix iy)"
  obtain ix iy where xx: "x = (ix, iy)" by (cases x) auto
  obtain jx jy where yy: "y = (jx, jy)" by (cases y) auto
  from assms shear_cells_main [of ix iy c] x xx have fx: "fits (fmt2 (prefix c) ''TS'' ix iy)"
    by (auto intro: fits_shear)
  from assms shear_cells_main [of jx jy c] y yy have fy: "fits (fmt2 (prefix c) ''TS'' jx jy)"
    by (auto intro: fits_shear)
  from eq have "fmt2 (prefix c) ''TS'' ix iy = fmt2 (prefix c) ''TS'' jx jy"
    by (simp add: xx yy name2_fits [OF fx] name2_fits [OF fy])
  then show "x = y" by (simp add: xx yy)
qed

lemma main_shear_names:
  assumes "\<forall>(i, ix, iy)\<in>set (grid_cells c). fits (fmt3 (prefix c) ''T'' i ix iy)"
    and "x \<in> set (grid_cells c)" "y \<in> set (shear_cells c)"
  shows "(case x of (i, ix, iy) \<Rightarrow> name3 (prefix c) ''T'' i ix iy) \<noteq>
         (case y of (ix, iy) \<Rightarrow> name2 (prefix c) ''TS'' ix iy)"
proof -
  obtain i ix iy where xx: "x = (i, ix, iy)" by (cases x) auto
  obtain jx jy where yy: "y = (jx, jy)" by (cases y) auto
  from assms(1,2) xx have fx: "fits (fmt3 (prefix c) ''T'' i ix iy)" by auto
  from assms(1,3) shear_cells_main [of jx jy c] yy have fy: "fits (fmt2 (prefix c) ''TS'' jx jy)"
    by (auto intro: fits_shear)
  show ?thesis
    by (simp add: xx yy name3_fits [OF fx] name2_fits [OF fy] fmt3_T_neq_fmt2_TS)
qed

lemma int_length_grid_cells:
  assumes "1 \<le> count c 0" "1 \<le> count c 1"
  shows "int (length (grid_cells c)) = count c 0 * (count c 1 - 1) + count c 1 * (count c 0 - 1)"
proof -
  have "int (length (grid_cells c)) =
          int (nat (count c 0 - 1) * nat (count c 1) + nat (count c 0) * nat (count c 1 - 1))"
    by (simp add: length_grid_cells)
  also have "\<dots> = (count c 0 - 1) * count c 1 + count c 0 * (count c 1 - 1)"
    using assms by simp
  finally show ?thesis by (simp add: algebra_simps)
qed

lemma grid_body_sites:
  "map site_name (body_sites (grid_body c body ix iy)) = [name2 (prefix c) ''S'' ix iy]"
  by (simp add: grid_body_def)

text \<open>
  Claim C2, as stated, fails: the names are formatted into an array of 100 characters.
  On a grid of two by two cells whose prefix has 95 characters the tendons of the
  cells \<open>(0, 0)\<close> and \<open>(0, 1)\<close> along the first axis both get the name \<open><prefix>T0_0\<close>, so
  two equality constraints have the name of the first tendon as \<open>name1\<close>.
\<close>

theorem MakeGrid_cut_names:
  "fst (Make test_env grid_long (one_body_model ''world'') 0) = Success \<and>
   pin grid_long = [] \<and> length (prefix grid_long) = 95 \<and>
   map ten_def (tendons (snd (snd (Make test_env grid_long (one_body_model ''world'') 0))))
     = [mjCOMPKIND_TENDON, mjCOMPKIND_TENDON, mjCOMPKIND_TENDON, mjCOMPKIND_TENDON] \<and>
   map ten_name (tendons (snd (snd (Make test_env grid_long (one_body_model ''world'') 0))))
     = [prefix grid_long @ ''T0_0'', prefix grid_long @ ''T0_0'',
        prefix grid_long @ ''T1_0'', prefix grid_long @ ''T1_1''] \<and>
   map eq_type (equalities (snd (snd (Make test_env grid_long (one_body_model ''world'') 0))))
     = [mjEQ_TENDON, mjEQ_TENDON, mjEQ_TENDON, mjEQ_TENDON] \<and>
   map eq_name1 (equalities (snd (snd (Make test_env grid_long (one_body_model ''world'') 0))))
     = [prefix grid_long @ ''T0_0'', prefix grid_long @ ''T0_0'',
        prefix grid_long @ ''T1_0'', prefix grid_long @ ''T1_1'']"
  by code_simp

text \<open>
  Claim C2, amended. When \<^verbatim>\<open>MakeGrid\<close> succeeds on a grid with \<open>R = count[0] \<ge> 1\<close> and
  \<open>C = count[1] \<ge> 1\<close> (whatever the pin list is):
  \<^item> the tendons it creates from the main-tendon defaults are, in order, one for each
    member of a list \<open>cells\<close> without repetition of all triples \<open>(i, ix, iy)\<close> where the
    cell \<open>(ix, iy)\<close> has a next neighbour along the axis \<open>i\<close>; they number
    \<open>R*(C-1) + C*(R-1)\<close>; the tendon of \<open>(i, ix, iy)\<close> is named \<open><prefix>T<i>_<ix>_<iy>\<close> and
    wraps the site of the cell and the site of that neighbour, where the site of the body of
    a cell \<open>(ix, iy)\<close> is named \<open><prefix>S<ix>_<iy>\<close>;
  \<^item> the equality constraints it creates from the same defaults are, in the same order,
    one for each member of \<open>cells\<close>, with the name of the tendon as \<open>name1\<close>, and every
    equality constraint it creates is of type \<open>TENDON\<close>;
  \<^item> provided that the names of these tendons fit the array, that is have less than 100
    characters: for each of them exactly one of the equality constraints created is of
    type \<open>TENDON\<close> and has the name of the tendon as \<open>name1\<close>, and \<open>name1\<close> of every equality
    constraint created is the name of exactly one of the tendons created.
\<close>

theorem MakeGrid_tendons:
  assumes "fst (MakeGrid e c m body) = Success" "1 \<le> count c 0" "1 \<le> count c 1"
  shows "\<exists>bs ts qs cells.
           bodies (snd (MakeGrid e c m body)) = bodies m @ bs \<and>
           tendons (snd (MakeGrid e c m body)) = tendons m @ ts \<and>
           equalities (snd (MakeGrid e c m body)) = equalities m @ qs \<and>
           distinct cells \<and>
           set cells =
             {(i, ix, iy). (i = 0 \<and> 0 \<le> ix \<and> ix < count c 0 - 1 \<and> 0 \<le> iy \<and> iy < count c 1) \<or>
                           (i = 1 \<and> 0 \<le> ix \<and> ix < count c 0 \<and> 0 \<le> iy \<and> iy < count c 1 - 1)} \<and>
           int (length (filter (\<lambda>t. ten_def t = mjCOMPKIND_TENDON) ts)) =
             count c 0 * (count c 1 - 1) + count c 1 * (count c 0 - 1) \<and>
           map ten_name (filter (\<lambda>t. ten_def t = mjCOMPKIND_TENDON) ts) =
             map (\<lambda>(i, ix, iy). name3 (prefix c) ''T'' i ix iy) cells \<and>
           map ten_wrap (filter (\<lambda>t. ten_def t = mjCOMPKIND_TENDON) ts) =
             map (\<lambda>(i, ix, iy).
                    [WrapSite (name2 (prefix c) ''S'' ix iy),
                     WrapSite (name2 (prefix c) ''S'' (if i = 0 then ix + 1 else ix)
                                                      (if i = 1 then iy + 1 else iy))]) cells \<and>
           (\<forall>ix iy. 0 \<le> ix \<and> ix < count c 0 \<and> 0 \<le> iy \<and> iy < count c 1 \<longrightarrow>
              map site_name (body_sites (bs ! (nat ix * nat (count c 1) + nat iy))) =
                [name2 (prefix c) ''S'' ix iy]) \<and>
           map eq_name1 (filter (\<lambda>q. eq_def q = Some mjCOMPKIND_TENDON) qs) =
             map (\<lambda>(i, ix, iy). name3 (prefix c) ''T'' i ix iy) cells \<and>
           (\<forall>q\<in>set qs. eq_type q = mjEQ_TENDON) \<and>
           ((\<forall>(i, ix, iy)\<in>set cells. fits (fmt3 (prefix c) ''T'' i ix iy)) \<longrightarrow>
              (\<forall>t\<in>set ts. ten_def t = mjCOMPKIND_TENDON \<longrightarrow>
                 length (filter (\<lambda>q. eq_type q = mjEQ_TENDON \<and> eq_name1 q = ten_name t) qs) = 1) \<and>
              (\<forall>q\<in>set qs. length (filter (\<lambda>t. ten_name t = eq_name1 q) ts) = 1))"
proof -
  define sh where "sh = (if add c mjCOMPKIND_SHEAR then shear_cells c else [])"
  define tsh where "tsh = (\<lambda>(ix, iy).
                 \<lparr>ten_name = name2 (prefix c) ''TS'' ix iy,
                  ten_def = mjCOMPKIND_SHEAR,
                  ten_group = None,
                  ten_wrap = [WrapSite (name2 (prefix c) ''S'' ix iy),
                              WrapSite (name2 (prefix c) ''S'' (ix + 1) (iy + 1))]\<rparr>)"
  define qsh where "qsh = (\<lambda>(ix, iy).
                 \<lparr>eq_type = mjEQ_TENDON, eq_name1 = name2 (prefix c) ''TS'' ix iy,
                  eq_name2 = [], eq_def = Some mjCOMPKIND_SHEAR\<rparr>)"
  define tm where "tm = (\<lambda>(i, ix, iy). grid_tendon c i ix iy)"
  define qm where "qm = (\<lambda>(i, ix, iy).
            \<lparr>eq_type = mjEQ_TENDON, eq_name1 = ten_name (grid_tendon c i ix iy),
             eq_name2 = [], eq_def = Some mjCOMPKIND_TENDON\<rparr>)"
  define nm where "nm = (\<lambda>(i, ix, iy). name3 (prefix c) ''T'' i ix iy)"
  define ns where "ns = (\<lambda>(ix, iy). name2 (prefix c) ''TS'' ix iy)"
  let ?bs = "grid_bodies c body"
  let ?ts = "map tm (grid_cells c) @ map tsh sh"
  let ?qs = "map qm (grid_cells c) @ map qsh sh"
  have sh_sub: "set sh \<subseteq> set (shear_cells c)" by (auto simp: sh_def)
  have sh_dist: "distinct sh" by (simp add: sh_def shear_cells_def)
  have B: "bodies (snd (MakeGrid e c m body)) = bodies m @ ?bs"
    using MakeGrid_result(1) [OF assms(1)] .
  have T: "tendons (snd (MakeGrid e c m body)) = tendons m @ ?ts"
    using MakeGrid_result(2) [OF assms(1)]
    by (simp add: grid_tendons_def tm_def tsh_def sh_def)
  have Q: "equalities (snd (MakeGrid e c m body)) = equalities m @ ?qs"
    using MakeGrid_result(3) [OF assms(1)]
    by (simp add: grid_equalities_def qm_def qsh_def sh_def)
  have names: "ten_name (tm x) = nm x" "eq_name1 (qm x) = nm x"
     "ten_def (tm x) = mjCOMPKIND_TENDON" "eq_type (qm x) = mjEQ_TENDON"
     "eq_def (qm x) = Some mjCOMPKIND_TENDON" for x
    by (simp_all add: tm_def qm_def nm_def grid_tendon_def split: prod.splits)
  have wrap: "ten_wrap (tm x) =
      (case x of (i, ix, iy) \<Rightarrow>
         [WrapSite (name2 (prefix c) ''S'' ix iy),
          WrapSite (name2 (prefix c) ''S'' (if i = 0 then ix + 1 else ix)
                                           (if i = 1 then iy + 1 else iy))])" for x
    by (simp add: tm_def grid_tendon_def b2i_def split: prod.splits)
  have snames: "ten_name (tsh y) = ns y" "eq_name1 (qsh y) = ns y"
     "ten_def (tsh y) = mjCOMPKIND_SHEAR" "eq_type (qsh y) = mjEQ_TENDON"
     "eq_def (qsh y) = Some mjCOMPKIND_SHEAR" for y
    by (simp_all add: tsh_def qsh_def ns_def split: prod.splits)
  have fm: "filter (\<lambda>t. ten_def t = mjCOMPKIND_TENDON) ?ts = map tm (grid_cells c)"
    by (simp add: filter_map comp_def names snames)
  have fq: "filter (\<lambda>q. eq_def q = Some mjCOMPKIND_TENDON) ?qs = map qm (grid_cells c)"
    by (simp add: filter_map comp_def names snames)
  have n: "int (length (filter (\<lambda>t. ten_def t = mjCOMPKIND_TENDON) ?ts)) =
             count c 0 * (count c 1 - 1) + count c 1 * (count c 0 - 1)"
    unfolding fm using int_length_grid_cells [OF assms(2,3)] by simp
  have tn: "map ten_name (filter (\<lambda>t. ten_def t = mjCOMPKIND_TENDON) ?ts) =
             map (\<lambda>(i, ix, iy). name3 (prefix c) ''T'' i ix iy) (grid_cells c)"
    unfolding fm by (simp add: comp_def names nm_def)
  have tw: "map ten_wrap (filter (\<lambda>t. ten_def t = mjCOMPKIND_TENDON) ?ts) =
             map (\<lambda>(i, ix, iy).
                    [WrapSite (name2 (prefix c) ''S'' ix iy),
                     WrapSite (name2 (prefix c) ''S'' (if i = 0 then ix + 1 else ix)
                                                      (if i = 1 then iy + 1 else iy))]) (grid_cells c)"
    unfolding fm by (simp add: comp_def wrap)
  have st: "map site_name (body_sites (?bs ! (nat ix * nat (count c 1) + nat iy))) =
                [name2 (prefix c) ''S'' ix iy]"
    if "0 \<le> ix \<and> ix < count c 0 \<and> 0 \<le> iy \<and> iy < count c 1" for ix iy
  proof -
    from that have r: "0 \<le> ix" "ix < count c 0" "0 \<le> iy" "iy < count c 1" by simp_all
    show ?thesis unfolding nth_grid_bodies [OF r] by (rule grid_body_sites)
  qed
  have qn: "map eq_name1 (filter (\<lambda>q. eq_def q = Some mjCOMPKIND_TENDON) ?qs) =
             map (\<lambda>(i, ix, iy). name3 (prefix c) ''T'' i ix iy) (grid_cells c)"
    unfolding fq by (simp add: comp_def names nm_def)
  have qt: "\<forall>q\<in>set ?qs. eq_type q = mjEQ_TENDON"
    by (auto simp: names snames)
  have byname: "(\<forall>t\<in>set ?ts. ten_def t = mjCOMPKIND_TENDON \<longrightarrow>
                 length (filter (\<lambda>q. eq_type q = mjEQ_TENDON \<and> eq_name1 q = ten_name t) ?qs) = 1) \<and>
              (\<forall>q\<in>set ?qs. length (filter (\<lambda>t. ten_name t = eq_name1 q) ?ts) = 1)"
    if fit: "\<forall>(i, ix, iy)\<in>set (grid_cells c). fits (fmt3 (prefix c) ''T'' i ix iy)"
  proof (intro conjI ballI impI)
    have inj_m: "inj_on nm (set (grid_cells c))"
      unfolding nm_def using fit by (rule main_names_inj)
    have inj_s: "inj_on ns (set sh)"
      unfolding ns_def using shear_names_inj [OF fit] sh_sub by (rule inj_on_subset)
    have cross: "nm x \<noteq> ns y" if "x \<in> set (grid_cells c)" "y \<in> set sh" for x y
      using main_shear_names [OF fit that(1), of y] that(2) sh_sub
      by (auto simp: nm_def ns_def)
    have cm: "length (filter (\<lambda>x. nm x = nm cell) (grid_cells c)) = 1"
      if "cell \<in> set (grid_cells c)" for cell
      using distinct_grid_cells inj_m that by (rule length_filter_inj)
    have cs: "length (filter (\<lambda>x. ns x = ns cell) sh) = 1" if "cell \<in> set sh" for cell
      using sh_dist inj_s that by (rule length_filter_inj)
    {
      fix t assume t: "t \<in> set ?ts" "ten_def t = mjCOMPKIND_TENDON"
      then obtain cell where cell: "cell \<in> set (grid_cells c)" "t = tm cell"
        by (auto simp: snames)
      have "length (filter (\<lambda>q. eq_type q = mjEQ_TENDON \<and> eq_name1 q = ten_name t) (map qm (grid_cells c))) = 1"
        using cm [OF cell(1)] by (simp add: filter_map comp_def names cell(2))
      moreover have "filter (\<lambda>q. eq_type q = mjEQ_TENDON \<and> eq_name1 q = ten_name t) (map qsh sh) = []"
        using cross [OF cell(1)] cross [OF cell(1), symmetric] by (auto simp: filter_empty_conv snames names cell(2))
      ultimately show "length (filter (\<lambda>q. eq_type q = mjEQ_TENDON \<and> eq_name1 q = ten_name t) ?qs) = 1"
        by simp
    }
    {
      fix q assume "q \<in> set ?qs"
      then consider cell where "cell \<in> set (grid_cells c)" "q = qm cell"
        | cell where "cell \<in> set sh" "q = qsh cell" by auto
      then show "length (filter (\<lambda>t. ten_name t = eq_name1 q) ?ts) = 1"
      proof cases
        case 1
        have "length (filter (\<lambda>t. ten_name t = eq_name1 q) (map tm (grid_cells c))) = 1"
          using cm [OF 1(1)] by (simp add: filter_map comp_def names 1(2))
        moreover have "filter (\<lambda>t. ten_name t = eq_name1 q) (map tsh sh) = []"
          using cross [OF 1(1)] cross [OF 1(1), symmetric] by (auto simp: filter_empty_conv snames names 1(2))
        ultimately show ?thesis by simp
      next
        case 2
        have "length (filter (\<lambda>t. ten_name t = eq_name1 q) (map tsh sh)) = 1"
          using cs [OF 2(1)] by (simp add: filter_map comp_def snames 2(2))
        moreover have "filter (\<lambda>t. ten_name t = eq_name1 q) (map tm (grid_cells c)) = []"
          using cross [OF _ 2(1)] cross [OF _ 2(1), symmetric] by (auto simp: filter_empty_conv snames names 2(2))
        ultimately show ?thesis by simp
      qed
    }
  qed
  show ?thesis
    using B T Q distinct_grid_cells set_grid_cells [of c] n tn tw st qn qt byname
    by (intro exI [of _ ?bs] exI [of _ ?ts] exI [of _ ?qs] exI [of _ "grid_cells c"] conjI)
       (assumption | blast)+
qed


subsection \<open>Bodies and sites of a grid\<close>

lemma grid_sites:
  "concat (map body_sites (grid_bodies c body)) =
     map (\<lambda>(ix, iy). \<lparr>site_name = name2 (prefix c) ''S'' ix iy, site_type = mjGEOM_SPHERE\<rparr>)
       (pairs (count c 0) (count c 1))"
  by (induction "pairs (count c 0) (count c 1)")
     (simp_all add: grid_bodies_def grid_body_def map_concat comp_def case_prod_beta)

lemma pair_names_inj:
  assumes "\<forall>(ix, iy)\<in>set (pairs a b). fits (fmt2 p tag ix iy)"
  shows "inj_on (\<lambda>(ix, iy). name2 p tag ix iy) (set (pairs a b))"
proof (rule inj_onI)
  fix x y assume x: "x \<in> set (pairs a b)" and y: "y \<in> set (pairs a b)"
    and eq: "(case x of (ix, iy) \<Rightarrow> name2 p tag ix iy) = (case y of (ix, iy) \<Rightarrow> name2 p tag ix iy)"
  obtain ix iy where xx: "x = (ix, iy)" by (cases x) auto
  obtain jx jy where yy: "y = (jx, jy)" by (cases y) auto
  from assms x xx have fx: "fits (fmt2 p tag ix iy)" by auto
  from assms y yy have fy: "fits (fmt2 p tag jx jy)" by auto
  from eq have "fmt2 p tag ix iy = fmt2 p tag jx jy"
    by (simp add: xx yy name2_fits [OF fx] name2_fits [OF fy])
  then show "x = y" by (simp add: xx yy)
qed

lemma count_pair_name:
  assumes "\<forall>(ix, iy)\<in>set (pairs a b). fits (fmt2 p tag ix iy)"
    and "0 \<le> x" "x < a" "0 \<le> y" "y < b"
  shows "length (filter (\<lambda>cell. (case cell of (ix, iy) \<Rightarrow> name2 p tag ix iy) = name2 p tag x y)
                  (pairs a b)) = 1"
proof -
  have "(x, y) \<in> set (pairs a b)" using assms(2-5) by simp
  then have "length (filter (\<lambda>cell. (case cell of (ix, iy) \<Rightarrow> name2 p tag ix iy) =
                     (case (x, y) of (ix, iy) \<Rightarrow> name2 p tag ix iy)) (pairs a b)) = 1"
    using pair_names_inj [OF assms(1)] by (intro length_filter_inj) simp_all
  then show ?thesis by simp
qed

lemma count_site_name:
  assumes "\<forall>(ix, iy)\<in>set (pairs (count c 0) (count c 1)). fits (fmt2 (prefix c) ''S'' ix iy)"
    and "0 \<le> x" "x < count c 0" "0 \<le> y" "y < count c 1"
  shows "length (filter (\<lambda>s. site_name s = name2 (prefix c) ''S'' x y)
                  (concat (map body_sites (grid_bodies c body)))) = 1"
  using count_pair_name [OF assms]
  by (simp add: grid_sites filter_map comp_def case_prod_beta)

lemma site_exists:
  assumes "0 \<le> x" "x < count c 0" "0 \<le> y" "y < count c 1"
  shows "\<exists>b\<in>set (grid_bodies c body). \<exists>s\<in>set (body_sites b).
           site_name s = name2 (prefix c) ''S'' x y"
proof -
  have "(x, y) \<in> set (pairs (count c 0) (count c 1))" using assms by simp
  then have "grid_body c body x y \<in> set (grid_bodies c body)"
    unfolding grid_bodies_def by force
  moreover have "\<exists>s\<in>set (body_sites (grid_body c body x y)).
           site_name s = name2 (prefix c) ''S'' x y"
    by (simp add: grid_body_def)
  ultimately show ?thesis by blast
qed

text \<open>The wraps of the tendons of a grid: each is the site of a cell of the lattice.\<close>

lemma grid_wraps:
  assumes "t \<in> set (grid_tendons c @
           (if add c mjCOMPKIND_SHEAR
            then map (\<lambda>(ix, iy).
                 \<lparr>ten_name = name2 (prefix c) ''TS'' ix iy,
                  ten_def = mjCOMPKIND_SHEAR,
                  ten_group = None,
                  ten_wrap = [WrapSite (name2 (prefix c) ''S'' ix iy),
                              WrapSite (name2 (prefix c) ''S'' (ix + 1) (iy + 1))]\<rparr>)
              (shear_cells c) else []))"
    and "w \<in> set (ten_wrap t)"
  shows "\<exists>x y. 0 \<le> x \<and> x < count c 0 \<and> 0 \<le> y \<and> y < count c 1 \<and>
           w = WrapSite (name2 (prefix c) ''S'' x y)"
proof -
  from assms(1) consider i ix iy where "(i, ix, iy) \<in> set (grid_cells c)" "t = grid_tendon c i ix iy"
    | ix iy where "(ix, iy) \<in> set (shear_cells c)"
        "ten_wrap t = [WrapSite (name2 (prefix c) ''S'' ix iy),
                       WrapSite (name2 (prefix c) ''S'' (ix + 1) (iy + 1))]"
    by (auto simp: grid_tendons_def split: if_splits)
  then show ?thesis
  proof cases
    case 1
    from 1(1) have r: "0 \<le> ix \<and> ix < count c 0 \<and> 0 \<le> iy \<and> iy < count c 1"
      "0 \<le> ix + b2i (i = 0) \<and> ix + b2i (i = 0) < count c 0 \<and>
       0 \<le> iy + b2i (i = 1) \<and> iy + b2i (i = 1) < count c 1"
      by (auto simp: set_grid_cells b2i_def)
    from assms(2) 1(2) have "w = WrapSite (name2 (prefix c) ''S'' ix iy) \<or>
        w = WrapSite (name2 (prefix c) ''S'' (ix + b2i (i = 0)) (iy + b2i (i = 1)))"
      by (auto simp: grid_tendon_def)
    with r show ?thesis by blast
  next
    case 2
    from 2(1) have r: "0 \<le> ix \<and> ix < count c 0 \<and> 0 \<le> iy \<and> iy < count c 1"
      "0 \<le> ix + 1 \<and> ix + 1 < count c 0 \<and> 0 \<le> iy + 1 \<and> iy + 1 < count c 1"
      by (auto simp: shear_cells_def)
    from assms(2) 2(2) have "w = WrapSite (name2 (prefix c) ''S'' ix iy) \<or>
        w = WrapSite (name2 (prefix c) ''S'' (ix + 1) (iy + 1))"
      by auto
    with r show ?thesis by blast
  qed
qed

text \<open>
  Claim C10. When \<^verbatim>\<open>MakeGrid\<close> succeeds it adds one body for every lattice cell, pinned
  or not, in the order of the loops, and the body of the cell \<open>(ix, iy)\<close> is named after
  the cell and carries exactly one geom and exactly one site, named after the cell.
  Every wrap of every tendon that \<^verbatim>\<open>MakeGrid\<close> creates (main or shear) is a site wrap
  whose name is the name of a site of one of the bodies added. Moreover, if the names of the
  bodies fit the array of 100 characters, exactly one of the bodies added has the name of a
  given cell, and the name of every wrap is the name of exactly one of the sites added.
\<close>

theorem MakeGrid_cells_and_sites:
  assumes "fst (MakeGrid e c m body) = Success"
  shows "\<exists>bs ts. bodies (snd (MakeGrid e c m body)) = bodies m @ bs \<and>
           tendons (snd (MakeGrid e c m body)) = tendons m @ ts \<and>
           length bs = nat (count c 0) * nat (count c 1) \<and>
           (\<forall>ix iy. 0 \<le> ix \<and> ix < count c 0 \<and> 0 \<le> iy \<and> iy < count c 1 \<longrightarrow>
              body_name (bs ! (nat ix * nat (count c 1) + nat iy)) = name2 (prefix c) ''B'' ix iy \<and>
              (\<exists>g s. body_geoms (bs ! (nat ix * nat (count c 1) + nat iy)) = [g] \<and>
                     geom_name g = name2 (prefix c) ''G'' ix iy \<and>
                     body_sites (bs ! (nat ix * nat (count c 1) + nat iy)) = [s] \<and>
                     site_name s = name2 (prefix c) ''S'' ix iy)) \<and>
           (\<forall>t\<in>set ts. \<forall>w\<in>set (ten_wrap t).
              \<exists>nm. w = WrapSite nm \<and> (\<exists>b\<in>set bs. \<exists>s\<in>set (body_sites b). site_name s = nm)) \<and>
           ((\<forall>ix iy. 0 \<le> ix \<and> ix < count c 0 \<and> 0 \<le> iy \<and> iy < count c 1 \<longrightarrow>
               fits (fmt2 (prefix c) ''B'' ix iy)) \<longrightarrow>
            (\<forall>ix iy. 0 \<le> ix \<and> ix < count c 0 \<and> 0 \<le> iy \<and> iy < count c 1 \<longrightarrow>
               length (filter (\<lambda>b. body_name b = name2 (prefix c) ''B'' ix iy) bs) = 1) \<and>
            (\<forall>t\<in>set ts. \<forall>w\<in>set (ten_wrap t).
               \<exists>nm. w = WrapSite nm \<and>
                    length (filter (\<lambda>s. site_name s = nm) (concat (map body_sites bs))) = 1))"
proof -
  let ?bs = "grid_bodies c body"
  define ts where "ts = grid_tendons c @
           (if add c mjCOMPKIND_SHEAR
            then map (\<lambda>(ix, iy).
                 \<lparr>ten_name = name2 (prefix c) ''TS'' ix iy,
                  ten_def = mjCOMPKIND_SHEAR,
                  ten_group = None,
                  ten_wrap = [WrapSite (name2 (prefix c) ''S'' ix iy),
                              WrapSite (name2 (prefix c) ''S'' (ix + 1) (iy + 1))]\<rparr>)
              (shear_cells c) else [])"
  have B: "bodies (snd (MakeGrid e c m body)) = bodies m @ ?bs"
    and T: "tendons (snd (MakeGrid e c m body)) = tendons m @ ts"
    using MakeGrid_result [OF assms] by (simp_all add: ts_def)
  have L: "length ?bs = nat (count c 0) * nat (count c 1)" by simp
  have cells: "body_name (?bs ! (nat ix * nat (count c 1) + nat iy)) = name2 (prefix c) ''B'' ix iy \<and>
              (\<exists>g s. body_geoms (?bs ! (nat ix * nat (count c 1) + nat iy)) = [g] \<and>
                     geom_name g = name2 (prefix c) ''G'' ix iy \<and>
                     body_sites (?bs ! (nat ix * nat (count c 1) + nat iy)) = [s] \<and>
                     site_name s = name2 (prefix c) ''S'' ix iy)"
    if "0 \<le> ix \<and> ix < count c 0 \<and> 0 \<le> iy \<and> iy < count c 1" for ix iy
  proof -
    from that have r: "0 \<le> ix" "ix < count c 0" "0 \<le> iy" "iy < count c 1" by simp_all
    show ?thesis unfolding nth_grid_bodies [OF r] by (simp add: grid_body_def)
  qed
  have wraps: "\<exists>nm. w = WrapSite nm \<and> (\<exists>b\<in>set ?bs. \<exists>s\<in>set (body_sites b). site_name s = nm)"
    if "t \<in> set ts" "w \<in> set (ten_wrap t)" for t w
  proof -
    from grid_wraps [OF that(1) [unfolded ts_def] that(2)] obtain x y where
      r: "0 \<le> x" "x < count c 0" "0 \<le> y" "y < count c 1"
      and w: "w = WrapSite (name2 (prefix c) ''S'' x y)" by blast
    from site_exists [OF r] w show ?thesis by blast
  qed
  have byname: "(\<forall>ix iy. 0 \<le> ix \<and> ix < count c 0 \<and> 0 \<le> iy \<and> iy < count c 1 \<longrightarrow>
               length (filter (\<lambda>b. body_name b = name2 (prefix c) ''B'' ix iy) ?bs) = 1) \<and>
            (\<forall>t\<in>set ts. \<forall>w\<in>set (ten_wrap t).
               \<exists>nm. w = WrapSite nm \<and>
                    length (filter (\<lambda>s. site_name s = nm) (concat (map body_sites ?bs))) = 1)"
    if fit: "\<forall>ix iy. 0 \<le> ix \<and> ix < count c 0 \<and> 0 \<le> iy \<and> iy < count c 1 \<longrightarrow>
               fits (fmt2 (prefix c) ''B'' ix iy)"
  proof (intro conjI allI impI ballI)
    from fit have fB: "\<forall>(ix, iy)\<in>set (pairs (count c 0) (count c 1)). fits (fmt2 (prefix c) ''B'' ix iy)"
      by auto
    then have fS: "\<forall>(ix, iy)\<in>set (pairs (count c 0) (count c 1)). fits (fmt2 (prefix c) ''S'' ix iy)"
      using fits_tag2 [of "''B''" "''S''" "prefix c"] by auto
    {
      fix ix iy assume "0 \<le> ix \<and> ix < count c 0 \<and> 0 \<le> iy \<and> iy < count c 1"
      then have r: "0 \<le> ix" "ix < count c 0" "0 \<le> iy" "iy < count c 1" by simp_all
      show "length (filter (\<lambda>b. body_name b = name2 (prefix c) ''B'' ix iy) ?bs) = 1"
        using count_pair_name [OF fB r]
        by (simp add: grid_bodies_def filter_map comp_def case_prod_beta grid_body_def)
    }
    {
      fix t w assume tw: "t \<in> set ts" "w \<in> set (ten_wrap t)"
      from grid_wraps [OF tw(1) [unfolded ts_def] tw(2)] obtain x y where
        r: "0 \<le> x" "x < count c 0" "0 \<le> y" "y < count c 1"
        and w: "w = WrapSite (name2 (prefix c) ''S'' x y)" by blast
      from count_site_name [OF fS r] w
      show "\<exists>nm. w = WrapSite nm \<and>
                    length (filter (\<lambda>s. site_name s = nm) (concat (map body_sites ?bs))) = 1"
        by blast
    }
  qed
  show ?thesis
    using B T L cells wraps byname
    by (intro exI [of _ ?bs] exI [of _ ts] conjI) (assumption | blast)+
qed

lemma grid_example_ok:
  "fst (MakeGrid test_env grid_example (one_body_model ''world'') 0) = Success"
  by (simp add: MakeGrid_def grid_example_def default_composite_def Let_def)



subsection \<open>The properties on a grid of three by two cells\<close>

lemma grid_example_fields:
  "prefix grid_example = ''g''" "count grid_example 0 = 3" "count grid_example 1 = 2"
  "pin grid_example = [0, 1]"
  by (simp_all add: grid_example_def)

lemma grid_example_fits:
  "list_all (\<lambda>(i, ix, iy). fits (fmt3 ''g'' ''T'' i ix iy)) (grid_cells grid_example)"
  "list_all (\<lambda>(ix, iy). fits (fmt2 ''g'' ''B'' ix iy)) (pairs 3 2)"
  by code_simp+

theorem MakeGrid_tendons_witness:
  "fst (MakeGrid test_env grid_example (one_body_model ''world'') 0) = Success \<and>
   1 \<le> count grid_example 0 \<and> 1 \<le> count grid_example 1 \<and>
   list_all (\<lambda>(i, ix, iy). fits (fmt3 ''g'' ''T'' i ix iy)) (grid_cells grid_example) \<and>
   (\<exists>ts qs. tendons (snd (MakeGrid test_env grid_example (one_body_model ''world'') 0))
               = tendons (one_body_model ''world'') @ ts \<and>
            equalities (snd (MakeGrid test_env grid_example (one_body_model ''world'') 0))
               = equalities (one_body_model ''world'') @ qs \<and>
            int (length (filter (\<lambda>t. ten_def t = mjCOMPKIND_TENDON) ts)) = 7 \<and>
            (\<forall>t\<in>set ts. ten_def t = mjCOMPKIND_TENDON \<longrightarrow>
              length (filter (\<lambda>q. eq_type q = mjEQ_TENDON \<and> eq_name1 q = ten_name t) qs) = 1) \<and>
            (\<forall>q\<in>set qs. length (filter (\<lambda>t. ten_name t = eq_name1 q) ts) = 1))"
proof -
  have c: "1 \<le> count grid_example 0" "1 \<le> count grid_example 1"
    and v: "count grid_example 0 * (count grid_example 1 - 1) +
            count grid_example 1 * (count grid_example 0 - 1) = 7"
    by (simp_all add: grid_example_def)
  have fit: "\<forall>(i, ix, iy)\<in>set (grid_cells grid_example). fits (fmt3 ''g'' ''T'' i ix iy)"
    using grid_example_fits(1) by (simp add: list_all_iff)
  have s: "{(i, ix, iy). (i = 0 \<and> 0 \<le> ix \<and> ix < 3 - 1 \<and> 0 \<le> iy \<and> iy < 2) \<or>
                           (i = 1 \<and> 0 \<le> ix \<and> ix < 3 \<and> 0 \<le> iy \<and> iy < 2 - 1)}
           = set (grid_cells grid_example)"
    unfolding set_grid_cells grid_example_fields ..
  note M = MakeGrid_tendons [OF grid_example_ok c, unfolded v grid_example_fields s]
  from M show ?thesis
    apply (elim exE conjE)
    subgoal premises p for bs ts qs cells
    proof -
      from p(12) fit p(5) have
        "(\<forall>t\<in>set ts. ten_def t = mjCOMPKIND_TENDON \<longrightarrow>
                 length (filter (\<lambda>q. eq_type q = mjEQ_TENDON \<and> eq_name1 q = ten_name t) qs) = 1) \<and>
         (\<forall>q\<in>set qs. length (filter (\<lambda>t. ten_name t = eq_name1 q) ts) = 1)"
        by simp
      with grid_example_ok c grid_example_fits(1) p(2) p(3) p(6) show ?thesis
        by (intro conjI exI [of _ ts] exI [of _ qs]) simp_all
    qed
    done
qed

theorem MakeGrid_cells_and_sites_witness:
  "fst (MakeGrid test_env grid_example (one_body_model ''world'') 0) = Success \<and>
   list_all (\<lambda>(ix, iy). fits (fmt2 ''g'' ''B'' ix iy)) (pairs 3 2) \<and>
   (\<exists>bs ts. bodies (snd (MakeGrid test_env grid_example (one_body_model ''world'') 0))
               = bodies (one_body_model ''world'') @ bs \<and>
            tendons (snd (MakeGrid test_env grid_example (one_body_model ''world'') 0))
               = tendons (one_body_model ''world'') @ ts \<and>
            length bs = 6 \<and>
            body_name (bs ! 1) = name2 ''g'' ''B'' 0 1 \<and>
            (\<exists>g s. body_geoms (bs ! 1) = [g] \<and> geom_name g = name2 ''g'' ''G'' 0 1 \<and>
                   body_sites (bs ! 1) = [s] \<and> site_name s = name2 ''g'' ''S'' 0 1) \<and>
            length (filter (\<lambda>b. body_name b = name2 ''g'' ''B'' 0 1) bs) = 1 \<and>
            (\<forall>t\<in>set ts. \<forall>w\<in>set (ten_wrap t).
              \<exists>nm. w = WrapSite nm \<and>
                   length (filter (\<lambda>s. site_name s = nm) (concat (map body_sites bs))) = 1))"
proof -
  have fit: "\<forall>ix iy. 0 \<le> ix \<and> ix < 3 \<and> 0 \<le> iy \<and> iy < 2 \<longrightarrow> fits (fmt2 ''g'' ''B'' ix iy)"
  proof (intro allI impI)
    fix ix iy :: int assume "0 \<le> ix \<and> ix < 3 \<and> 0 \<le> iy \<and> iy < 2"
    then have "(ix, iy) \<in> set (pairs 3 2)" by simp
    with grid_example_fits(2) show "fits (fmt2 ''g'' ''B'' ix iy)"
      unfolding list_all_iff by blast
  qed
  from MakeGrid_cells_and_sites [OF grid_example_ok, unfolded grid_example_fields] obtain bs ts where
    bs: "bodies (snd (MakeGrid test_env grid_example (one_body_model ''world'') 0))
           = bodies (one_body_model ''world'') @ bs"
        "tendons (snd (MakeGrid test_env grid_example (one_body_model ''world'') 0))
           = tendons (one_body_model ''world'') @ ts"
        "length bs = nat 3 * nat 2"
    and cell: "\<forall>ix iy. 0 \<le> ix \<and> ix < 3 \<and> 0 \<le> iy \<and> iy < 2 \<longrightarrow>
              body_name (bs ! (nat ix * nat 2 + nat iy)) = name2 ''g'' ''B'' ix iy \<and>
              (\<exists>g s. body_geoms (bs ! (nat ix * nat 2 + nat iy)) = [g] \<and>
                     geom_name g = name2 ''g'' ''G'' ix iy \<and>
                     body_sites (bs ! (nat ix * nat 2 + nat iy)) = [s] \<and>
                     site_name s = name2 ''g'' ''S'' ix iy)"
    and imp: "(\<forall>ix iy. 0 \<le> ix \<and> ix < 3 \<and> 0 \<le> iy \<and> iy < 2 \<longrightarrow> fits (fmt2 ''g'' ''B'' ix iy)) \<longrightarrow>
            (\<forall>ix iy. 0 \<le> ix \<and> ix < 3 \<and> 0 \<le> iy \<and> iy < 2 \<longrightarrow>
               length (filter (\<lambda>b. body_name b = name2 ''g'' ''B'' ix iy) bs) = 1) \<and>
            (\<forall>t\<in>set ts. \<forall>w\<in>set (ten_wrap t).
               \<exists>nm. w = WrapSite nm \<and>
                    length (filter (\<lambda>s. site_name s = nm) (concat (map body_sites bs))) = 1)"
    by blast
  from cell [rule_format, of 0 1] have c1:
    "body_name (bs ! 1) = name2 ''g'' ''B'' 0 1 \<and>
     (\<exists>g s. body_geoms (bs ! 1) = [g] \<and> geom_name g = name2 ''g'' ''G'' 0 1 \<and>
            body_sites (bs ! 1) = [s] \<and> site_name s = name2 ''g'' ''S'' 0 1)"
    by simp
  from imp fit have u: "\<forall>ix iy. 0 \<le> ix \<and> ix < 3 \<and> 0 \<le> iy \<and> iy < 2 \<longrightarrow>
               length (filter (\<lambda>b. body_name b = name2 ''g'' ''B'' ix iy) bs) = 1"
    and wr: "\<forall>t\<in>set ts. \<forall>w\<in>set (ten_wrap t).
               \<exists>nm. w = WrapSite nm \<and>
                    length (filter (\<lambda>s. site_name s = nm) (concat (map body_sites bs))) = 1"
    by blast+
  from u [rule_format, of 0 1] have c2: "length (filter (\<lambda>b. body_name b = name2 ''g'' ''B'' 0 1) bs) = 1"
    by simp
  from bs(3) have l: "length bs = 6" by simp
  from grid_example_ok grid_example_fits(2) bs(1,2) l c1 c2 wr show ?thesis by blast
qed
subsection \<open>The skin of a grid\<close>








lemma MakeShear_skins [simp]: "skins (MakeShear c m) = skins m"
  by (simp add: MakeShear_def)




subsection \<open>The shell builder\<close>

lemma distinct_shell_points [simp]: "distinct (shell_points c)"
  by (simp add: shell_points_def)

lemma set_shell_points:
  "set (shell_points c) =
     {(ix, iy, iz). 0 \<le> ix \<and> ix < count c 0 \<and> 0 \<le> iy \<and> iy < count c 1 \<and>
                    0 \<le> iz \<and> iz < count c 2 \<and>
                    (ix = 0 \<or> ix = count c 0 - 1 \<or> iy = 0 \<or> iy = count c 1 - 1 \<or>
                     iz = 0 \<or> iz = count c 2 - 1)}"
  by (auto simp: shell_points_def on_shell_def)

lemma length_concat_if:
  "length (concat (map (\<lambda>p. if p = p0 then [g p] else []) ps)) = length (filter (\<lambda>p. p = p0) ps)"
  by (induction ps) auto

lemma fmt3_nonempty: "sprintf_arr 200 (fmt3 p ''J'' i j k) \<noteq> []"
  by (simp add: fmt3_def sprintf_arr_def)

text \<open>Names of lattice points that fit the array are pairwise distinct.\<close>

lemma triple_names_inj:
  assumes "\<forall>(ix, iy, iz)\<in>set (triples a b d). fits (fmt3 p tag ix iy iz)"
    and "(ix, iy, iz) \<in> set (triples a b d)" "(jx, jy, jz) \<in> set (triples a b d)"
  shows "name3 p tag ix iy iz = name3 p tag jx jy jz \<longleftrightarrow> (ix, iy, iz) = (jx, jy, jz)"
proof -
  from assms(1,2) have fx: "fits (fmt3 p tag ix iy iz)" by auto
  from assms(1,3) have fy: "fits (fmt3 p tag jx jy jz)" by auto
  show ?thesis by (simp add: name3_fits [OF fx] name3_fits [OF fy])
qed

lemma shell_in_lattice:
  "x \<in> set (shell_points c) \<Longrightarrow> x \<in> set (triples (count c 0) (count c 1) (count c 2))"
  by (simp add: shell_points_def)

lemma box_fix_count:
  assumes fit: "\<forall>(ix, iy, iz)\<in>set (triples (count c 0) (count c 1) (count c 2)).
                  fits (fmt3 (prefix c) ''J'' ix iy iz)"
    and pt: "(ix, iy, iz) \<in> set (shell_points c)"
  shows "length (filter (\<lambda>q. eq_type q = mjEQ_JOINT \<and> eq_name1 q = name3 (prefix c) ''J'' ix iy iz \<and>
                             eq_name2 q = [])
           (concat (map (\<lambda>(ix, iy, iz). box_equalities c ix iy iz) (shell_points c)))) = 1"
proof -
  let ?P = "\<lambda>q. eq_type q = mjEQ_JOINT \<and> eq_name1 q = name3 (prefix c) ''J'' ix iy iz \<and> eq_name2 q = []"
  let ?g = "\<lambda>p. \<lparr>eq_type = mjEQ_JOINT, eq_name1 = name3 (prefix c) ''J'' (fst p) (fst (snd p)) (snd (snd p)),
                eq_name2 = [], eq_def = Some mjCOMPKIND_JOINT\<rparr>"
  have nb: "filter ?P (box_neighbor_eqs c x y z) = []" for x y z
    by (auto simp: box_neighbor_eqs_def filter_empty_conv Let_def fmt3_nonempty split: if_splits)
  have one: "filter ?P (case p of (x, y, z) \<Rightarrow> box_equalities c x y z) =
        (if p = (ix, iy, iz) then [?g p] else [])" if "p \<in> set (shell_points c)" for p
  proof -
    obtain x y z where p: "p = (x, y, z)" by (cases p) auto
    have "name3 (prefix c) ''J'' x y z = name3 (prefix c) ''J'' ix iy iz \<longleftrightarrow> (x, y, z) = (ix, iy, iz)"
      using fit shell_in_lattice [OF that [unfolded p]] shell_in_lattice [OF pt]
      by (rule triple_names_inj)
    then show ?thesis by (auto simp: p box_equalities_def box_joint_def nb)
  qed
  have "filter ?P (concat (map (\<lambda>(ix, iy, iz). box_equalities c ix iy iz) (shell_points c))) =
        concat (map (\<lambda>p. filter ?P (case p of (x, y, z) \<Rightarrow> box_equalities c x y z)) (shell_points c))"
    by (simp add: filter_concat comp_def)
  also have "\<dots> = concat (map (\<lambda>p. if p = (ix, iy, iz) then [?g p] else []) (shell_points c))"
    by (intro arg_cong [where f = concat] map_cong refl one)
  finally show ?thesis using pt by (simp add: length_concat_if length_filter_eq)
qed

lemma box_eq_types:
  "q \<in> set (concat (map (\<lambda>(ix, iy, iz). box_equalities c ix iy iz) (shell_points c))) \<Longrightarrow>
   eq_type q = mjEQ_JOINT"
  by (auto simp: box_equalities_def box_neighbor_eqs_def Let_def split: if_splits)

lemma box_body_count:
  assumes fit: "\<forall>(ix, iy, iz)\<in>set (triples (count c 0) (count c 1) (count c 2)).
                  fits (fmt3 (prefix c) ''B'' ix iy iz)"
    and pt: "(ix, iy, iz) \<in> set (triples (count c 0) (count c 1) (count c 2))"
  shows "length (filter (\<lambda>b. body_name b = name3 (prefix c) ''B'' ix iy iz)
             (map (\<lambda>(ix, iy, iz). box_body c body ix iy iz) (shell_points c))) =
     (if (ix, iy, iz) \<in> set (shell_points c) then 1 else 0)"
proof -
  have eq: "(body_name (case p of (x, y, z) \<Rightarrow> box_body c body x y z) = name3 (prefix c) ''B'' ix iy iz)
            = (p = (ix, iy, iz))" if "p \<in> set (shell_points c)" for p
  proof -
    obtain x y z where p: "p = (x, y, z)" by (cases p) auto
    have "name3 (prefix c) ''B'' x y z = name3 (prefix c) ''B'' ix iy iz \<longleftrightarrow> (x, y, z) = (ix, iy, iz)"
      using fit shell_in_lattice [OF that [unfolded p]] pt by (rule triple_names_inj)
    then show ?thesis by (simp add: p box_body_def)
  qed
  have "filter (\<lambda>b. body_name b = name3 (prefix c) ''B'' ix iy iz)
             (map (\<lambda>(ix, iy, iz). box_body c body ix iy iz) (shell_points c)) =
        map (\<lambda>(ix, iy, iz). box_body c body ix iy iz) (filter (\<lambda>p. p = (ix, iy, iz)) (shell_points c))"
    unfolding filter_map comp_def
    by (intro arg_cong [where f = "map _"] filter_cong refl eq)
  then show ?thesis
    by (auto simp: length_filter_eq filter_empty_conv)
qed

text \<open>
  Claim C6, as stated, fails: the names are formatted into an array of 100 characters.
  In a box of two by two by two lattice points whose prefix has 95 characters the joints of
  the points \<open>(0, 0, 0)\<close> and \<open>(0, 0, 1)\<close> both get the name \<open><prefix>J0_0\<close>, and the first and
  the fifth equality constraint are both of type \<open>JOINT\<close> and name this joint, and no second
  joint.
\<close>

theorem MakeBox_cut_names:
  "fst (Make test_env box_long (one_body_model ''world'') 0) = Success \<and>
   length (prefix box_long) = 95 \<and>
   map jnt_name (body_joints
       (bodies (snd (snd (Make test_env box_long (one_body_model ''world'') 0))) ! 1))
     = [prefix box_long @ ''J0_0''] \<and>
   map jnt_name (body_joints
       (bodies (snd (snd (Make test_env box_long (one_body_model ''world'') 0))) ! 2))
     = [prefix box_long @ ''J0_0''] \<and>
   map eq_type (take 5 (equalities (snd (snd (Make test_env box_long (one_body_model ''world'') 0)))))
     = [mjEQ_JOINT, mjEQ_JOINT, mjEQ_JOINT, mjEQ_JOINT, mjEQ_JOINT] \<and>
   map eq_name1 (take 5 (equalities (snd (snd (Make test_env box_long (one_body_model ''world'') 0)))))
     = [prefix box_long @ ''J0_0'', prefix box_long @ ''J0_0'', prefix box_long @ ''J0_0'',
        prefix box_long @ ''J0_0'', prefix box_long @ ''J0_0''] \<and>
   map eq_name2 (take 5 (equalities (snd (snd (Make test_env box_long (one_body_model ''world'') 0)))))
     = [[], prefix box_long @ ''J1_0_0'', prefix box_long @ ''J0_1_0'',
        prefix box_long @ ''J0_0_1'', []]"
  by code_simp

text \<open>
  Claim C6, amended. For a composite with \<open>dim = 3\<close> whose names \<open><prefix>T\<close> and
  \<open><prefix>J<ix>_<iy>_<iz>\<close>, for the points \<open>(ix, iy, iz)\<close> of the lattice, fit the array of
  100 characters, \<^verbatim>\<open>MakeBox\<close> succeeds and
  \<^item> adds a body for a lattice point \<open>(ix, iy, iz)\<close> exactly when one of its coordinates
    is 0 or \<open>count[i] - 1\<close>: one body named after the point if so, none otherwise, and no
    other body; the bodies are those of a list without repetition of these points;
  \<^item> every such body carries exactly one joint, a sliding joint; exactly one equality
    constraint of type \<open>JOINT\<close> names this joint and no second joint (the constraints with
    the neighbours name two joints); and the joint is wrapped, with coefficient 1, by the
    tendon;
  \<^item> adds one tendon, named \<open><prefix>T\<close>, all of whose wraps are joint wraps;
  \<^item> adds exactly one equality constraint of type \<open>TENDON\<close>, and it names that tendon.
\<close>

theorem MakeBox_shell:
  assumes "dim c = 3"
    and "fits (prefix c @ ''T'')"
    and "\<forall>ix iy iz. 0 \<le> ix \<and> ix < count c 0 \<and> 0 \<le> iy \<and> iy < count c 1 \<and>
                     0 \<le> iz \<and> iz < count c 2 \<longrightarrow> fits (fmt3 (prefix c) ''J'' ix iy iz)"
  shows "fst (MakeBox e c m body) = Success \<and>
    (\<exists>bs t qs pts.
       bodies (snd (MakeBox e c m body)) =
         (bodies m)[body := (bodies m ! body)
            \<lparr>body_geoms := body_geoms (bodies m ! body) @
               [\<lparr>geom_name = name0 (prefix c) ''Gcenter'', geom_type = mjGEOM_SPHERE\<rparr>]\<rparr>] @ bs \<and>
       tendons (snd (MakeBox e c m body)) = tendons m @ [t] \<and>
       equalities (snd (MakeBox e c m body)) = equalities m @ qs \<and>
       ten_name t = prefix c @ ''T'' \<and>
       (\<forall>w\<in>set (ten_wrap t). \<exists>nm. w = WrapJoint nm 1) \<and>
       distinct pts \<and>
       set pts = {(ix, iy, iz). 0 \<le> ix \<and> ix < count c 0 \<and> 0 \<le> iy \<and> iy < count c 1 \<and>
                    0 \<le> iz \<and> iz < count c 2 \<and>
                    (ix = 0 \<or> ix = count c 0 - 1 \<or> iy = 0 \<or> iy = count c 1 - 1 \<or>
                     iz = 0 \<or> iz = count c 2 - 1)} \<and>
       map body_name bs = map (\<lambda>(ix, iy, iz). name3 (prefix c) ''B'' ix iy iz) pts \<and>
       (\<forall>ix iy iz. 0 \<le> ix \<and> ix < count c 0 \<and> 0 \<le> iy \<and> iy < count c 1 \<and> 0 \<le> iz \<and> iz < count c 2 \<longrightarrow>
          length (filter (\<lambda>b. body_name b = name3 (prefix c) ''B'' ix iy iz) bs) =
            (if ix = 0 \<or> ix = count c 0 - 1 \<or> iy = 0 \<or> iy = count c 1 - 1 \<or>
                iz = 0 \<or> iz = count c 2 - 1 then 1 else 0)) \<and>
       (\<forall>b\<in>set bs.
          (\<exists>ix iy iz. 0 \<le> ix \<and> ix < count c 0 \<and> 0 \<le> iy \<and> iy < count c 1 \<and>
                      0 \<le> iz \<and> iz < count c 2 \<and>
                      (ix = 0 \<or> ix = count c 0 - 1 \<or> iy = 0 \<or> iy = count c 1 - 1 \<or>
                       iz = 0 \<or> iz = count c 2 - 1) \<and>
                      body_name b = name3 (prefix c) ''B'' ix iy iz) \<and>
          (\<exists>j. body_joints b = [j] \<and> jnt_type j = mjJNT_SLIDE \<and>
               length (filter (\<lambda>q. eq_type q = mjEQ_JOINT \<and> eq_name1 q = jnt_name j \<and>
                                    eq_name2 q = []) qs) = 1 \<and>
               WrapJoint (jnt_name j) 1 \<in> set (ten_wrap t))) \<and>
       length (filter (\<lambda>q. eq_type q = mjEQ_TENDON) qs) = 1 \<and>
       (\<forall>q\<in>set qs. eq_type q = mjEQ_TENDON \<longrightarrow> eq_name1 q = ten_name t))"
proof -
  let ?pts = "shell_points c"
  let ?bs = "map (\<lambda>(ix, iy, iz). box_body c body ix iy iz) ?pts"
  let ?je = "concat (map (\<lambda>(ix, iy, iz). box_equalities c ix iy iz) ?pts)"
  define te where "te = \<lparr>eq_type = mjEQ_TENDON, eq_name1 = name0 (prefix c) ''T'', eq_name2 = [],
                         eq_def = Some mjCOMPKIND_TENDON\<rparr>"
  define t where "t = \<lparr>ten_name = name0 (prefix c) ''T'', ten_def = mjCOMPKIND_TENDON, ten_group = None,
       ten_wrap = map (\<lambda>(ix, iy, iz). WrapJoint (jnt_name (box_joint c ix iy iz)) 1) ?pts\<rparr>"
  let ?qs = "?je @ [te]"
  from assms(3) have fJ: "\<forall>(ix, iy, iz)\<in>set (triples (count c 0) (count c 1) (count c 2)).
                  fits (fmt3 (prefix c) ''J'' ix iy iz)"
    by auto
  then have fB: "\<forall>(ix, iy, iz)\<in>set (triples (count c 0) (count c 1) (count c 2)).
                  fits (fmt3 (prefix c) ''B'' ix iy iz)"
    using fits_tag3 [of "''J''" "''B''" "prefix c"] by auto
  have ok: "fst (MakeBox e c m body) = Success"
    using assms(1) by (simp add: MakeBox_def Let_def)
  have B: "bodies (snd (MakeBox e c m body)) =
         (bodies m)[body := (bodies m ! body)
            \<lparr>body_geoms := body_geoms (bodies m ! body) @
               [\<lparr>geom_name = name0 (prefix c) ''Gcenter'', geom_type = mjGEOM_SPHERE\<rparr>]\<rparr>] @ ?bs"
    and T: "tendons (snd (MakeBox e c m body)) = tendons m @ [t]"
    and Q: "equalities (snd (MakeBox e c m body)) = equalities m @ ?qs"
    using assms(1) by (simp_all add: MakeBox_def Let_def t_def te_def)
  have tn: "ten_name t = prefix c @ ''T''" by (simp add: t_def name0_fits [OF assms(2)])
  have tw: "\<forall>w\<in>set (ten_wrap t). \<exists>nm. w = WrapJoint nm 1" by (auto simp: t_def)
  have bn: "map body_name ?bs = map (\<lambda>(ix, iy, iz). name3 (prefix c) ''B'' ix iy iz) ?pts"
    by (simp add: comp_def case_prod_beta box_body_def)
  have cnt: "length (filter (\<lambda>b. body_name b = name3 (prefix c) ''B'' ix iy iz) ?bs) =
            (if ix = 0 \<or> ix = count c 0 - 1 \<or> iy = 0 \<or> iy = count c 1 - 1 \<or>
                iz = 0 \<or> iz = count c 2 - 1 then 1 else 0)"
    if "0 \<le> ix \<and> ix < count c 0 \<and> 0 \<le> iy \<and> iy < count c 1 \<and> 0 \<le> iz \<and> iz < count c 2"
    for ix iy iz
  proof -
    from that have "(ix, iy, iz) \<in> set (triples (count c 0) (count c 1) (count c 2))" by simp
    from box_body_count [OF fB this] that show ?thesis by (simp add: set_shell_points)
  qed
  have tcount: "length (filter (\<lambda>q. eq_type q = mjEQ_TENDON) ?qs) = 1"
    using box_eq_types [of _ c] by (auto simp: te_def filter_empty_conv)
  have tname: "\<forall>q\<in>set ?qs. eq_type q = mjEQ_TENDON \<longrightarrow> eq_name1 q = ten_name t"
    using box_eq_types [of _ c] by (auto simp: te_def t_def)
  have each: "(\<exists>ix iy iz. 0 \<le> ix \<and> ix < count c 0 \<and> 0 \<le> iy \<and> iy < count c 1 \<and>
                      0 \<le> iz \<and> iz < count c 2 \<and>
                      (ix = 0 \<or> ix = count c 0 - 1 \<or> iy = 0 \<or> iy = count c 1 - 1 \<or>
                       iz = 0 \<or> iz = count c 2 - 1) \<and>
                      body_name b = name3 (prefix c) ''B'' ix iy iz) \<and>
          (\<exists>j. body_joints b = [j] \<and> jnt_type j = mjJNT_SLIDE \<and>
               length (filter (\<lambda>q. eq_type q = mjEQ_JOINT \<and> eq_name1 q = jnt_name j \<and>
                                    eq_name2 q = []) ?qs) = 1 \<and>
               WrapJoint (jnt_name j) 1 \<in> set (ten_wrap t))"
    if "b \<in> set ?bs" for b
  proof -
    from that obtain ix iy iz where p: "(ix, iy, iz) \<in> set ?pts" and b: "b = box_body c body ix iy iz"
      by auto
    from p have r: "0 \<le> ix \<and> ix < count c 0 \<and> 0 \<le> iy \<and> iy < count c 1 \<and>
                      0 \<le> iz \<and> iz < count c 2 \<and>
                      (ix = 0 \<or> ix = count c 0 - 1 \<or> iy = 0 \<or> iy = count c 1 - 1 \<or>
                       iz = 0 \<or> iz = count c 2 - 1)"
      by (simp add: set_shell_points)
    have n: "body_name b = name3 (prefix c) ''B'' ix iy iz" by (simp add: b box_body_def)
    have j: "body_joints b = [box_joint c ix iy iz]" "jnt_type (box_joint c ix iy iz) = mjJNT_SLIDE"
      "jnt_name (box_joint c ix iy iz) = name3 (prefix c) ''J'' ix iy iz"
      by (simp_all add: b box_body_def box_joint_def)
    have q: "length (filter (\<lambda>q. eq_type q = mjEQ_JOINT \<and> eq_name1 q = jnt_name (box_joint c ix iy iz) \<and>
                                    eq_name2 q = []) ?qs) = 1"
      using box_fix_count [OF fJ p] by (simp add: j(3) te_def)
    have w: "WrapJoint (jnt_name (box_joint c ix iy iz)) 1 \<in> set (ten_wrap t)"
      using p by (force simp: t_def)
    from r n j(1,2) q w show ?thesis by blast
  qed
  show ?thesis
    using ok B T Q tn tw distinct_shell_points [of c] set_shell_points [of c] bn cnt each tcount tname
    by (intro conjI exI [of _ ?bs] exI [of _ t] exI [of _ ?qs] exI [of _ ?pts])
       (assumption | blast)+
qed

lemma box_example_fits:
  "fits (''b'' @ ''T'')" "list_all (\<lambda>(ix, iy, iz). fits (fmt3 ''b'' ''J'' ix iy iz)) (triples 3 3 3)"
  by code_simp+

theorem MakeBox_shell_witness:
  "dim box_example = 3 \<and> fits (''b'' @ ''T'') \<and>
   list_all (\<lambda>(ix, iy, iz). fits (fmt3 ''b'' ''J'' ix iy iz)) (triples 3 3 3) \<and>
   fst (MakeBox test_env box_example (one_body_model ''world'') 0) = Success \<and>
   (\<exists>(bs :: mjmBody list) t qs.
      bodies (snd (MakeBox test_env box_example (one_body_model ''world'') 0)) =
         (bodies (one_body_model ''world''))[0 := (bodies (one_body_model ''world'') ! 0)
            \<lparr>body_geoms := body_geoms (bodies (one_body_model ''world'') ! 0) @
               [\<lparr>geom_name = name0 ''b'' ''Gcenter'', geom_type = mjGEOM_SPHERE\<rparr>]\<rparr>] @ bs \<and>
      tendons (snd (MakeBox test_env box_example (one_body_model ''world'') 0))
        = tendons (one_body_model ''world'') @ [t] \<and>
      equalities (snd (MakeBox test_env box_example (one_body_model ''world'') 0))
        = equalities (one_body_model ''world'') @ qs \<and>
      ten_name t = ''bT'' \<and>
      length (filter (\<lambda>b. body_name b = name3 ''b'' ''B'' 1 1 1) bs) = 0 \<and>
      length (filter (\<lambda>b. body_name b = name3 ''b'' ''B'' 0 1 1) bs) = 1 \<and>
      length (filter (\<lambda>q. eq_type q = mjEQ_TENDON) qs) = 1)"
proof -
  have d: "dim box_example = 3" by (simp add: box_example_def)
  have f: "prefix box_example = ''b''" "count box_example 0 = 3" "count box_example 1 = 3"
    "count box_example 2 = 3"
    by (simp_all add: box_example_def)
  have fT: "fits (prefix box_example @ ''T'')" using box_example_fits(1) by (simp add: f)
  have fJ: "\<forall>ix iy iz. 0 \<le> ix \<and> ix < count box_example 0 \<and> 0 \<le> iy \<and> iy < count box_example 1 \<and>
                     0 \<le> iz \<and> iz < count box_example 2 \<longrightarrow> fits (fmt3 (prefix box_example) ''J'' ix iy iz)"
  proof (intro allI impI)
    fix ix iy iz :: int
    assume "0 \<le> ix \<and> ix < count box_example 0 \<and> 0 \<le> iy \<and> iy < count box_example 1 \<and>
                     0 \<le> iz \<and> iz < count box_example 2"
    then have "(ix, iy, iz) \<in> set (triples 3 3 3)" unfolding f by simp
    with box_example_fits(2) show "fits (fmt3 (prefix box_example) ''J'' ix iy iz)"
      unfolding list_all_iff f by blast
  qed
  note M = MakeBox_shell [OF d fT fJ, of test_env "one_body_model ''world''" 0, unfolded f]
  from M have ok: "fst (MakeBox test_env box_example (one_body_model ''world'') 0) = Success"
    by (rule conjunct1)
  from M [THEN conjunct2] show ?thesis
    apply (elim exE conjE)
    subgoal premises p for bs t qs pts
      using d ok box_example_fits p(1) p(2) p(3) p(4) p(9) [rule_format, of 1 1 1]
        p(9) [rule_format, of 0 1 1] p(11)
      by (intro conjI exI [of _ bs] exI [of _ t] exI [of _ qs]) simp_all
    done
qed
subsection \<open>The particle builder\<close>

lemma particle_fields [simp]:
  "uservert (particle_userface e c) = uservert c"
  "username (particle_userface e c) = username c"
  "prefix (particle_userface e c) = prefix c"
  "offset (particle_userface e c) = offset c"
  by (simp_all add: particle_userface_def)

lemma particle_populate_fields:
  assumes "uservert c = []"
  shows "uservert (particle_populate c) = concat (map (lattice_vert c) (lattice c))"
    and "username (particle_populate c) = username c @ map (lattice_name c) (lattice c)"
    and "prefix (particle_populate c) = prefix c"
    and "offset (particle_populate c) = offset c"
  using assms by (simp_all add: particle_populate_def)

lemma MakeParticle_bodies:
  assumes "fst (MakeParticle e c m body) = Success"
  shows "bodies (snd (MakeParticle e c m body)) =
           bodies m @ map (particle_body (particle_userface e (particle_populate c)) body)
                        [0..<length (uservert (particle_populate c)) div 3]"
  using assms by (auto simp: MakeParticle_def Let_def split: if_splits)

lemma length_lattice_vert [simp]: "length (lattice_vert c p) = 3"
  by (simp add: lattice_vert_def split: prod.splits)

lemma length_lattice_uservert:
  "length (concat (map (lattice_vert c) (lattice c))) = length (lattice c) * 3"
  by (rule length_concat_map_uniform) simp

lemma nth_lattice_uservert:
  assumes "i < length (lattice c)" "k < 3"
  shows "concat (map (lattice_vert c) (lattice c)) ! (3 * i + k) = lattice_vert c (lattice c ! i) ! k"
proof -
  have "concat (map (lattice_vert c) (lattice c)) ! (i * 3 + k) =
        map (lattice_vert c) (lattice c) ! i ! k"
    using assms by (intro nth_concat_uniform) auto
  then show ?thesis using assms(1) by (simp add: mult.commute)
qed

lemma map_via_nth: "map (\<lambda>i. f (xs ! i)) [0..<length xs] = map f xs"
proof -
  have "map (\<lambda>i. f (xs ! i)) [0..<length xs] = map f (map (\<lambda>i. xs ! i) [0..<length xs])"
    by (simp add: comp_def)
  then show ?thesis by (simp only: map_nth)
qed

text \<open>The position that the body loop gives to the lattice point \<open>p\<close>.\<close>

lemma lattice_body:
  assumes "uservert c = []" "username c = []" "i < length (lattice c)"
  shows "body_name (particle_body (particle_userface e (particle_populate c)) body i) =
           lattice_name c (lattice c ! i)"
    and "body_pos (particle_body (particle_userface e (particle_populate c)) body i) =
           Some (offset c 0 + lattice_vert c (lattice c ! i) ! 0,
                 offset c 1 + lattice_vert c (lattice c ! i) ! 1,
                 offset c 2 + lattice_vert c (lattice c ! i) ! 2)"
proof -
  let ?c2 = "particle_userface e (particle_populate c)"
  have v: "uservert ?c2 = concat (map (lattice_vert c) (lattice c))"
    and n: "username ?c2 = map (lattice_name c) (lattice c)"
    and o: "offset ?c2 = offset c"
    using assms(1,2) by (simp_all add: particle_populate_fields)
  have ne: "username ?c2 \<noteq> []" using assms(3) unfolding n by auto
  show "body_name (particle_body ?c2 body i) = lattice_name c (lattice c ! i)"
    using ne assms(3) n by (simp add: particle_body_def)
  have "uservert ?c2 ! (3 * i) = lattice_vert c (lattice c ! i) ! 0"
    using nth_lattice_uservert [OF assms(3), of 0] v by simp
  moreover have "uservert ?c2 ! (3 * i + 1) = lattice_vert c (lattice c ! i) ! 1"
    using nth_lattice_uservert [OF assms(3), of 1] v by simp
  moreover have "uservert ?c2 ! (3 * i + 2) = lattice_vert c (lattice c ! i) ! 2"
    using nth_lattice_uservert [OF assms(3), of 2] v by simp
  ultimately show "body_pos (particle_body ?c2 body i) =
           Some (offset c 0 + lattice_vert c (lattice c ! i) ! 0,
                 offset c 1 + lattice_vert c (lattice c ! i) ! 1,
                 offset c 2 + lattice_vert c (lattice c ! i) ! 2)"
    using o by (simp add: particle_body_def)
qed

lemma lattice_bodies:
  assumes "fst (MakeParticle e c m body) = Success" "uservert c = []" "username c = []"
  shows "\<exists>bs. bodies (snd (MakeParticle e c m body)) = bodies m @ bs \<and>
           map body_name bs = map (lattice_name c) (lattice c) \<and>
           map body_pos bs =
             map (\<lambda>p. Some (offset c 0 + lattice_vert c p ! 0,
                             offset c 1 + lattice_vert c p ! 1,
                             offset c 2 + lattice_vert c p ! 2)) (lattice c)"
proof -
  let ?c2 = "particle_userface e (particle_populate c)"
  let ?bs = "map (particle_body ?c2 body) [0..<length (lattice c)]"
  have "length (uservert (particle_populate c)) div 3 = length (lattice c)"
    using assms(2) by (simp add: particle_populate_fields length_lattice_uservert)
  then have b: "bodies (snd (MakeParticle e c m body)) = bodies m @ ?bs"
    using MakeParticle_bodies [OF assms(1)] by simp
  have "map body_name ?bs = map (\<lambda>i. lattice_name c (lattice c ! i)) [0..<length (lattice c)]"
    using assms(2,3) by (simp add: lattice_body)
  then have n: "map body_name ?bs = map (lattice_name c) (lattice c)"
    by (simp only: map_via_nth)
  have "map body_pos ?bs =
          map (\<lambda>i. Some (offset c 0 + lattice_vert c (lattice c ! i) ! 0,
                          offset c 1 + lattice_vert c (lattice c ! i) ! 1,
                          offset c 2 + lattice_vert c (lattice c ! i) ! 2)) [0..<length (lattice c)]"
    using assms(2,3) by (simp add: lattice_body)
  then have p: "map body_pos ?bs =
          map (\<lambda>p. Some (offset c 0 + lattice_vert c p ! 0,
                          offset c 1 + lattice_vert c p ! 1,
                          offset c 2 + lattice_vert c p ! 2)) (lattice c)"
    by (simp only: map_via_nth [where f = "\<lambda>p. Some (offset c 0 + lattice_vert c p ! 0,
                          offset c 1 + lattice_vert c p ! 1,
                          offset c 2 + lattice_vert c p ! 2)"])
  from b n p show ?thesis by blast
qed

lemma range_first: "1 \<le> n \<Longrightarrow> range n = 0 # map int [1..<nat n]"
  by (simp add: range_def upt_conv_Cons)

lemma range_final: "1 \<le> n \<Longrightarrow> range n = map int [0..<nat n - 1] @ [n - 1]"
proof -
  assume n: "1 \<le> n"
  then have "nat n = Suc (nat n - 1)" by simp
  then have "[0..<nat n] = [0..<nat n - 1] @ [nat n - 1]"
    by (metis upt_Suc_append zero_le)
  then show ?thesis using n by (simp add: range_def)
qed

lemma hd_triples:
  assumes "1 \<le> a" "1 \<le> b" "1 \<le> c"
  shows "hd (triples a b c) = (0, 0, 0)"
  unfolding triples_def by (simp add: range_first [OF assms(1)] range_first [OF assms(2)]
      range_first [OF assms(3)])

lemma last_triples:
  assumes "1 \<le> a" "1 \<le> b" "1 \<le> c"
  shows "last (triples a b c) = (a - 1, b - 1, c - 1)"
  unfolding triples_def by (simp add: range_final [OF assms(1)] range_final [OF assms(2)]
      range_final [OF assms(3)])

lemma triples_nonempty: "1 \<le> a \<Longrightarrow> 1 \<le> b \<Longrightarrow> 1 \<le> c \<Longrightarrow> triples a b c \<noteq> []"
  by (simp add: triples_def range_first)

text \<open>
  What \<^verbatim>\<open>MakeParticle\<close> does for a composite without prescribed vertices and names and
  with all \<open>count[i] \<ge> 1\<close>, when it succeeds: it adds \<open>count[0]*count[1]*count[2]\<close> bodies,
  one per lattice point \<open>(ix, iy, iz)\<close> in the order of the loops, named
  \<open><prefix>B<ix>_<iy>_<iz>\<close> (as far as the array of 100 characters holds the name), at
  \<open>offset[k] + spacing*(i\<^sub>k - count[k]/2)\<close> in each coordinate \<open>k\<close>. The first and the
  last body are the corners \<open>offset[k] - spacing*count[k]/2\<close> and
  \<open>offset[k] + spacing*(count[k]/2 - 1)\<close> of the lattice, whose middle is
  \<open>offset[k] - spacing/2\<close>.
\<close>

lemma MakeParticle_lattice:
  assumes "fst (MakeParticle e c m body) = Success" "uservert c = []" "username c = []"
    "1 \<le> count c 0" "1 \<le> count c 1" "1 \<le> count c 2"
  shows "\<exists>bs. bodies (snd (MakeParticle e c m body)) = bodies m @ bs \<and>
           int (length bs) = count c 0 * count c 1 * count c 2 \<and>
           map body_name bs =
             map (\<lambda>(ix, iy, iz). name3 (prefix c) ''B'' ix iy iz)
               (triples (count c 0) (count c 1) (count c 2)) \<and>
           map body_pos bs =
             map (\<lambda>(ix, iy, iz).
                    Some (offset c 0 + spacing c * (real_of_int ix - real_of_int (count c 0) / 2),
                          offset c 1 + spacing c * (real_of_int iy - real_of_int (count c 1) / 2),
                          offset c 2 + spacing c * (real_of_int iz - real_of_int (count c 2) / 2)))
               (triples (count c 0) (count c 1) (count c 2)) \<and>
           body_pos (hd bs) =
             Some (offset c 0 - spacing c * real_of_int (count c 0) / 2,
                   offset c 1 - spacing c * real_of_int (count c 1) / 2,
                   offset c 2 - spacing c * real_of_int (count c 2) / 2) \<and>
           body_pos (last bs) =
             Some (offset c 0 + spacing c * (real_of_int (count c 0) / 2 - 1),
                   offset c 1 + spacing c * (real_of_int (count c 1) / 2 - 1),
                   offset c 2 + spacing c * (real_of_int (count c 2) / 2 - 1))"
proof -
  let ?T = "triples (count c 0) (count c 1) (count c 2)"
  let ?P = "\<lambda>(ix, iy, iz).
              Some (offset c 0 + spacing c * (real_of_int ix - real_of_int (count c 0) / 2),
                    offset c 1 + spacing c * (real_of_int iy - real_of_int (count c 1) / 2),
                    offset c 2 + spacing c * (real_of_int iz - real_of_int (count c 2) / 2))"
  from lattice_bodies [OF assms(1-3)] obtain bs where
    b: "bodies (snd (MakeParticle e c m body)) = bodies m @ bs" and
    n: "map body_name bs = map (lattice_name c) (lattice c)" and
    p: "map body_pos bs =
             map (\<lambda>p. Some (offset c 0 + lattice_vert c p ! 0,
                             offset c 1 + lattice_vert c p ! 1,
                             offset c 2 + lattice_vert c p ! 2)) (lattice c)"
    by blast
  have ne: "?T \<noteq> []" using assms(4-6) by (rule triples_nonempty)
  have "length (map body_name bs) = length ?T" unfolding n by (simp add: lattice_def)
  then have len: "length bs = length ?T" by simp
  then have bne: "bs \<noteq> []" using ne by (metis length_0_conv)
  have l: "int (length bs) = count c 0 * count c 1 * count c 2"
    unfolding len using assms(4-6) by simp
  have n2: "map body_name bs = map (\<lambda>(ix, iy, iz). name3 (prefix c) ''B'' ix iy iz) ?T"
    unfolding n lattice_def by (intro map_cong refl) (auto simp: lattice_name_def)
  have p2: "map body_pos bs = map ?P ?T"
    unfolding p lattice_def by (intro map_cong refl) (auto simp: lattice_vert_def)
  have "body_pos (hd bs) = hd (map body_pos bs)" using bne by (simp add: hd_map)
  also have "\<dots> = ?P (hd ?T)" unfolding p2 using ne by (simp add: hd_map)
  finally have h: "body_pos (hd bs) =
             Some (offset c 0 - spacing c * real_of_int (count c 0) / 2,
                   offset c 1 - spacing c * real_of_int (count c 1) / 2,
                   offset c 2 - spacing c * real_of_int (count c 2) / 2)"
    unfolding hd_triples [OF assms(4-6)] by simp
  have "body_pos (last bs) = last (map body_pos bs)" using bne by (simp add: last_map)
  also have "\<dots> = ?P (last ?T)" unfolding p2 using ne by (simp add: last_map)
  finally have "body_pos (last bs) = ?P (count c 0 - 1, count c 1 - 1, count c 2 - 1)"
    unfolding last_triples [OF assms(4-6)] .
  then have t: "body_pos (last bs) =
             Some (offset c 0 + spacing c * (real_of_int (count c 0) / 2 - 1),
                   offset c 1 + spacing c * (real_of_int (count c 1) / 2 - 1),
                   offset c 2 + spacing c * (real_of_int (count c 2) / 2 - 1))"
    by (simp add: algebra_simps)
  from b l n2 p2 h t show ?thesis by blast
qed

text \<open>
  Claim C3: the code does not do what the claim says. A particle composite of one particle
  (all counts 1) with spacing 1, offset \<open>(0, 0, 0)\<close> and no prescribed vertices is accepted
  by \<^verbatim>\<open>Make\<close>, and its only body is put at \<open>(-1/2, -1/2, -1/2)\<close>, not at the offset: the
  expression \<^verbatim>\<open>spacing*(ix - 0.5*count[0])\<close> takes off half the count where the middle of
  the indices \<open>0, \<dots>, count[0] - 1\<close> is half of \<open>count[0] - 1\<close>.
\<close>

theorem MakeParticle_off_centre:
  "fst (Make test_env particle_one (one_body_model ''world'') 0) = Success \<and>
   map body_name (bodies (snd (snd (Make test_env particle_one (one_body_model ''world'') 0))))
     = [''world'', ''pB0_0_0''] \<and>
   map body_pos (bodies (snd (snd (Make test_env particle_one (one_body_model ''world'') 0))))
     = [None, Some (- (1 / 2), - (1 / 2), - (1 / 2))] \<and>
   (offset particle_one 0, offset particle_one 1, offset particle_one 2) = (0, 0, 0) \<and>
   (count particle_one 0, count particle_one 1, count particle_one 2) = (1, 1, 1) \<and>
   spacing particle_one = 1 \<and> uservert particle_one = []"
  by code_simp

end
